(* ===== verification/Chess_Prelude.thy ===== *)
theory Chess_Prelude
  imports Main
begin

text \<open>
  Shared vocabulary of the chess-engine model of \<open>src/renderer.js\<close>: the piece tags of
  the source (two-character strings such as \<open>"wP"\<close>, \<open>"bK"\<close>, and \<open>""\<close> for an empty
  square) as datatypes, the board as a list of eight rows of optional pieces, squares as
  pairs of JavaScript numbers (kept as \<open>int\<close>, since the code computes \<open>row + dir\<close> and
  tests the result with \<open>inBounds\<close>), the decimal printing of numbers used by the
  position encoder, and the list lemmas the component theories share.
\<close>

section \<open>Colours, piece kinds, pieces\<close>

text \<open>\<open>'w'\<close> and \<open>'b'\<close> of the source.\<close>

datatype color = White | Black

text \<open>The second character of a tag: \<open>P N B R Q K\<close>.\<close>

datatype kind = Pawn | Knight | Bishop | Rook | Queen | King

text \<open>A non-empty tag \<open>color + kind\<close>; \<open>pcolor\<close> and \<open>pkind\<close> read its two characters.\<close>

datatype piece = Piece (pcolor: color) (pkind: kind)

type_synonym cell = "piece option"
type_synonym board = "cell list list"
type_synonym square = "int \<times> int"

text \<open>The source writes \<open>color === "w" ? "b" : "w"\<close> wherever it needs the opponent.\<close>

fun enemy_of :: "color \<Rightarrow> color" where
  "enemy_of White = Black"
| "enemy_of Black = White"

lemma enemy_of_neq [simp]: "enemy_of c \<noteq> c" "c \<noteq> enemy_of c"
  by (cases c; simp)+

lemma enemy_of_enemy_of [simp]: "enemy_of (enemy_of c) = c"
  by (cases c) simp_all

lemma enemy_of_eq_iff [simp]: "enemy_of c = d \<longleftrightarrow> c \<noteq> d"
  by (cases c; cases d) simp_all

section \<open>Collections of facts\<close>

named_theorems board_simps "evaluation rules for boards, cells and squares"
named_theorems state_simps "field equations of the engine's state records"

section \<open>Decimal printing\<close>

text \<open>
  \<open>Number.prototype.toString\<close> on the non-negative integers the source prints: the
  run lengths of empty squares, the halfmove clock and the fullmove number.
\<close>

fun nat_str :: "nat \<Rightarrow> string" where
  "nat_str n =
     (if n < 10 then [char_of (48 + n)]
      else nat_str (n div 10) @ [char_of (48 + n mod 10)])"

declare nat_str.simps [simp del]

lemma nat_str_small [simp]: "n < 10 \<Longrightarrow> nat_str n = [char_of (48 + n)]"
  by (simp add: nat_str.simps)

lemma nat_str_nonempty [simp]: "nat_str n \<noteq> []"
  by (subst nat_str.simps) simp

text \<open>A character code other than 32 (mod 256) is not a space.\<close>

lemma char_of_not_space: "(n::nat) mod 256 \<noteq> 32 \<Longrightarrow> CHR '' '' \<noteq> char_of n"
proof
  assume n: "(n::nat) mod 256 \<noteq> 32" and "CHR '' '' = char_of n"
  then have "(of_char (char_of n)::nat) = of_char (CHR '' '')" by simp
  then show False using n by (simp add: of_char_of)
qed

lemma nat_str_no_space: "CHR '' '' \<notin> set (nat_str n)"
proof (induction n rule: nat_str.induct)
  case (1 n)
  have d: "\<And>k::nat. k < 10 \<Longrightarrow> char_of (48 + k) \<noteq> CHR '' ''"
  proof -
    fix k :: nat assume "k < 10"
    then have "(48 + k) mod 256 \<noteq> 32" by simp
    then show "char_of (48 + k) \<noteq> CHR '' ''" by (metis char_of_not_space)
  qed
  show ?case
  proof (cases "n < 10")
    case True
    then show ?thesis using d[OF True] by fastforce
  next
    case False
    then show ?thesis using "1.IH" d[of "n mod 10"] by (subst nat_str.simps) auto
  qed
qed

section \<open>JavaScript string helpers\<close>

text \<open>\<open>Array.prototype.join(sep)\<close> on strings.\<close>

fun join_str :: "string \<Rightarrow> string list \<Rightarrow> string" where
  "join_str sep [] = []"
| "join_str sep [x] = x"
| "join_str sep (x # xs) = x @ sep @ join_str sep xs"

text \<open>\<open>String.prototype.split(sep)\<close> with a one-character separator.\<close>

fun split_str :: "char \<Rightarrow> string \<Rightarrow> string list" where
  "split_str sep [] = [[]]"
| "split_str sep (x # xs) =
     (if x = sep then [] # split_str sep xs
      else (case split_str sep xs of w # ws \<Rightarrow> (x # w) # ws | [] \<Rightarrow> [[x]]))"

lemma split_str_nonempty [simp]: "split_str sep s \<noteq> []"
  by (induction s) (auto split: list.split)

lemma split_str_no_sep: "sep \<notin> set x \<Longrightarrow> split_str sep x = [x]"
  by (induction x) auto

lemma split_str_append_sep:
  "sep \<notin> set x \<Longrightarrow> split_str sep (x @ sep # r) = x # split_str sep r"
  by (induction x) auto

lemma split_str_join_str:
  "\<forall>w \<in> set ws. sep \<notin> set w \<Longrightarrow> ws \<noteq> [] \<Longrightarrow> split_str sep (join_str [sep] ws) = ws"
proof (induction ws)
  case (Cons x xs)
  then show ?case
    by (cases xs) (simp_all add: split_str_no_sep split_str_append_sep)
qed simp

section \<open>Lists of rows\<close>

text \<open>A two-level update \<open>b[r][c] = v\<close> on a list of rows, read back.\<close>

lemma nth_nested_update:
  "xss[i := (xss ! i)[j := v]] ! i' ! j' =
     (if i' = i \<and> j' = j \<and> i < length xss \<and> j < length (xss ! i) then v else xss ! i' ! j')"
  by (cases "i < length xss") (auto simp: nth_list_update list_update_beyond not_less)

lemma length_nested_update [simp]:
  "length (xss[i := (xss ! i)[j := v]]) = length xss"
  by simp

lemma rows_nested_update:
  "\<forall>row \<in> set xss. length row = n \<Longrightarrow>
   \<forall>row \<in> set (xss[i := (xss ! i)[j := v]]). length row = n"
proof (cases "i < length xss")
  case True
  assume rows: "\<forall>row \<in> set xss. length row = n"
  with True have "length ((xss ! i)[j := v]) = n" by simp
  with rows show ?thesis using set_update_subset_insert[of xss i] by blast
next
  case False
  then show "\<forall>row \<in> set xss. length row = n \<Longrightarrow> ?thesis"
    by (simp add: list_update_beyond)
qed

end
