(* ===== verification/Board.thy ===== *)
theory Board
  imports Chess_Prelude
begin

text \<open>
  The board and the engine's mutable state (\<open>src/renderer.js\<close>, sections
  \<open>GAME MODE / ENGINE STATE\<close>, \<open>BASIC BOARD + STATE\<close> and \<open>UTILS\<close>): the module-level
  variables \<open>castlingRights\<close>, \<open>enPassantTarget\<close>, \<open>halfmoveClock\<close>,
  \<open>fullmoveNumber\<close>, \<open>positionHistory\<close>, \<open>board\<close> and \<open>turn\<close> become fields of two
  records, passed to and returned by every operation that reads or writes them; the
  helpers \<open>inBounds\<close>, \<open>getPiece\<close>, \<open>getColor\<close>, \<open>getType\<close>, \<open>coordToSquare\<close> and
  \<open>findKing\<close>; the starting array \<open>initialPosition\<close>.
\<close>

section \<open>Engine state\<close>

text \<open>\<open>castlingRights = { wK, wQ, bK, bQ }\<close>.\<close>

record castling_rights =
  wK :: bool
  wQ :: bool
  bK :: bool
  bQ :: bool

text \<open>
  The globals read and written by \<open>applyMoveOnBoard\<close>, \<open>getPseudoMovesForPiece\<close> and
  \<open>boardToFEN\<close>. \<open>enPassantTarget\<close> is \<open>{row, col}\<close> or \<open>null\<close>.
\<close>

record pos_state =
  castlingRights :: castling_rights
  enPassantTarget :: "square option"
  halfmoveClock :: nat
  fullmoveNumber :: nat

text \<open>The position part of the game: the live \<open>board\<close>, \<open>turn\<close> and the FEN ledger.\<close>

record game_state = pos_state +
  board :: board
  turn :: color
  positionHistory :: "string list"

definition all_rights :: castling_rights where
  "all_rights = \<lparr>wK = True, wQ = True, bK = True, bQ = True\<rparr>"

section \<open>Utilities\<close>

definition inBounds :: "int \<Rightarrow> int \<Rightarrow> bool" where
  "inBounds row col \<longleftrightarrow> row \<ge> 0 \<and> row < 8 \<and> col \<ge> 0 \<and> col < 8"

text \<open>
  \<open>b[row][col]\<close> as the source indexes it, without a bounds check (the source only does
  so with in-range coordinates), and the in-place write \<open>b[row][col] = v\<close>.
\<close>

definition cell_at :: "board \<Rightarrow> int \<Rightarrow> int \<Rightarrow> cell" where
  "cell_at b row col = b ! nat row ! nat col"

definition set_cell :: "board \<Rightarrow> int \<Rightarrow> int \<Rightarrow> cell \<Rightarrow> board" where
  "set_cell b row col v = b[nat row := (b ! nat row)[nat col := v]]"

definition getPiece :: "board \<Rightarrow> int \<Rightarrow> int \<Rightarrow> cell" where
  "getPiece b row col = (if \<not> inBounds row col then None else cell_at b row col)"

fun getColor :: "cell \<Rightarrow> color option" where
  "getColor None = None"
| "getColor (Some p) = Some (pcolor p)"

fun getType :: "cell \<Rightarrow> kind option" where
  "getType None = None"
| "getType (Some p) = Some (pkind p)"

text \<open>\<open>String.fromCharCode("a".charCodeAt(0) + col) + (8 - row)\<close>.\<close>

definition coordToSquare :: "int \<Rightarrow> int \<Rightarrow> string" where
  "coordToSquare row col = char_of (nat (97 + col)) # nat_str (nat (8 - row))"

text \<open>The first square in row-major order holding \<open>color + "K"\<close>, else \<open>null\<close>.\<close>

definition all_squares :: "square list" where
  "all_squares = [(r, c). r \<leftarrow> [0..7], c \<leftarrow> [0..7]]"

definition findKing :: "board \<Rightarrow> color \<Rightarrow> square option" where
  "findKing b color = find (\<lambda>(r, c). cell_at b r c = Some (Piece color King)) all_squares"

section \<open>The starting position\<close>

definition back_rank :: "color \<Rightarrow> cell list" where
  "back_rank c = map (\<lambda>k. Some (Piece c k)) [Rook, Knight, Bishop, Queen, King, Bishop, Knight, Rook]"

definition initialPosition :: board where
  "initialPosition =
     [back_rank Black,
      replicate 8 (Some (Piece Black Pawn)),
      replicate 8 None, replicate 8 None, replicate 8 None, replicate 8 None,
      replicate 8 (Some (Piece White Pawn)),
      back_rank White]"

text \<open>
  \<open>cloneBoard(b)\<close>: \<open>b.map(row => row.slice())\<close>, a copy of every row. Boards are
  values here, so the copy shares nothing with the original by construction
  (\<open>cloneBoard_id\<close>): writes to a clone cannot reach the live board.
\<close>

definition cloneBoard :: "board \<Rightarrow> board" where
  "cloneBoard b = map (\<lambda>row. take (length row) row) b"

section \<open>Well-formed boards\<close>

text \<open>Eight rows of eight cells: the shape every board of the source has.\<close>

definition board_ok :: "board \<Rightarrow> bool" where
  "board_ok b \<longleftrightarrow> length b = 8 \<and> (\<forall>row \<in> set b. length row = 8)"

lemma cloneBoard_id [simp]: "cloneBoard b = b"
  by (simp add: cloneBoard_def map_idI)

lemma board_ok_initialPosition: "board_ok initialPosition"
  by (simp add: board_ok_def initialPosition_def back_rank_def)

lemma getPiece_in_bounds [board_simps]:
  "inBounds r c \<Longrightarrow> getPiece b r c = cell_at b r c"
  by (simp add: getPiece_def)

lemma getPiece_out_of_bounds [board_simps]:
  "\<not> inBounds r c \<Longrightarrow> getPiece b r c = None"
  by (simp add: getPiece_def)

lemma getPiece_Some_inBounds: "getPiece b r c = Some p \<Longrightarrow> inBounds r c"
  by (cases "inBounds r c") (simp_all add: getPiece_out_of_bounds)

lemma board_ok_set_cell:
  "board_ok b \<Longrightarrow> board_ok (set_cell b r c v)"
  unfolding board_ok_def set_cell_def by (auto intro!: rows_nested_update)

lemma cell_at_set_cell:
  assumes "board_ok b" "inBounds r c" "inBounds r' c'"
  shows "cell_at (set_cell b r c v) r' c' = (if r' = r \<and> c' = c then v else cell_at b r' c')"
proof -
  have "nat r < length b" "nat c < length (b ! nat r)"
    using assms by (auto simp: board_ok_def inBounds_def)
  moreover have "(nat r' = nat r \<and> nat c' = nat c) = (r' = r \<and> c' = c)"
    using assms by (auto simp: inBounds_def)
  ultimately show ?thesis
    by (simp add: cell_at_def set_cell_def nth_nested_update)
qed

lemma getPiece_set_cell:
  assumes "board_ok b" "inBounds r c"
  shows "getPiece (set_cell b r c v) r' c' = (if r' = r \<and> c' = c then v else getPiece b r' c')"
  using assms cell_at_set_cell[OF assms] by (auto simp: getPiece_def)

lemma in_all_squares: "(r, c) \<in> set all_squares \<longleftrightarrow> inBounds r c"
proof
  assume "(r, c) \<in> set all_squares"
  then show "inBounds r c" by (auto simp: all_squares_def inBounds_def)
next
  assume "inBounds r c"
  then have "r \<in> set [0..7]" "c \<in> set [0..7]" by (auto simp: inBounds_def)
  then show "(r, c) \<in> set all_squares" by (auto simp: all_squares_def image_iff)
qed

lemma findKing_Some:
  "findKing b color = Some (r, c) \<Longrightarrow> inBounds r c \<and> getPiece b r c = Some (Piece color King)"
  by (auto simp: findKing_def find_Some_iff in_all_squares getPiece_def
      dest: nth_mem)

lemma findKing_None:
  "findKing b color = None \<longleftrightarrow> (\<forall>r c. getPiece b r c \<noteq> Some (Piece color King))"
  by (auto simp: findKing_def find_None_iff in_all_squares getPiece_def)

end
