(* ===== verification/Attack.thy ===== *)
theory Attack
  imports Board
begin

text \<open>
  The attack oracle (\<open>isSquareAttacked\<close>, \<open>isKingInCheck\<close> of \<open>src/renderer.js\<close>): pawn
  attacks looked up backwards from the target, the knight and king offset tables, and
  the eight rays cast outwards from the target until the first piece. The \<open>while
  (inBounds(r, c))\<close> loop of a ray is \<open>attack_ray\<close> with a fuel of eight steps; the
  lemmas \<open>attack_ray_enough_fuel\<close> show that eight steps are all any ray on the board
  can take, so the fuel never cuts a ray short.
\<close>

section \<open>Offset tables\<close>

definition knightDeltas :: "(int \<times> int) list" where
  "knightDeltas = [(-2,-1),(-2,1),(-1,-2),(-1,2),(1,-2),(1,2),(2,-1),(2,1)]"

definition kingDeltas :: "(int \<times> int) list" where
  "kingDeltas = [(-1,-1),(-1,0),(-1,1),(0,-1),(0,1),(1,-1),(1,0),(1,1)]"

text \<open>Rook directions first, then the bishop directions (\<open>isDiagonal = i >= 4\<close>).\<close>

definition attackDirs :: "(int \<times> int) list" where
  "attackDirs = [(-1,0),(1,0),(0,-1),(0,1),(-1,-1),(-1,1),(1,-1),(1,1)]"

definition ray_fuel :: nat where
  "ray_fuel = 8"

section \<open>The oracle\<close>

text \<open>
  One ray: step while in bounds; the first piece ends the ray and attacks the target
  iff it is of \<open>byColor\<close> and a queen, a bishop on a diagonal or a rook on a line.
\<close>

fun attack_ray :: "board \<Rightarrow> color \<Rightarrow> bool \<Rightarrow> int \<Rightarrow> int \<Rightarrow> int \<Rightarrow> int \<Rightarrow> nat \<Rightarrow> bool" where
  "attack_ray b byColor isDiagonal r c dr dc 0 = False"
| "attack_ray b byColor isDiagonal r c dr dc (Suc n) =
     (inBounds r c \<and>
      (case getPiece b r c of
         None \<Rightarrow> attack_ray b byColor isDiagonal (r + dr) (c + dc) dr dc n
       | Some p \<Rightarrow>
           getColor (Some p) = Some byColor \<and>
           (getType (Some p) = Some Queen \<or>
            isDiagonal \<and> getType (Some p) = Some Bishop \<or>
            \<not> isDiagonal \<and> getType (Some p) = Some Rook)))"

text \<open>
  The same loop as the source writes it, without fuel: \<open>None\<close> is a loop that does not end.
\<close>

partial_function (option) attack_loop ::
  "board \<Rightarrow> color \<Rightarrow> bool \<Rightarrow> int \<Rightarrow> int \<Rightarrow> int \<Rightarrow> int \<Rightarrow> bool option" where
  "attack_loop b byColor isDiagonal r c dr dc =
     (if \<not> inBounds r c then Some False
      else (case getPiece b r c of
              None \<Rightarrow> attack_loop b byColor isDiagonal (r + dr) (c + dc) dr dc
            | Some p \<Rightarrow>
                Some (getColor (Some p) = Some byColor \<and>
                      (getType (Some p) = Some Queen \<or>
                       isDiagonal \<and> getType (Some p) = Some Bishop \<or>
                       \<not> isDiagonal \<and> getType (Some p) = Some Rook))))"

definition isSquareAttacked :: "board \<Rightarrow> int \<Rightarrow> int \<Rightarrow> color \<Rightarrow> bool" where
  "isSquareAttacked b targetRow targetCol byColor =
     (let pawnDir = (if byColor = White then -1 else 1 :: int) in
      (inBounds (targetRow - pawnDir) (targetCol - 1) \<and>
         getPiece b (targetRow - pawnDir) (targetCol - 1) = Some (Piece byColor Pawn)) \<or>
      (inBounds (targetRow - pawnDir) (targetCol + 1) \<and>
         getPiece b (targetRow - pawnDir) (targetCol + 1) = Some (Piece byColor Pawn)) \<or>
      list_ex (\<lambda>(dr, dc). inBounds (targetRow + dr) (targetCol + dc) \<and>
                  getPiece b (targetRow + dr) (targetCol + dc) = Some (Piece byColor Knight))
        knightDeltas \<or>
      list_ex (\<lambda>(dr, dc). inBounds (targetRow + dr) (targetCol + dc) \<and>
                  getPiece b (targetRow + dr) (targetCol + dc) = Some (Piece byColor King))
        kingDeltas \<or>
      list_ex (\<lambda>i. case attackDirs ! i of (dr, dc) \<Rightarrow>
                  attack_ray b byColor (i \<ge> 4) (targetRow + dr) (targetCol + dc) dr dc ray_fuel)
        [0..<8])"

definition isKingInCheck :: "board \<Rightarrow> color \<Rightarrow> bool" where
  "isKingInCheck b color =
     (case findKing b color of
        None \<Rightarrow> False
      | Some (r, c) \<Rightarrow> isSquareAttacked b r c (enemy_of color))"

section \<open>Eight steps are enough for a ray\<close>

text \<open>A direction of the tables: each component in \<open>{-1, 0, 1}\<close>, not both zero.\<close>

definition unit_dir :: "int \<Rightarrow> int \<Rightarrow> bool" where
  "unit_dir dr dc \<longleftrightarrow> dr \<in> {-1, 0, 1} \<and> dc \<in> {-1, 0, 1} \<and> (dr, dc) \<noteq> (0, 0)"

text \<open>How many more in-bounds squares a ray can visit along one axis, and along both.\<close>

definition axis_room :: "int \<Rightarrow> int \<Rightarrow> nat" where
  "axis_room x d = (if d > 0 then nat (8 - x) else if d < 0 then nat (x + 1) else 8)"

definition ray_room :: "int \<Rightarrow> int \<Rightarrow> int \<Rightarrow> int \<Rightarrow> nat" where
  "ray_room r c dr dc = min (axis_room r dr) (axis_room c dc)"

lemma ray_room_pos:
  "inBounds r c \<Longrightarrow> 0 < ray_room r c dr dc"
  by (auto simp: ray_room_def axis_room_def inBounds_def)

lemma ray_room_le: "inBounds r c \<Longrightarrow> ray_room r c dr dc \<le> 8"
  by (auto simp: ray_room_def axis_room_def inBounds_def)

lemma ray_room_step:
  "inBounds r c \<Longrightarrow> unit_dir dr dc \<Longrightarrow>
   ray_room (r + dr) (c + dc) dr dc = ray_room r c dr dc - 1"
  by (auto simp: ray_room_def axis_room_def inBounds_def unit_dir_def)

lemmas ray_room_facts = ray_room_pos ray_room_le ray_room_step

lemma attack_ray_Suc:
  assumes "unit_dir dr dc" "inBounds r c \<Longrightarrow> ray_room r c dr dc \<le> n"
  shows "attack_ray b byColor dg r c dr dc (Suc n) = attack_ray b byColor dg r c dr dc n"
  using assms
proof (induction n arbitrary: r c)
  case 0
  then show ?case using ray_room_pos[of r c dr dc] by auto
next
  case (Suc n)
  have "inBounds (r + dr) (c + dc) \<Longrightarrow> ray_room (r + dr) (c + dc) dr dc \<le> n"
    if "inBounds r c" using that Suc.prems ray_room_step[of r c dr dc] by simp
  then show ?case
    using Suc.IH[of "r + dr" "c + dc"] Suc.prems(1)
    by (cases "inBounds r c") (auto split: option.split)
qed

lemma attack_ray_enough_fuel:
  assumes "unit_dir dr dc" "ray_fuel \<le> n"
  shows "attack_ray b byColor dg r c dr dc n = attack_ray b byColor dg r c dr dc ray_fuel"
  using assms(2)
proof (induction n rule: dec_induct)
  case (step n)
  have "inBounds r c \<Longrightarrow> ray_room r c dr dc \<le> n"
    using ray_room_le[of r c dr dc] step.hyps by (simp add: ray_fuel_def)
  with attack_ray_Suc[OF assms(1)] step.IH show ?case by simp
qed simp

text \<open>The loop ends within the room of the ray and computes the fuelled ray.\<close>

lemma attack_loop_fuel:
  assumes "unit_dir dr dc" "inBounds r c \<Longrightarrow> ray_room r c dr dc \<le> n"
  shows "attack_loop b byColor dg r c dr dc = Some (attack_ray b byColor dg r c dr dc n)"
  using assms(2)
proof (induction n arbitrary: r c)
  case 0
  then have "\<not> inBounds r c" using ray_room_pos[of r c dr dc] by auto
  then show ?case by (simp add: attack_loop.simps)
next
  case (Suc n)
  show ?case
  proof (cases "inBounds r c")
    case True
    then have "inBounds (r + dr) (c + dc) \<Longrightarrow> ray_room (r + dr) (c + dc) dr dc \<le> n"
      using Suc.prems ray_room_step[OF True assms(1)] by simp
    then show ?thesis
      using Suc.IH[of "r + dr" "c + dc"] True by (simp add: attack_loop.simps split: option.split)
  qed (simp add: attack_loop.simps)
qed

lemma unit_dir_attackDirs: "(dr, dc) \<in> set attackDirs \<Longrightarrow> unit_dir dr dc"
  by (auto simp: attackDirs_def unit_dir_def)

section \<open>Friendly pieces only block\<close>

text \<open>
  Two boards that agree except on squares where both hold a non-king piece of \<open>col\<close>:
  for the attacks of the other side and for the king of \<open>col\<close>, such squares are mere
  blockers, whatever their kind.
\<close>

definition friendly_swap :: "board \<Rightarrow> board \<Rightarrow> color \<Rightarrow> bool" where
  "friendly_swap b1 b2 col \<longleftrightarrow>
     (\<forall>r c. getPiece b1 r c = getPiece b2 r c \<or>
            (\<exists>k1 k2. getPiece b1 r c = Some (Piece col k1) \<and> getPiece b2 r c = Some (Piece col k2) \<and>
                     k1 \<noteq> King \<and> k2 \<noteq> King))"

lemma friendly_swap_at:
  "friendly_swap b1 b2 col \<Longrightarrow>
   getPiece b1 r c = getPiece b2 r c \<or>
   (\<exists>k1 k2. getPiece b1 r c = Some (Piece col k1) \<and> getPiece b2 r c = Some (Piece col k2) \<and>
            k1 \<noteq> King \<and> k2 \<noteq> King)"
  unfolding friendly_swap_def by blast

lemma friendly_swap_refl: "friendly_swap b b col"
  by (simp add: friendly_swap_def)

lemma friendly_swap_set_cell:
  assumes "board_ok b" "inBounds r c" "k1 \<noteq> King" "k2 \<noteq> King"
  shows "friendly_swap (set_cell b r c (Some (Piece col k1))) (set_cell b r c (Some (Piece col k2))) col"
  using assms by (simp add: friendly_swap_def getPiece_set_cell)

lemma friendly_swap_enemy_piece:
  assumes "friendly_swap b1 b2 col"
  shows "getPiece b1 r c = Some (Piece (enemy_of col) k) \<longleftrightarrow>
         getPiece b2 r c = Some (Piece (enemy_of col) k)"
  using friendly_swap_at[OF assms, of r c] by auto

lemma attack_ray_friendly_swap:
  assumes "friendly_swap b1 b2 col"
  shows "attack_ray b1 (enemy_of col) dg r c dr dc n = attack_ray b2 (enemy_of col) dg r c dr dc n"
proof (induction n arbitrary: r c)
  case (Suc n)
  show ?case
    using friendly_swap_at[OF assms, of r c] Suc.IH by (auto split: option.split)
qed simp

lemma isSquareAttacked_friendly_swap:
  assumes "friendly_swap b1 b2 col"
  shows "isSquareAttacked b1 r c (enemy_of col) = isSquareAttacked b2 r c (enemy_of col)"
  unfolding isSquareAttacked_def Let_def
  by (simp only: friendly_swap_enemy_piece[OF assms] attack_ray_friendly_swap[OF assms])

lemma findKing_friendly_swap:
  assumes "friendly_swap b1 b2 col"
  shows "findKing b1 col = findKing b2 col"
proof -
  have "(cell_at b1 r c = Some (Piece col King)) = (cell_at b2 r c = Some (Piece col King))"
    if "inBounds r c" for r c
    using friendly_swap_at[OF assms, of r c] that by (auto simp: getPiece_in_bounds)
  then show ?thesis
    unfolding findKing_def by (intro find_cong) (auto simp: in_all_squares)
qed

lemma isKingInCheck_friendly_swap:
  "friendly_swap b1 b2 col \<Longrightarrow> isKingInCheck b1 col = isKingInCheck b2 col"
  by (simp add: isKingInCheck_def findKing_friendly_swap isSquareAttacked_friendly_swap
      split: option.split)

end
