(* ===== verification/Apply.thy ===== *)
theory Apply
  imports Attack
begin

text \<open>
  The move applier \<open>applyMoveOnBoard(b, fromRow, fromCol, toRow, toCol, opts)\<close> of
  \<open>src/renderer.js\<close>. The source mutates the array \<open>b\<close> in place and, when
  \<open>opts.isReal\<close> holds, the globals \<open>halfmoveClock\<close>, \<open>fullmoveNumber\<close>,
  \<open>castlingRights\<close> and \<open>enPassantTarget\<close>; it reads \<open>enPassantTarget\<close> in either
  mode. The model takes the globals as a \<open>pos_state\<close> record (any extension of it, so
  that the whole game state can be passed) and returns the new board, the new globals and
  the source's result \<open>{piece, captured}\<close>. Each block of the source is one definition:
  the en-passant removal, the relocation, the promotion, the castling rook, and the
  bookkeeping of a real move.
\<close>

section \<open>Mechanics\<close>

text \<open>
  \<open>EN PASSANT CAPTURE\<close>: a pawn moving diagonally onto the empty target square removes
  the pawn one rank behind it. Returns the board and \<open>capturedPiece\<close>.
\<close>

definition ep_capture ::
  "'a pos_state_scheme \<Rightarrow> board \<Rightarrow> int \<Rightarrow> int \<Rightarrow> int \<Rightarrow> int \<Rightarrow> board \<times> cell" where
  "ep_capture st b fromRow fromCol toRow toCol =
     (let piece = cell_at b fromRow fromCol; target = cell_at b toRow toCol in
      if getType piece = Some Pawn \<and> fromCol \<noteq> toCol \<and> target = None \<and>
         enPassantTarget st = Some (toRow, toCol)
      then (let capRow = (if getColor piece = Some White then toRow + 1 else toRow - 1)
            in (set_cell b capRow toCol None, cell_at b capRow toCol))
      else (b, target))"

text \<open>\<open>PROMOTION\<close>: a pawn on the far rank becomes \<open>opts.promotionPiece\<close>, else a queen.\<close>

definition promote :: "board \<Rightarrow> cell \<Rightarrow> int \<Rightarrow> int \<Rightarrow> cell \<Rightarrow> board" where
  "promote b piece toRow toCol promotionPiece =
     (case piece of
        Some (Piece color Pawn) \<Rightarrow>
          if color = White \<and> toRow = 0 \<or> color = Black \<and> toRow = 7 then
            set_cell b toRow toCol
              (case promotionPiece of Some p \<Rightarrow> Some p | None \<Rightarrow> Some (Piece color Queen))
          else b
      | _ \<Rightarrow> b)"

text \<open>\<open>CASTLING ROOK MOVE\<close>: a king moving two columns brings the rook of that side over.\<close>

definition castle_rook :: "board \<Rightarrow> cell \<Rightarrow> int \<Rightarrow> int \<Rightarrow> int \<Rightarrow> board" where
  "castle_rook b piece fromCol toRow toCol =
     (if getType piece = Some King \<and> \<bar>toCol - fromCol\<bar> = 2 then
        (if toCol > fromCol
         then set_cell (set_cell b toRow 5 (cell_at b toRow 7)) toRow 7 None
         else set_cell (set_cell b toRow 3 (cell_at b toRow 0)) toRow 0 None)
      else b)"

text \<open>The four-way test on a rook's home square, written twice in the source.\<close>

definition revoke_home :: "castling_rights \<Rightarrow> int \<Rightarrow> int \<Rightarrow> castling_rights" where
  "revoke_home cr row col =
     (let cr1 = (if row = 7 \<and> col = 0 then cr\<lparr>wQ := False\<rparr> else cr);
          cr2 = (if row = 7 \<and> col = 7 then cr1\<lparr>wK := False\<rparr> else cr1);
          cr3 = (if row = 0 \<and> col = 0 then cr2\<lparr>bQ := False\<rparr> else cr2)
      in if row = 0 \<and> col = 7 then cr3\<lparr>bK := False\<rparr> else cr3)"

text \<open>The \<open>if (opts.isReal)\<close> block.\<close>

definition commit_bookkeeping ::
  "'a pos_state_scheme \<Rightarrow> cell \<Rightarrow> cell \<Rightarrow> int \<Rightarrow> int \<Rightarrow> int \<Rightarrow> int \<Rightarrow> 'a pos_state_scheme" where
  "commit_bookkeeping st piece capturedPiece fromRow fromCol toRow toCol =
     (let color = getColor piece; type = getType piece;
          hm = (if type = Some Pawn \<or> capturedPiece \<noteq> None then 0 else Suc (halfmoveClock st));
          fm = (if color = Some Black then Suc (fullmoveNumber st) else fullmoveNumber st);
          cr0 = castlingRights st;
          cr1 = (if type = Some King then
                   (if color = Some White then cr0\<lparr>wK := False, wQ := False\<rparr>
                    else cr0\<lparr>bK := False, bQ := False\<rparr>)
                 else cr0);
          cr2 = (if type = Some Rook then revoke_home cr1 fromRow fromCol else cr1);
          cr3 = (if capturedPiece \<noteq> None \<and> getType capturedPiece = Some Rook
                 then revoke_home cr2 toRow toCol else cr2);
          ep = (if type = Some Pawn \<and> \<bar>toRow - fromRow\<bar> = 2
                then Some ((fromRow + toRow) div 2, fromCol) else None)
      in st\<lparr>halfmoveClock := hm, fullmoveNumber := fm, castlingRights := cr3,
            enPassantTarget := ep\<rparr>)"

definition applyMoveOnBoard ::
  "'a pos_state_scheme \<Rightarrow> board \<Rightarrow> int \<Rightarrow> int \<Rightarrow> int \<Rightarrow> int \<Rightarrow> bool \<Rightarrow> cell \<Rightarrow>
   board \<times> 'a pos_state_scheme \<times> cell \<times> bool" where
  "applyMoveOnBoard st b fromRow fromCol toRow toCol isReal promotionPiece =
     (let piece = cell_at b fromRow fromCol;
          (b1, capturedPiece) = ep_capture st b fromRow fromCol toRow toCol;
          b2 = set_cell (set_cell b1 fromRow fromCol None) toRow toCol piece;
          b3 = promote b2 piece toRow toCol promotionPiece;
          b4 = castle_rook b3 piece fromCol toRow toCol;
          st' = (if isReal
                 then commit_bookkeeping st piece capturedPiece fromRow fromCol toRow toCol
                 else st)
      in (b4, st', cell_at b4 toRow toCol, capturedPiece \<noteq> None))"

text \<open>The board a move produces, whatever the mode.\<close>

definition moved_board ::
  "'a pos_state_scheme \<Rightarrow> board \<Rightarrow> int \<Rightarrow> int \<Rightarrow> int \<Rightarrow> int \<Rightarrow> cell \<Rightarrow> board" where
  "moved_board st b fromRow fromCol toRow toCol promotionPiece =
     (let piece = cell_at b fromRow fromCol;
          b1 = fst (ep_capture st b fromRow fromCol toRow toCol)
      in castle_rook (promote (set_cell (set_cell b1 fromRow fromCol None) toRow toCol piece)
                        piece toRow toCol promotionPiece) piece fromCol toRow toCol)"

section \<open>Shape and mode\<close>

lemma fst_applyMoveOnBoard:
  "fst (applyMoveOnBoard st b fr fc tr tc isReal pp) = moved_board st b fr fc tr tc pp"
  by (simp add: applyMoveOnBoard_def moved_board_def Let_def split: prod.split)

lemma fst_snd_applyMoveOnBoard:
  "fst (snd (applyMoveOnBoard st b fr fc tr tc isReal pp)) =
     (if isReal then commit_bookkeeping st (cell_at b fr fc)
                       (snd (ep_capture st b fr fc tr tc)) fr fc tr tc
      else st)"
  by (simp add: applyMoveOnBoard_def Let_def split: prod.split)

lemma board_ok_ep_capture: "board_ok b \<Longrightarrow> board_ok (fst (ep_capture st b fr fc tr tc))"
  by (simp add: ep_capture_def Let_def board_ok_set_cell)

lemma board_ok_promote: "board_ok b \<Longrightarrow> board_ok (promote b p tr tc pp)"
  by (auto simp: promote_def board_ok_set_cell split: option.split piece.split kind.split)

lemma board_ok_castle_rook: "board_ok b \<Longrightarrow> board_ok (castle_rook b p fc tr tc)"
  by (simp add: castle_rook_def board_ok_set_cell)

lemma board_ok_moved_board: "board_ok b \<Longrightarrow> board_ok (moved_board st b fr fc tr tc pp)"
  by (simp add: moved_board_def Let_def board_ok_set_cell board_ok_ep_capture
      board_ok_promote board_ok_castle_rook)

section \<open>Probing and committing\<close>

text \<open>
  C7: the non-committing call used by the legality probe produces the same board, moved
  piece and capture flag as the committing call, and hands back the state it was given:
  probing never touches the castling rights, the en-passant target or the clocks.
\<close>

theorem applyMoveOnBoard_probe:
  "applyMoveOnBoard st b fr fc tr tc False pp =
     (case applyMoveOnBoard st b fr fc tr tc True pp of (b', _, res) \<Rightarrow> (b', st, res))"
  by (simp add: applyMoveOnBoard_def Let_def split: prod.split)

section \<open>Castling rights only decrease\<close>

definition rights_sub :: "castling_rights \<Rightarrow> castling_rights \<Rightarrow> bool" where
  "rights_sub cr' cr \<longleftrightarrow>
     (wK cr' \<longrightarrow> wK cr) \<and> (wQ cr' \<longrightarrow> wQ cr) \<and> (bK cr' \<longrightarrow> bK cr) \<and> (bQ cr' \<longrightarrow> bQ cr)"

lemma rights_sub_refl [simp]: "rights_sub cr cr"
  by (simp add: rights_sub_def)

lemma rights_sub_trans: "rights_sub a b \<Longrightarrow> rights_sub b c \<Longrightarrow> rights_sub a c"
  by (simp add: rights_sub_def)

lemma rights_sub_revoke_home: "rights_sub (revoke_home cr r c) cr"
  by (simp add: revoke_home_def rights_sub_def Let_def)

lemma rights_sub_if: "rights_sub y x \<Longrightarrow> rights_sub (if P then y else x) x"
  by simp

lemma rights_sub_commit:
  "rights_sub (castlingRights (commit_bookkeeping st piece cap fr fc tr tc)) (castlingRights st)"
proof -
  let ?cr0 = "castlingRights st"
  let ?cr1 = "if getType piece = Some King then
                (if getColor piece = Some White then ?cr0\<lparr>wK := False, wQ := False\<rparr>
                 else ?cr0\<lparr>bK := False, bQ := False\<rparr>) else ?cr0"
  let ?cr2 = "if getType piece = Some Rook then revoke_home ?cr1 fr fc else ?cr1"
  have eq: "castlingRights (commit_bookkeeping st piece cap fr fc tr tc) =
              (if cap \<noteq> None \<and> getType cap = Some Rook then revoke_home ?cr2 tr tc else ?cr2)"
    by (simp add: commit_bookkeeping_def Let_def)
  have "rights_sub ?cr1 ?cr0" by (simp add: rights_sub_def)
  moreover have "rights_sub ?cr2 ?cr1" by (rule rights_sub_if[OF rights_sub_revoke_home])
  moreover have "rights_sub (if cap \<noteq> None \<and> getType cap = Some Rook
                             then revoke_home ?cr2 tr tc else ?cr2) ?cr2"
    by (rule rights_sub_if[OF rights_sub_revoke_home])
  ultimately show ?thesis unfolding eq by (meson rights_sub_trans)
qed

section \<open>The promotion choice\<close>

text \<open>
  The promotion pieces callers pass: none (the probe, a click on an ordinary target), or a
  non-king piece of the mover's colour (\<open>turn + type\<close> from the dialog or the engine).
\<close>

definition promo_ok :: "color \<Rightarrow> cell \<Rightarrow> bool" where
  "promo_ok col pp \<longleftrightarrow> pp = None \<or> (\<exists>k. pp = Some (Piece col k) \<and> k \<noteq> King)"

text \<open>The chosen promotion piece and the probe's queen differ only as friendly blockers.\<close>

lemma moved_board_promo_swap:
  assumes "board_ok b" "getPiece b fr fc = Some p" "inBounds tr tc" "promo_ok (pcolor p) pp"
  shows "friendly_swap (moved_board st b fr fc tr tc pp) (moved_board st b fr fc tr tc None)
           (pcolor p)"
proof -
  define b2 where "b2 = set_cell (set_cell (fst (ep_capture st b fr fc tr tc)) fr fc None) tr tc
                          (Some p)"
  have cell: "cell_at b fr fc = Some p"
    using assms(2) by (simp add: getPiece_def split: if_splits)
  have ok2: "board_ok b2"
    unfolding b2_def by (intro board_ok_set_cell board_ok_ep_capture assms(1))
  have mb: "moved_board st b fr fc tr tc q = castle_rook (promote b2 (Some p) tr tc q) (Some p) fc tr tc"
    for q by (simp add: moved_board_def b2_def cell Let_def)
  show ?thesis
  proof (cases "pkind p = Pawn")
    case False
    then have "promote b2 (Some p) tr tc q = b2" for q
      by (cases p) (simp add: promote_def split: kind.split)
    then show ?thesis by (simp add: mb friendly_swap_refl)
  next
    case True
    then obtain c where p: "p = Piece c Pawn" by (cases p) simp
    have cr: "castle_rook x (Some (Piece c Pawn)) f r t = x" for x f r t
      by (simp add: castle_rook_def)
    obtain k where k: "(case pp of Some q \<Rightarrow> Some q | None \<Rightarrow> Some (Piece c Queen)) =
                        Some (Piece c k)" "k \<noteq> King"
      using assms(4) by (auto simp: promo_ok_def p)
    have "friendly_swap (set_cell b2 tr tc (Some (Piece c k))) (set_cell b2 tr tc (Some (Piece c Queen))) c"
      using friendly_swap_set_cell[OF ok2 assms(3) k(2)] by simp
    then show ?thesis
      using friendly_swap_refl by (auto simp: mb cr promote_def p k(1))
  qed
qed

text \<open>A pawn reaching the far rank leaves exactly the chosen promotion piece on its target.\<close>

lemma moved_board_promotion:
  assumes "board_ok b" "getPiece b fr fc = Some (Piece col Pawn)" "inBounds tr tc"
    "col = White \<and> tr = 0 \<or> col = Black \<and> tr = 7"
  shows "getPiece (moved_board st b fr fc tr tc (Some q)) tr tc = Some q"
proof -
  define b2 where "b2 = set_cell (set_cell (fst (ep_capture st b fr fc tr tc)) fr fc None) tr tc
                          (Some (Piece col Pawn))"
  have cell: "cell_at b fr fc = Some (Piece col Pawn)"
    using assms(2) by (simp add: getPiece_def split: if_splits)
  have ok2: "board_ok b2"
    unfolding b2_def by (intro board_ok_set_cell board_ok_ep_capture assms(1))
  have "moved_board st b fr fc tr tc (Some q) = set_cell b2 tr tc (Some q)"
    using assms(4) by (simp add: moved_board_def b2_def cell Let_def promote_def castle_rook_def)
  then show ?thesis using getPiece_set_cell[OF ok2 assms(3)] by simp
qed

end
