(* ===== verification/Moves.thy ===== *)
theory Moves
  imports Apply
begin

text \<open>
  Move generation of \<open>src/renderer.js\<close>: \<open>getPseudoMovesForPiece\<close> (one block per piece
  kind, run in the source's order and appended to one list), the legality filter
  \<open>generateLegalMovesForSquare\<close>, which probes each candidate on a copy of the board with
  \<open>applyMoveOnBoard\<close> in non-committing mode and keeps it iff the mover's king is not in
  check afterwards, and \<open>sideHasAnyLegalMove\<close>. The source's swap of the globals around
  each probe (save, install copies, apply, restore) is the identity on the state here: the
  probe is called with the current state and its returned state is dropped, which
  \<open>applyMoveOnBoard_probe_state\<close> shows to be the state it was given.
\<close>

section \<open>Pseudo-legal moves\<close>

definition bishopDirs :: "(int \<times> int) list" where
  "bishopDirs = [(-1,-1),(-1,1),(1,-1),(1,1)]"

definition rookDirs :: "(int \<times> int) list" where
  "rookDirs = [(-1,0),(1,0),(0,-1),(0,1)]"

text \<open>Pawn: one step, two steps from the home rank, diagonal captures, en passant.\<close>

definition pawn_moves :: "'a pos_state_scheme \<Rightarrow> board \<Rightarrow> int \<Rightarrow> int \<Rightarrow> color \<Rightarrow> square list" where
  "pawn_moves st b row col color =
     (let dir = (if color = White then -1 else 1 :: int);
          startRank = (if color = White then 6 else 1 :: int);
          oneStep = row + dir;
          twoStep = row + 2 * dir;
          fwd = (if inBounds oneStep col \<and> getPiece b oneStep col = None
                 then (oneStep, col) #
                      (if row = startRank \<and> getPiece b twoStep col = None
                       then [(twoStep, col)] else [])
                 else []);
          caps = concat (map (\<lambda>cc. let rr = row + dir in
                   if \<not> inBounds rr cc then []
                   else (let target = getPiece b rr cc in
                         if target \<noteq> None \<and> getColor target \<noteq> Some color
                         then [(rr, cc)] else []))
                   [col - 1, col + 1]);
          ep = (case enPassantTarget st of
                  None \<Rightarrow> []
                | Some (epRow, epCol) \<Rightarrow>
                    if epRow = row + dir \<and> \<bar>epCol - col\<bar> = 1 then
                      (let adjPawn = getPiece b row epCol in
                       if adjPawn \<noteq> None \<and> getType adjPawn = Some Pawn \<and>
                          getColor adjPawn \<noteq> Some color
                       then [(epRow, epCol)] else [])
                    else [])
      in fwd @ caps @ ep)"

text \<open>Knight and king steps: every in-bounds offset not holding a friendly piece.\<close>

definition step_moves :: "board \<Rightarrow> color \<Rightarrow> int \<Rightarrow> int \<Rightarrow> (int \<times> int) list \<Rightarrow> square list" where
  "step_moves b color row col deltas =
     concat (map (\<lambda>(dr, dc). let r = row + dr; c = col + dc in
                    if \<not> inBounds r c then []
                    else if getColor (getPiece b r c) \<noteq> Some color then [(r, c)] else [])
               deltas)"

text \<open>One ray of a sliding piece: the empty squares, then the first piece if it is an enemy.\<close>

fun slide_ray :: "board \<Rightarrow> color \<Rightarrow> int \<Rightarrow> int \<Rightarrow> int \<Rightarrow> int \<Rightarrow> nat \<Rightarrow> square list" where
  "slide_ray b color r c dr dc 0 = []"
| "slide_ray b color r c dr dc (Suc n) =
     (if inBounds r c then
        (case getPiece b r c of
           None \<Rightarrow> (r, c) # slide_ray b color (r + dr) (c + dc) dr dc n
         | Some t \<Rightarrow> if getColor (Some t) \<noteq> Some color then [(r, c)] else [])
      else [])"

text \<open>The same loop without fuel; \<open>None\<close> is a loop that does not end.\<close>

partial_function (option) slide_loop ::
  "board \<Rightarrow> color \<Rightarrow> int \<Rightarrow> int \<Rightarrow> int \<Rightarrow> int \<Rightarrow> square list option" where
  "slide_loop b color r c dr dc =
     (if \<not> inBounds r c then Some []
      else (case getPiece b r c of
              None \<Rightarrow> Option.bind (slide_loop b color (r + dr) (c + dc) dr dc)
                        (\<lambda>rest. Some ((r, c) # rest))
            | Some t \<Rightarrow> Some (if getColor (Some t) \<noteq> Some color then [(r, c)] else [])))"

definition slide_moves :: "board \<Rightarrow> color \<Rightarrow> kind \<Rightarrow> int \<Rightarrow> int \<Rightarrow> square list" where
  "slide_moves b color type row col =
     (let dirs = (if type = Bishop \<or> type = Queen then bishopDirs else []) @
                 (if type = Rook \<or> type = Queen then rookDirs else [])
      in concat (map (\<lambda>(dr, dc). slide_ray b color (row + dr) (col + dc) dr dc ray_fuel) dirs))"

text \<open>
  Castling: only when the king is not in check; per side the right is held, the squares
  between are empty, the crossed square is not attacked and the rook is at home.
\<close>

definition castle_moves :: "'a pos_state_scheme \<Rightarrow> board \<Rightarrow> color \<Rightarrow> square list" where
  "castle_moves st b color =
     (if \<not> isKingInCheck b color then
        (let rank = (if color = White then 7 else 0 :: int);
             enemy = enemy_of color;
             cr = castlingRights st;
             kside = (if (if color = White then wK cr else bK cr) \<and>
                         getPiece b rank 5 = None \<and> getPiece b rank 6 = None \<and>
                         \<not> isSquareAttacked b rank 5 enemy \<and>
                         getPiece b rank 7 = Some (Piece color Rook)
                      then [(rank, 6)] else []);
             qside = (if (if color = White then wQ cr else bQ cr) \<and>
                         getPiece b rank 1 = None \<and> getPiece b rank 2 = None \<and>
                         getPiece b rank 3 = None \<and>
                         \<not> isSquareAttacked b rank 3 enemy \<and>
                         getPiece b rank 0 = Some (Piece color Rook)
                      then [(rank, 2)] else [])
         in kside @ qside)
      else [])"

definition getPseudoMovesForPiece ::
  "'a pos_state_scheme \<Rightarrow> board \<Rightarrow> int \<Rightarrow> int \<Rightarrow> square list" where
  "getPseudoMovesForPiece st b row col =
     (case getPiece b row col of
        None \<Rightarrow> []
      | Some p \<Rightarrow>
          (let color = pcolor p; type = pkind p in
           (if type = Pawn then pawn_moves st b row col color else []) @
           (if type = Knight then step_moves b color row col knightDeltas else []) @
           (if type = Bishop \<or> type = Rook \<or> type = Queen
            then slide_moves b color type row col else []) @
           (if type = King
            then step_moves b color row col kingDeltas @ castle_moves st b color
            else [])))"

section \<open>Legal moves\<close>

text \<open>
  The probe: the board \<open>applyMoveOnBoard\<close> produces in non-committing mode, without a
  promotion piece (so a promoting pawn is probed as a queen).
\<close>

definition probe_board :: "'a pos_state_scheme \<Rightarrow> board \<Rightarrow> int \<Rightarrow> int \<Rightarrow> int \<Rightarrow> int \<Rightarrow> board" where
  "probe_board st b row col toRow toCol =
     fst (applyMoveOnBoard st (cloneBoard b) row col toRow toCol False None)"

definition generateLegalMovesForSquare :: "'a game_state_scheme \<Rightarrow> int \<Rightarrow> int \<Rightarrow> square list" where
  "generateLegalMovesForSquare g row col =
     (case getPiece (board g) row col of
        None \<Rightarrow> []
      | Some p \<Rightarrow>
          if getColor (Some p) \<noteq> Some (turn g) then []
          else filter (\<lambda>(toRow, toCol).
                         \<not> isKingInCheck (probe_board g (board g) row col toRow toCol) (pcolor p))
                 (getPseudoMovesForPiece g (board g) row col))"

definition sideHasAnyLegalMove :: "'a game_state_scheme \<Rightarrow> color \<Rightarrow> bool" where
  "sideHasAnyLegalMove g color =
     list_ex (\<lambda>(r, c). case getPiece (board g) r c of
                         None \<Rightarrow> False
                       | Some p \<Rightarrow> getColor (Some p) = Some color \<and>
                                   generateLegalMovesForSquare g r c \<noteq> [])
       all_squares"

section \<open>Eight steps are enough for a sliding ray\<close>

lemma slide_ray_Suc:
  assumes "unit_dir dr dc" "inBounds r c \<Longrightarrow> ray_room r c dr dc \<le> n"
  shows "slide_ray b color r c dr dc (Suc n) = slide_ray b color r c dr dc n"
  using assms
proof (induction n arbitrary: r c)
  case 0
  then show ?case using ray_room_pos[of r c dr dc] by auto
next
  case (Suc n)
  have "inBounds (r + dr) (c + dc) \<Longrightarrow> ray_room (r + dr) (c + dc) dr dc \<le> n"
    if "inBounds r c" using that Suc.prems ray_room_step[of r c dr dc] by simp
  then show ?case
    using Suc.IH[of "r + dr" "c + dc"] Suc.prems(1)
    by (cases "inBounds r c") (auto split: option.split)
qed

lemma slide_loop_fuel:
  assumes "unit_dir dr dc" "inBounds r c \<Longrightarrow> ray_room r c dr dc \<le> n"
  shows "slide_loop b color r c dr dc = Some (slide_ray b color r c dr dc n)"
  using assms(2)
proof (induction n arbitrary: r c)
  case 0
  then have "\<not> inBounds r c" using ray_room_pos[of r c dr dc] by auto
  then show ?case by (simp add: slide_loop.simps)
next
  case (Suc n)
  show ?case
  proof (cases "inBounds r c")
    case True
    then have "inBounds (r + dr) (c + dc) \<Longrightarrow> ray_room (r + dr) (c + dc) dr dc \<le> n"
      using Suc.prems ray_room_step[OF True assms(1)] by simp
    then show ?thesis
      using Suc.IH[of "r + dr" "c + dc"] True by (simp add: slide_loop.simps split: option.split)
  qed (simp add: slide_loop.simps)
qed

lemma slide_ray_enough_fuel:
  assumes "unit_dir dr dc" "ray_fuel \<le> n"
  shows "slide_ray b color r c dr dc n = slide_ray b color r c dr dc ray_fuel"
  using assms(2)
proof (induction n rule: dec_induct)
  case (step n)
  have "inBounds r c \<Longrightarrow> ray_room r c dr dc \<le> n"
    using ray_room_le[of r c dr dc] step.hyps by (simp add: ray_fuel_def)
  with slide_ray_Suc[OF assms(1)] step.IH show ?case by simp
qed simp

section \<open>Destinations are on the board\<close>

text \<open>An en-passant target, when there is one, is a square of the board.\<close>

definition ep_ok :: "'a pos_state_scheme \<Rightarrow> bool" where
  "ep_ok st \<longleftrightarrow> (\<forall>(r, c) \<in> set_option (enPassantTarget st). inBounds r c)"

lemma slide_ray_in_bounds: "(r', c') \<in> set (slide_ray b color r c dr dc n) \<Longrightarrow> inBounds r' c'"
  by (induction n arbitrary: r c) (auto split: if_splits option.splits)

lemma step_moves_in_bounds:
  "(r', c') \<in> set (step_moves b color row col ds) \<Longrightarrow> inBounds r' c'"
  by (auto simp: step_moves_def Let_def split: if_splits)

lemma pawn_moves_in_bounds:
  "(r', c') \<in> set (pawn_moves st b row col color) \<Longrightarrow>
   inBounds r' c' \<or> enPassantTarget st = Some (r', c')"
  unfolding pawn_moves_def Let_def
  by (cases color) (auto simp: inBounds_def split: if_splits option.splits)

lemma castle_moves_in_bounds:
  "(r', c') \<in> set (castle_moves st b color) \<Longrightarrow> inBounds r' c'"
  by (auto simp: castle_moves_def Let_def inBounds_def split: if_splits)

lemma pseudo_in_bounds:
  "ep_ok st \<Longrightarrow> (r', c') \<in> set (getPseudoMovesForPiece st b row col) \<Longrightarrow> inBounds r' c'"
  by (auto simp: getPseudoMovesForPiece_def slide_moves_def Let_def ep_ok_def
      dest: pawn_moves_in_bounds step_moves_in_bounds castle_moves_in_bounds slide_ray_in_bounds
      split: option.splits if_splits)

section \<open>Legal moves\<close>

lemma legal_iff:
  "(tr, tc) \<in> set (generateLegalMovesForSquare g row col) \<longleftrightarrow>
   (\<exists>p. getPiece (board g) row col = Some p \<and> pcolor p = turn g \<and>
        (tr, tc) \<in> set (getPseudoMovesForPiece g (board g) row col) \<and>
        \<not> isKingInCheck (probe_board g (board g) row col tr tc) (pcolor p))"
  by (cases "getPiece (board g) row col") (auto simp: generateLegalMovesForSquare_def)

section \<open>What move generation reads\<close>

text \<open>
  Pseudo-legal moves read the castling rights and the en-passant target of the state, the
  probe only the en-passant target, and legal moves in addition the board and the turn:
  no other field of the game state matters.
\<close>

lemma pawn_moves_cong:
  assumes "enPassantTarget st = enPassantTarget st'"
  shows "pawn_moves st = pawn_moves st'"
  unfolding pawn_moves_def assms ..

lemma castle_moves_cong:
  assumes "castlingRights st = castlingRights st'"
  shows "castle_moves st = castle_moves st'"
  unfolding castle_moves_def assms ..

lemma pseudo_cong:
  assumes "castlingRights st = castlingRights st'" "enPassantTarget st = enPassantTarget st'"
  shows "getPseudoMovesForPiece st = getPseudoMovesForPiece st'"
  unfolding getPseudoMovesForPiece_def pawn_moves_cong[OF assms(2)] castle_moves_cong[OF assms(1)] ..

lemma probe_board_cong:
  assumes "enPassantTarget st = enPassantTarget st'"
  shows "probe_board st = probe_board st'"
  unfolding probe_board_def fst_applyMoveOnBoard moved_board_def ep_capture_def assms ..

lemma legal_cong:
  assumes "board g = board g'" "turn g = turn g'"
    and "castlingRights g = castlingRights g'" "enPassantTarget g = enPassantTarget g'"
  shows "generateLegalMovesForSquare g = generateLegalMovesForSquare g'"
  unfolding generateLegalMovesForSquare_def pseudo_cong[OF assms(3,4)] probe_board_cong[OF assms(4)]
    assms(1,2) ..

lemma sideHasAnyLegalMove_cong:
  assumes "board g = board g'" "turn g = turn g'"
    and "castlingRights g = castlingRights g'" "enPassantTarget g = enPassantTarget g'"
  shows "sideHasAnyLegalMove g = sideHasAnyLegalMove g'"
  unfolding sideHasAnyLegalMove_def legal_cong[OF assms] assms(1) ..

section \<open>Castling\<close>

lemma step_moves_offset:
  "(r', c') \<in> set (step_moves b color row col ds) \<Longrightarrow> \<exists>(dr, dc) \<in> set ds. r' = row + dr \<and> c' = col + dc"
  by (force simp: step_moves_def Let_def split: if_splits)

lemma king_step_cols:
  "(r', c') \<in> set (step_moves b color row col kingDeltas) \<Longrightarrow> \<bar>c' - col\<bar> \<le> 1"
  by (drule step_moves_offset) (auto simp: kingDeltas_def)

text \<open>
  C8: a king of colour \<open>c\<close> on its home square \<open>e1\<close>/\<open>e8\<close> is offered the kingside
  castling square exactly when it is not in check, the right is held, \<open>f\<close> and \<open>g\<close> are
  empty, \<open>f\<close> is not attacked and the rook stands on \<open>h\<close>; and the queenside square
  exactly when it is not in check, the right is held, \<open>b\<close>, \<open>c\<close>, \<open>d\<close> are empty,
  \<open>d\<close> is not attacked and the rook stands on \<open>a\<close>. Each condition alone removes it.
\<close>

theorem castling_offered_iff:
  assumes "getPiece b rank 4 = Some (Piece c King)" "rank = (if c = White then 7 else 0)"
  shows "((rank, 6) \<in> set (getPseudoMovesForPiece st b rank 4) \<longleftrightarrow>
            \<not> isKingInCheck b c \<and>
            (if c = White then wK (castlingRights st) else bK (castlingRights st)) \<and>
            getPiece b rank 5 = None \<and> getPiece b rank 6 = None \<and>
            \<not> isSquareAttacked b rank 5 (enemy_of c) \<and>
            getPiece b rank 7 = Some (Piece c Rook)) \<and>
         ((rank, 2) \<in> set (getPseudoMovesForPiece st b rank 4) \<longleftrightarrow>
            \<not> isKingInCheck b c \<and>
            (if c = White then wQ (castlingRights st) else bQ (castlingRights st)) \<and>
            getPiece b rank 1 = None \<and> getPiece b rank 2 = None \<and> getPiece b rank 3 = None \<and>
            \<not> isSquareAttacked b rank 3 (enemy_of c) \<and>
            getPiece b rank 0 = Some (Piece c Rook))"
proof -
  have far: "(rank, 6) \<notin> set (step_moves b c rank 4 kingDeltas)"
            "(rank, 2) \<notin> set (step_moves b c rank 4 kingDeltas)"
    using king_step_cols[of rank 6 b c rank 4] king_step_cols[of rank 2 b c rank 4] by auto
  have pseudo: "getPseudoMovesForPiece st b rank 4 =
                  step_moves b c rank 4 kingDeltas @ castle_moves st b c"
    using assms(1) by (simp add: getPseudoMovesForPiece_def)
  show ?thesis
    unfolding pseudo using far assms(2)
    by (cases c) (auto simp: castle_moves_def Let_def enemy_of.simps)
qed

section \<open>A side without a legal move\<close>

lemma no_legal_move:
  assumes "\<not> sideHasAnyLegalMove g (turn g)"
  shows "generateLegalMovesForSquare g r c = []"
proof (cases "getPiece (board g) r c")
  case (Some p)
  then have "(r, c) \<in> set all_squares" by (simp add: in_all_squares getPiece_Some_inBounds)
  then show ?thesis
    using assms Some by (auto simp: sideHasAnyLegalMove_def list_ex_iff generateLegalMovesForSquare_def)
qed (simp add: generateLegalMovesForSquare_def)

end
