(* ===== verification/FEN.thy ===== *)
theory FEN
  imports Board
begin

text \<open>
  The position encoder \<open>boardToFEN(b, activeColor)\<close> of \<open>src/renderer.js\<close> with its
  helper \<open>coordToFENPiece\<close>: six space-separated fields (placement, side to move,
  castling availability, en-passant square, halfmove clock, fullmove number). The rank
  loop with its run-length counter \<open>empty\<close> (\<open>emptyCnt\<close> here) is \<open>fen_row\<close>. The source reads the
  globals \<open>castlingRights\<close>, \<open>enPassantTarget\<close>, \<open>halfmoveClock\<close> and
  \<open>fullmoveNumber\<close>; the model reads them from the state it is given.
\<close>

section \<open>Piece letters\<close>

text \<open>\<open>letterMap = { P: "p", N: "n", B: "b", R: "r", Q: "q", K: "k" }\<close>.\<close>

fun letterMap :: "kind \<Rightarrow> char" where
  "letterMap Pawn = CHR ''p''"
| "letterMap Knight = CHR ''n''"
| "letterMap Bishop = CHR ''b''"
| "letterMap Rook = CHR ''r''"
| "letterMap Queen = CHR ''q''"
| "letterMap King = CHR ''k''"

text \<open>\<open>String.prototype.toUpperCase\<close> on one ASCII letter.\<close>

definition to_upper :: "char \<Rightarrow> char" where
  "to_upper ch =
     (let n = (of_char ch :: nat) in if 97 \<le> n \<and> n \<le> 122 then char_of (n - 32) else ch)"

definition coordToFENPiece :: "cell \<Rightarrow> string" where
  "coordToFENPiece piece =
     (case piece of
        None \<Rightarrow> []
      | Some p \<Rightarrow> (let ch = letterMap (pkind p) in
                   if getColor piece = Some White then [to_upper ch] else [ch]))"

section \<open>The encoder\<close>

text \<open>
  One rank, left to right: \<open>empty\<close> counts the current run of empty squares and is
  flushed as a number before the next piece and at the end of the rank.
\<close>

fun fen_row :: "cell list \<Rightarrow> nat \<Rightarrow> string \<Rightarrow> string" where
  "fen_row [] emptyCnt rowStr = (if emptyCnt > 0 then rowStr @ nat_str emptyCnt else rowStr)"
| "fen_row (piece # ps) emptyCnt rowStr =
     (if piece = None then fen_row ps (Suc emptyCnt) rowStr
      else fen_row ps 0 ((if emptyCnt > 0 then rowStr @ nat_str emptyCnt else rowStr) @
                         coordToFENPiece piece))"

definition fen_rank :: "board \<Rightarrow> int \<Rightarrow> string" where
  "fen_rank b r = fen_row (map (\<lambda>c. cell_at b r c) [0..7]) 0 []"

definition castling_field :: "castling_rights \<Rightarrow> string" where
  "castling_field cr =
     (let s = (if wK cr then ''K'' else []) @ (if wQ cr then ''Q'' else []) @
              (if bK cr then ''k'' else []) @ (if bQ cr then ''q'' else [])
      in if s = [] then ''-'' else s)"

definition boardToFEN :: "'a pos_state_scheme \<Rightarrow> board \<Rightarrow> color \<Rightarrow> string" where
  "boardToFEN st b activeColor =
     (let placement = join_str ''/'' (map (fen_rank b) [0..7]);
          active = (if activeColor = Black then ''b'' else ''w'');
          castling = castling_field (castlingRights st);
          ep = (case enPassantTarget st of
                  None \<Rightarrow> ''-''
                | Some (row, col) \<Rightarrow> coordToSquare row col)
      in placement @ '' '' @ active @ '' '' @ castling @ '' '' @ ep @ '' '' @
         nat_str (halfmoveClock st) @ '' '' @ nat_str (fullmoveNumber st))"

section \<open>Each rank describes eight squares\<close>

text \<open>
  How a FEN reader counts the squares of a rank field: a digit stands for that many empty
  squares, any other character for one piece.
\<close>

fun fen_width :: "string \<Rightarrow> nat" where
  "fen_width [] = 0"
| "fen_width (ch # cs) =
     (let n = (of_char ch :: nat) in if 48 \<le> n \<and> n \<le> 57 then n - 48 else 1) + fen_width cs"

lemma fen_width_append [simp]: "fen_width (xs @ ys) = fen_width xs + fen_width ys"
  by (induction xs) simp_all

lemma fen_width_count: "k < 10 \<Longrightarrow> 0 < k \<Longrightarrow> fen_width (nat_str k) = k"
  by (simp add: Let_def)

lemma fen_width_piece: "p \<noteq> None \<Longrightarrow> fen_width (coordToFENPiece p) = 1"
proof -
  assume "p \<noteq> None"
  then obtain c k where "p = Some (Piece c k)" by (metis not_None_eq piece.exhaust)
  then show ?thesis
    by (cases c; cases k) (simp_all add: coordToFENPiece_def to_upper_def Let_def)
qed

text \<open>The run-length loop: the pending count plus the squares still to come.\<close>

lemma fen_width_fen_row:
  "emptyCnt + length cells < 10 \<Longrightarrow>
   fen_width (fen_row cells emptyCnt rowStr) = fen_width rowStr + emptyCnt + length cells"
proof (induction cells arbitrary: emptyCnt rowStr)
  case Nil
  then show ?case by (simp add: fen_width_count)
next
  case (Cons piece ps)
  show ?case
  proof (cases "piece = None")
    case True
    then show ?thesis using Cons.IH[of "Suc emptyCnt" rowStr] Cons.prems by simp
  next
    case False
    have "fen_width ((if emptyCnt > 0 then rowStr @ nat_str emptyCnt else rowStr) @
            coordToFENPiece piece) = fen_width rowStr + emptyCnt + 1"
      using False Cons.prems by (simp add: fen_width_count fen_width_piece)
    then show ?thesis using False Cons.IH Cons.prems by simp
  qed
qed

section \<open>Splitting a FEN on spaces\<close>

text \<open>No field but the separators contains a space, so splitting the string on spaces gives
  the six fields back, as \<open>checkRepetition\<close> relies on.\<close>

lemma coordToFENPiece_no_space: "CHR '' '' \<notin> set (coordToFENPiece p)"
proof (cases p)
  case (Some q)
  then show ?thesis
    by (cases q rule: piece.exhaust, rename_tac c k, case_tac c; case_tac k)
       (simp_all add: coordToFENPiece_def to_upper_def Let_def char_of_not_space)
qed (simp add: coordToFENPiece_def)

lemma fen_row_no_space:
  "CHR '' '' \<notin> set rowStr \<Longrightarrow> CHR '' '' \<notin> set (fen_row cells emptyCnt rowStr)"
  by (induction cells emptyCnt rowStr rule: fen_row.induct)
     (simp_all add: nat_str_no_space coordToFENPiece_no_space)

lemma join_str_no_space:
  "\<forall>w\<in>set ws. CHR '' '' \<notin> set w \<Longrightarrow> CHR '' '' \<notin> set sep \<Longrightarrow> CHR '' '' \<notin> set (join_str sep ws)"
  by (induction sep ws rule: join_str.induct) auto

lemma placement_no_space: "CHR '' '' \<notin> set (join_str ''/'' (map (fen_rank b) [0..7]))"
  by (rule join_str_no_space) (simp_all add: fen_rank_def fen_row_no_space)

lemma castling_field_no_space: "CHR '' '' \<notin> set (castling_field cr)"
  by (simp add: castling_field_def Let_def)

lemma coordToSquare_no_space: "inBounds r c \<Longrightarrow> CHR '' '' \<notin> set (coordToSquare r c)"
proof -
  assume "inBounds r c"
  then have "0 \<le> c" "c < 8" by (simp_all add: inBounds_def)
  then have "nat (97 + c) mod 256 \<noteq> 32" by simp
  then have "CHR '' '' \<noteq> char_of (nat (97 + c))" by (rule char_of_not_space)
  then show ?thesis unfolding coordToSquare_def using nat_str_no_space by simp
qed

lemma boardToFEN_fields:
  assumes ep: "\<And>r c. enPassantTarget st = Some (r, c) \<Longrightarrow> inBounds r c"
  shows "split_str CHR '' '' (boardToFEN st b ac) =
    [join_str ''/'' (map (fen_rank b) [0..7]), if ac = Black then ''b'' else ''w'',
     castling_field (castlingRights st),
     case enPassantTarget st of None \<Rightarrow> ''-'' | Some (row, col) \<Rightarrow> coordToSquare row col,
     nat_str (halfmoveClock st), nat_str (fullmoveNumber st)]"
proof -
  have "CHR '' '' \<notin> set (case enPassantTarget st of None \<Rightarrow> ''-'' | Some (row, col) \<Rightarrow> coordToSquare row col)"
    using ep by (auto split: option.split simp: coordToSquare_no_space)
  then show ?thesis
    unfolding boardToFEN_def Let_def
    by (simp add: split_str_append_sep split_str_no_sep placement_no_space castling_field_no_space
        nat_str_no_space)
qed

end
