(* ===== verification/Status.thy ===== *)
theory Status
  imports Moves FEN
begin

text \<open>
  The game-status evaluator of \<open>src/renderer.js\<close> (section \<open>DRAW LOGIC\<close>):
  \<open>checkInsufficientMaterial\<close>, \<open>checkRepetition\<close> over the ledger
  \<open>positionHistory\<close>, and \<open>checkGameOver\<close>, which tries, in this order, no legal move
  (checkmate or stalemate), insufficient material, the fifty-move rule and threefold
  repetition. The source's result object \<open>{over, result, winner}\<close> is the datatype
  \<open>outcome\<close>; \<open>Ongoing\<close> is \<open>{over: false}\<close>.
\<close>

datatype outcome =
    Ongoing
  | Checkmate (winner: color)
  | Stalemate
  | InsufficientMaterial
  | FiftyMoveRule
  | ThreefoldRepetition

text \<open>The non-empty squares in row-major order.\<close>

definition board_pieces :: "board \<Rightarrow> cell list" where
  "board_pieces b = filter (\<lambda>p. p \<noteq> None) (map (\<lambda>(r, c). cell_at b r c) all_squares)"

definition checkInsufficientMaterial :: "board \<Rightarrow> bool" where
  "checkInsufficientMaterial b =
     (let pieces = board_pieces b in
      if length pieces = 2 then True
      else if length pieces = 3 then
        (let types = map getType pieces in Some Knight \<in> set types \<or> Some Bishop \<in> set types)
      else False)"

text \<open>\<open>fen.split(" ").slice(0, 4).join(" ")\<close>: the position without the two clocks.\<close>

definition fen_key :: "string \<Rightarrow> string" where
  "fen_key fen = join_str '' '' (take 4 (split_str CHR '' '' fen))"

definition checkRepetition :: "'a game_state_scheme \<Rightarrow> string \<Rightarrow> bool" where
  "checkRepetition g fen =
     (let cleanFen = fen_key fen;
          count = length (filter (\<lambda>f. fen_key f = cleanFen) (positionHistory g))
      in count \<ge> 3)"

definition checkGameOver :: "'a game_state_scheme \<Rightarrow> board \<Rightarrow> color \<Rightarrow> outcome" where
  "checkGameOver g currentBoard sideToMove =
     (let inCheck = isKingInCheck currentBoard sideToMove;
          hasMoves = sideHasAnyLegalMove g sideToMove
      in if \<not> hasMoves then (if inCheck then Checkmate (enemy_of sideToMove) else Stalemate)
         else if checkInsufficientMaterial currentBoard then InsufficientMaterial
         else if halfmoveClock g \<ge> 100 then FiftyMoveRule
         else if checkRepetition g (boardToFEN g currentBoard sideToMove) then ThreefoldRepetition
         else Ongoing)"

text \<open>The \<open>result\<close> and \<open>winner\<close> strings of the object \<open>checkGameOver\<close> returns when the game is over.\<close>

definition outcome_result :: "outcome \<Rightarrow> string" where
  "outcome_result status =
     (case status of
        Ongoing \<Rightarrow> []
      | Checkmate _ \<Rightarrow> ''Checkmate''
      | Stalemate \<Rightarrow> ''Stalemate''
      | InsufficientMaterial \<Rightarrow> ''Insufficient Material''
      | FiftyMoveRule \<Rightarrow> ''50-Move Rule''
      | ThreefoldRepetition \<Rightarrow> ''Threefold Repetition'')"

definition outcome_winner :: "outcome \<Rightarrow> string" where
  "outcome_winner status =
     (case status of
        Ongoing \<Rightarrow> []
      | Checkmate w \<Rightarrow> if w = White then ''White'' else ''Black''
      | _ \<Rightarrow> ''Draw'')"

section \<open>What the evaluator reads\<close>

lemma checkGameOver_cong:
  assumes "board g = board g'" "turn g = turn g'"
    and "castlingRights g = castlingRights g'" "enPassantTarget g = enPassantTarget g'"
    and "halfmoveClock g = halfmoveClock g'" "fullmoveNumber g = fullmoveNumber g'"
    and "positionHistory g = positionHistory g'"
  shows "checkGameOver g = checkGameOver g'"
  unfolding checkGameOver_def checkRepetition_def boardToFEN_def sideHasAnyLegalMove_cong[OF assms(1-4)]
    assms(3-7) ..

text \<open>A checkmate is won by the side that is not to move.\<close>

lemma checkGameOver_Checkmate: "checkGameOver g b c = Checkmate w \<Longrightarrow> w = enemy_of c"
  by (cases c; cases w) (auto simp: checkGameOver_def Let_def split: if_splits)

lemma checkGameOver_FiftyMoveRule: "checkGameOver g b c = FiftyMoveRule \<Longrightarrow> 100 \<le> halfmoveClock g"
  by (auto simp: checkGameOver_def Let_def split: if_splits)

end
