(* ===== verification/Game.thy ===== *)
theory Game
  imports Status
begin

text \<open>
  The game controller of \<open>src/renderer.js\<close>: \<open>resetBoardState\<close>,
  \<open>finalizeMove\<close> (commit a move, flip the turn, append the position to the ledger,
  export it, evaluate the status, show the game-over dialog or ask the engine),
  \<open>maybeEngineMove\<close>, the click handler \<open>onSquareClick\<close> with the pending-promotion
  dialog, the new-game and stop handlers, and the top bar; the engine's reply is in
  \<open>Engine\<close>, the events in \<open>Events\<close>. The DOM is reduced to what the logic reads back or shows: which dialog is shown
  (\<open>showModal\<close>, with the piece images of the promotion options and the game-over title
  and reason), and the class \<open>visible\<close> of the game-over dialog that \<open>onSquareClick\<close> tests. Messages to the
  host (\<open>gamePositionUpdated\<close>, \<open>turnChanged\<close>, \<open>requestEngineMove\<close>,
  \<open>stopMatch\<close>) are appended to logs, and so are the sound files \<open>playSound\<close> plays;
  the board's status class (\<open>board-check\<close>, \<open>board-mate\<close>) is a field. Rendering of
  the squares is in \<open>Render\<close>. The top bar's buttons count the windows they ask
  the host for, and the board theme is the \<open>data-theme\<close> attribute.
\<close>

section \<open>State\<close>

datatype mode = Idle | HumanMode | EngineMode | ReviewMode

text \<open>The dialogs: \<open>modal-overlay\<close> with \<open>promotion-modal\<close> or \<open>game-over-modal\<close>.\<close>

datatype modal = NoModal | PromotionModal | GameOverModal outcome

text \<open>The status classes of the \<open>#board\<close> element.\<close>

datatype board_status = NoStatus | BoardCheck | BoardMate

text \<open>A move of a game under review, \<open>{from, to, piece, tag}\<close>.\<close>

record review_move =
  rv_from :: string
  rv_to :: string
  rv_piece :: cell
  rv_tag :: string

record ui_state = game_state +
  selectedSquare :: "square option"
  legalMovesForSelected :: "square list"
  lastMove :: "(int \<times> int \<times> int \<times> int \<times> cell \<times> bool) option"
  gameMoves :: "(string \<times> string \<times> cell) list"
  promotionPending :: "(int \<times> int \<times> int \<times> int) option"
  gameMode :: mode
  humanColor :: color
  engineColor :: "color option"
  opponentEngineId :: "string option"
  engineThinking :: bool
  inReviewMode :: bool
  shownModal :: modal
  gameOverVisibleClass :: bool
  positionsSent :: "string list"
  engineRequests :: "string list"
  matchStops :: nat
  boardStatus :: board_status
  soundsPlayed :: "string list"
  reviewCurrentTag :: "string option"
  turnsAnnounced :: "color list"
  dataTheme :: "string option"
  settingsRequests :: nat
  newGameRequests :: nat
  reviewGame :: "review_move list option"
  reviewIndex :: int
  promoIcons :: "(kind \<times> string) list"
  gameOverText :: "(string \<times> string) option"

section \<open>New game\<close>

text \<open>The values the module-level variables get when the script loads.\<close>

definition initial_ui :: ui_state where
  "initial_ui =
     \<lparr>castlingRights = all_rights, enPassantTarget = None, halfmoveClock = 0,
      fullmoveNumber = 1, board = cloneBoard initialPosition, turn = White, positionHistory = [],
      selectedSquare = None, legalMovesForSelected = [], lastMove = None, gameMoves = [],
      promotionPending = None, gameMode = Idle, humanColor = White, engineColor = None,
      opponentEngineId = None, engineThinking = False, inReviewMode = False,
      shownModal = NoModal, gameOverVisibleClass = False, positionsSent = [],
      engineRequests = [], matchStops = 0, boardStatus = NoStatus, soundsPlayed = [],
      reviewCurrentTag = None, turnsAnnounced = [], dataTheme = None, settingsRequests = 0,
      newGameRequests = 0, reviewGame = None, reviewIndex = -1, promoIcons = [],
      gameOverText = None\<rparr>"

definition resetBoardState :: "ui_state \<Rightarrow> ui_state" where
  "resetBoardState s =
     (let s1 = s\<lparr>board := cloneBoard initialPosition, turn := White, selectedSquare := None,
                 legalMovesForSelected := [], lastMove := None, gameMoves := [],
                 castlingRights := all_rights, enPassantTarget := None,
                 halfmoveClock := 0, fullmoveNumber := 1\<rparr>
      in s1\<lparr>positionHistory := [boardToFEN s1 (board s1) (turn s1)], boardStatus := NoStatus\<rparr>)"

section \<open>The dialogs\<close>

text \<open>
  The piece codes of the source (\<open>"wQ"\<close>, \<open>"bN"\<close>, ...) and the image a piece is drawn
  with, \<open>url(assets/pieces/${code}.png)\<close>.
\<close>

definition piece_code :: "piece \<Rightarrow> string" where
  "piece_code p =
     [if pcolor p = White then CHR ''w'' else CHR ''b'',
      case pkind p of Pawn \<Rightarrow> CHR ''P'' | Knight \<Rightarrow> CHR ''N'' | Bishop \<Rightarrow> CHR ''B''
                    | Rook \<Rightarrow> CHR ''R'' | Queen \<Rightarrow> CHR ''Q'' | King \<Rightarrow> CHR ''K'']"

definition piece_image :: "piece \<Rightarrow> string" where
  "piece_image p = ''url(assets/pieces/'' @ piece_code p @ ''.png)''"

text \<open>
  The loop of \<open>showModal("promotion")\<close> over the \<open>.promo-option\<close> elements (data types
  Q, R, B, N): each gets the image of that piece in the colour \<open>turn\<close> names.
\<close>

definition promo_icons :: "color \<Rightarrow> (kind \<times> string) list" where
  "promo_icons side = map (\<lambda>t. (t, piece_image (Piece side t))) [Queen, Rook, Bishop, Knight]"

text \<open>
  \<open>showModal(type)\<close>: the overlay shows one dialog; the promotion dialog's options show
  the pieces of the side to move at the time the dialog opens.
\<close>

definition showModal :: "ui_state \<Rightarrow> modal \<Rightarrow> ui_state" where
  "showModal s type =
     (case type of
        PromotionModal \<Rightarrow>
          s\<lparr>shownModal := PromotionModal,
            promoIcons := promo_icons (turn s)\<rparr>
      | _ \<Rightarrow> s\<lparr>shownModal := type\<rparr>)"

section \<open>Committing a move\<close>

text \<open>\<open>playSound(type)\<close>: the file it plays.\<close>

definition playSound :: "string \<Rightarrow> string" where
  "playSound type =
     (if type = ''promote'' then ''promote.mp3''
      else if type = ''check'' then ''move-check.mp3''
      else if type = ''capture'' then ''capture.mp3''
      else ''move-self.mp3'')"

definition is_checkmate :: "outcome \<Rightarrow> bool" where
  "is_checkmate status = (case status of Checkmate _ \<Rightarrow> True | _ \<Rightarrow> False)"

definition maybeEngineMove :: "ui_state \<Rightarrow> ui_state" where
  "maybeEngineMove s =
     (if gameMode s \<noteq> EngineMode then s
      else if opponentEngineId s = None then s
      else if Some (turn s) \<noteq> engineColor s then s
      else if engineThinking s then s
      else s\<lparr>engineThinking := True,
             engineRequests := engineRequests s @ [boardToFEN s (board s) (turn s)]\<rparr>)"

text \<open>
  Steps 7 to 11 of \<open>finalizeMove\<close>, given the status and the check of the side to move
  (step 6): play the sound, set the board's status class, clear the selection, then show
  the game-over dialog and stop the match, or ask the engine to move.
\<close>

definition finalize_end :: "ui_state \<Rightarrow> cell \<Rightarrow> bool \<Rightarrow> outcome \<Rightarrow> bool \<Rightarrow> ui_state" where
  "finalize_end s4 promotionPiece captured status inCheck =
     (let mate = (status \<noteq> Ongoing \<and> is_checkmate status);
          sound = (if mate then ''check''
                   else if inCheck then ''check''
                   else if promotionPiece \<noteq> None then ''promote''
                   else if captured then ''capture'' else ''move'');
          s5 = s4\<lparr>soundsPlayed := soundsPlayed s4 @ [playSound sound],
                  boardStatus := (if inCheck then (if mate then BoardMate else BoardCheck)
                                  else NoStatus),
                  selectedSquare := None, legalMovesForSelected := []\<rparr>
      in if status \<noteq> Ongoing
         then (showModal (s5\<lparr>gameOverText := Some (outcome_result status,
                                   ''Winner: '' @ outcome_winner status)\<rparr>)
                 (GameOverModal status))\<lparr>matchStops := Suc (matchStops s5)\<rparr>
         else maybeEngineMove s5)"

text \<open>
  Steps 2 to 6 of \<open>finalizeMove\<close>, on the result of step 1 (the real application of the
  move): record the last move and the move list, flip the turn to the opponent of the
  moved piece, append the new position to the ledger and export it, and evaluate the
  status and the check of the side to move.
\<close>

fun finalize_after ::
  "ui_state \<Rightarrow> int \<Rightarrow> int \<Rightarrow> int \<Rightarrow> int \<Rightarrow> cell \<Rightarrow> board \<times> ui_state \<times> cell \<times> bool \<Rightarrow> ui_state" where
  "finalize_after s fromRow fromCol toRow toCol promotionPiece (b', s1, movedPiece, captured) =
     (let s2 = s1\<lparr>board := b',
                  lastMove := Some (fromRow, fromCol, toRow, toCol, movedPiece, captured),
                  gameMoves := gameMoves s1 @
                    [(coordToSquare fromRow fromCol, coordToSquare toRow toCol, movedPiece)]\<rparr>;
          nextTurn = (if getColor movedPiece = Some White then Black else White);
          s3 = s2\<lparr>turn := nextTurn\<rparr>;
          fen = boardToFEN s3 (board s3) (turn s3);
          s4 = s3\<lparr>positionHistory := positionHistory s3 @ [fen],
                  positionsSent := positionsSent s3 @ [fen],
                  turnsAnnounced := turnsAnnounced s3 @ [turn s3]\<rparr>
      in finalize_end s4 promotionPiece captured (checkGameOver s4 (board s4) (turn s4))
           (isKingInCheck (board s4) (turn s4)))"

declare finalize_after.simps [simp del]

definition finalizeMove :: "ui_state \<Rightarrow> int \<Rightarrow> int \<Rightarrow> int \<Rightarrow> int \<Rightarrow> cell \<Rightarrow> ui_state" where
  "finalizeMove s fromRow fromCol toRow toCol promotionPiece =
     finalize_after s fromRow fromCol toRow toCol promotionPiece
       (applyMoveOnBoard s (board s) fromRow fromCol toRow toCol True promotionPiece)"

text \<open>
  The host's new-game payload \<open>{mode, engineId, humanColor}\<close>; a field the host leaves out
  is \<open>None\<close>, and the payload itself may be missing (\<open>payload?.\<close>).
\<close>

record new_game_payload =
  pl_mode :: "string option"
  pl_engineId :: "string option"
  pl_humanColor :: "string option"

text \<open>The first three lines of \<open>startNewGameFromPayload\<close>, which read the payload.\<close>

definition payload_engine :: "new_game_payload option \<Rightarrow> bool" where
  "payload_engine payload =
     (case payload of None \<Rightarrow> False | Some p \<Rightarrow> pl_mode p = Some ''engine'')"

text \<open>\<open>payload?.engineId || null\<close>: the empty string is falsy and becomes \<open>null\<close>.\<close>

definition payload_engineId :: "new_game_payload option \<Rightarrow> string option" where
  "payload_engineId payload =
     (case payload of
        None \<Rightarrow> None
      | Some p \<Rightarrow> (case pl_engineId p of None \<Rightarrow> None | Some i \<Rightarrow> if i = [] then None else Some i))"

definition payload_humanColor :: "new_game_payload option \<Rightarrow> color" where
  "payload_humanColor payload =
     (case payload of None \<Rightarrow> White | Some p \<Rightarrow> if pl_humanColor p = Some ''b'' then Black else White)"

text \<open>
  The rest of \<open>startNewGameFromPayload\<close>, on the values read from the payload:
  \<open>engine\<close> for \<open>mode === "engine"\<close>, \<open>hColor\<close> and \<open>engineId\<close>.
\<close>

definition startNewGameFromPayload :: "ui_state \<Rightarrow> bool \<Rightarrow> color \<Rightarrow> string option \<Rightarrow> ui_state" where
  "startNewGameFromPayload s engine hColor engineId =
     (let mode = (if engine then EngineMode else HumanMode);
          s1 = s\<lparr>gameMode := mode, humanColor := hColor,
                 engineColor := (if mode = EngineMode then Some (enemy_of hColor) else None),
                 opponentEngineId := engineId, engineThinking := False, inReviewMode := False,
                 reviewGame := None, reviewIndex := -1, reviewCurrentTag := None\<rparr>;
          s2 = resetBoardState s1
      in maybeEngineMove (s2\<lparr>turnsAnnounced := turnsAnnounced s2 @ [turn s2]\<rparr>))"

text \<open>The host's \<open>onNewGameStart\<close> message: \<open>startNewGameFromPayload(payload)\<close>.\<close>

definition onNewGameStart :: "ui_state \<Rightarrow> new_game_payload option \<Rightarrow> ui_state" where
  "onNewGameStart s payload =
     startNewGameFromPayload s (payload_engine payload) (payload_humanColor payload)
       (payload_engineId payload)"

definition hideModals :: "ui_state \<Rightarrow> ui_state" where
  "hideModals s = s\<lparr>shownModal := NoModal\<rparr>"

definition endGameAndResetUI :: "ui_state \<Rightarrow> ui_state" where
  "endGameAndResetUI s =
     (let s1 = s\<lparr>gameMode := Idle, opponentEngineId := None, engineColor := None,
                 humanColor := White, engineThinking := False, inReviewMode := False,
                 reviewGame := None, reviewIndex := -1, reviewCurrentTag := None\<rparr>;
          s2 = resetBoardState s1
      in hideModals (s2\<lparr>matchStops := Suc (matchStops s2)\<rparr>))"

section \<open>The top bar and the theme\<close>

text \<open>
  The settings and start buttons only ask the host to open a window
  (\<open>openSettings\<close>, \<open>openNewGame\<close>); the requests are counted.
\<close>

definition onSettingsClick :: "ui_state \<Rightarrow> ui_state" where
  "onSettingsClick s = s\<lparr>settingsRequests := Suc (settingsRequests s)\<rparr>"

definition onStartGameClick :: "ui_state \<Rightarrow> ui_state" where
  "onStartGameClick s = s\<lparr>newGameRequests := Suc (newGameRequests s)\<rparr>"

text \<open>
  The rest of \<open>initTheme\<close> once \<open>getPreferences()\<close> has answered with the preferred
  board theme, if any: an empty name is falsy and leaves the attribute alone.
\<close>

definition initTheme :: "ui_state \<Rightarrow> string option \<Rightarrow> ui_state" where
  "initTheme s boardTheme =
     (case boardTheme of
        None \<Rightarrow> s
      | Some t \<Rightarrow> if t = [] then s else s\<lparr>dataTheme := Some t\<rparr>)"

definition onThemeChanged :: "ui_state \<Rightarrow> string \<Rightarrow> ui_state" where
  "onThemeChanged s theme = s\<lparr>dataTheme := Some theme\<rparr>"

section \<open>Clicks and the promotion dialog\<close>

text \<open>The tail of \<open>onSquareClick\<close>: select a piece of the side to move, else clear.\<close>

definition select_or_clear :: "ui_state \<Rightarrow> int \<Rightarrow> int \<Rightarrow> ui_state" where
  "select_or_clear s row col =
     (let piece = getPiece (board s) row col; color = getColor piece in
      if piece \<noteq> None \<and> color = Some (turn s)
      then s\<lparr>selectedSquare := Some (row, col),
             legalMovesForSelected := generateLegalMovesForSquare s row col\<rparr>
      else s\<lparr>selectedSquare := None, legalMovesForSelected := []\<rparr>)"

text \<open>
  The body of \<open>onSquareClick\<close> after its guards, by the current selection: a click on a
  highlighted target commits the move (or opens the promotion dialog for a pawn reaching
  the last rank), a click on the selected square deselects it.
\<close>

fun click_on :: "ui_state \<Rightarrow> int \<Rightarrow> int \<Rightarrow> square option \<Rightarrow> ui_state" where
  "click_on s row col (Some (fromRow, fromCol)) =
     (if (row, col) \<in> set (legalMovesForSelected s) then
        (let movingPiece = getPiece (board s) fromRow fromCol;
             isPawn = getType movingPiece = Some Pawn;
             isLastRank = (turn s = White \<and> row = 0 \<or> turn s = Black \<and> row = 7)
         in if isPawn \<and> isLastRank
            then showModal (s\<lparr>promotionPending := Some (fromRow, fromCol, row, col)\<rparr>)
                   PromotionModal
            else finalizeMove s fromRow fromCol row col None)
      else if (fromRow, fromCol) = (row, col)
      then s\<lparr>selectedSquare := None, legalMovesForSelected := []\<rparr>
      else select_or_clear s row col)"
| "click_on s row col None = select_or_clear s row col"

definition onSquareClick :: "ui_state \<Rightarrow> int \<Rightarrow> int \<Rightarrow> ui_state" where
  "onSquareClick s row col =
     (if inReviewMode s \<or> (gameMode s \<noteq> Idle \<and> gameOverVisibleClass s) then s
      else if gameMode s = EngineMode \<and> Some (turn s) = engineColor s \<and> engineThinking s then s
      else if gameMode s = EngineMode \<and> turn s \<noteq> humanColor s then s
      else click_on s row col (selectedSquare s))"

text \<open>
  A click on a \<open>.promo-option\<close>: commit the pending move with \<open>turn + type\<close>, clear the
  pending move, then \<open>hideModals()\<close>.
\<close>

fun promo_on :: "ui_state \<Rightarrow> kind \<Rightarrow> (int \<times> int \<times> int \<times> int) option \<Rightarrow> ui_state" where
  "promo_on s type None = s"
| "promo_on s type (Some (fromRow, fromCol, toRow, toCol)) =
     hideModals ((finalizeMove s fromRow fromCol toRow toCol (Some (Piece (turn s) type)))
                   \<lparr>promotionPending := None\<rparr>)"

definition onPromoOption :: "ui_state \<Rightarrow> kind \<Rightarrow> ui_state" where
  "onPromoOption s type = promo_on s type (promotionPending s)"

text \<open>The colour to move after a move of \<open>movedPiece\<close> (step 3 of \<open>finalizeMove\<close>).\<close>

definition turn_after :: "cell \<Rightarrow> color" where
  "turn_after movedPiece = (if getColor movedPiece = Some White then Black else White)"

section \<open>What a committed move changes\<close>

lemma showModal_eq [simp]:
  "showModal s m =
     s\<lparr>shownModal := m,
       promoIcons := (if m = PromotionModal
                      then promo_icons (turn s)
                      else promoIcons s)\<rparr>"
  by (cases m) (simp_all add: showModal_def)

lemma maybeEngineMove_frame [simp]:
  "board (maybeEngineMove s) = board s" "turn (maybeEngineMove s) = turn s"
  "castlingRights (maybeEngineMove s) = castlingRights s"
  "enPassantTarget (maybeEngineMove s) = enPassantTarget s"
  "halfmoveClock (maybeEngineMove s) = halfmoveClock s"
  "fullmoveNumber (maybeEngineMove s) = fullmoveNumber s"
  "positionHistory (maybeEngineMove s) = positionHistory s"
  "positionsSent (maybeEngineMove s) = positionsSent s"
  "shownModal (maybeEngineMove s) = shownModal s"
  "gameOverVisibleClass (maybeEngineMove s) = gameOverVisibleClass s"
  "gameMode (maybeEngineMove s) = gameMode s"
  "selectedSquare (maybeEngineMove s) = selectedSquare s"
  "legalMovesForSelected (maybeEngineMove s) = legalMovesForSelected s"
  "promotionPending (maybeEngineMove s) = promotionPending s"
  "boardStatus (maybeEngineMove s) = boardStatus s"
  "soundsPlayed (maybeEngineMove s) = soundsPlayed s"
  "inReviewMode (maybeEngineMove s) = inReviewMode s"
  by (simp_all add: maybeEngineMove_def)

text \<open>The ledger a reset leaves: the FEN of the start position, whatever the state was.\<close>

lemma resetBoardState_history:
  "positionHistory (resetBoardState s) = [boardToFEN initial_ui initialPosition White]"
  by (simp add: resetBoardState_def Let_def boardToFEN_def initial_ui_def)

lemma finalize_end_frame [simp]:
  "board (finalize_end s4 pp cap status inCheck) = board s4"
  "turn (finalize_end s4 pp cap status inCheck) = turn s4"
  "castlingRights (finalize_end s4 pp cap status inCheck) = castlingRights s4"
  "enPassantTarget (finalize_end s4 pp cap status inCheck) = enPassantTarget s4"
  "positionsSent (finalize_end s4 pp cap status inCheck) = positionsSent s4"
  "halfmoveClock (finalize_end s4 pp cap status inCheck) = halfmoveClock s4"
  "fullmoveNumber (finalize_end s4 pp cap status inCheck) = fullmoveNumber s4"
  "positionHistory (finalize_end s4 pp cap status inCheck) = positionHistory s4"
  by (simp_all add: finalize_end_def Let_def)

text \<open>Step 10 of \<open>finalizeMove\<close> when the game is over: the dialog, its texts, \<open>stopMatch\<close>.\<close>

lemma finalize_end_over:
  assumes "status \<noteq> Ongoing"
  shows "shownModal (finalize_end s4 pp cap status ic) = GameOverModal status \<and>
         gameOverText (finalize_end s4 pp cap status ic) =
           Some (outcome_result status, ''Winner: '' @ outcome_winner status) \<and>
         matchStops (finalize_end s4 pp cap status ic) = Suc (matchStops s4)"
  using assms by (simp add: finalize_end_def Let_def)

lemma finalize_end_boardStatus:
  "boardStatus (finalize_end s4 pp cap status inCheck) =
     (if inCheck then (if status \<noteq> Ongoing \<and> is_checkmate status then BoardMate else BoardCheck)
      else NoStatus)"
  by (simp add: finalize_end_def Let_def)

lemma finalize_end_sound:
  "soundsPlayed (finalize_end s4 pp cap status inCheck) = soundsPlayed s4 @
     [playSound (if status \<noteq> Ongoing \<and> is_checkmate status then ''check''
                 else if inCheck then ''check''
                 else if pp \<noteq> None then ''promote''
                 else if cap then ''capture'' else ''move'')]"
  by (simp add: finalize_end_def Let_def)

text \<open>
  Handing the turn to the engine: once the status is evaluated, either the game is over
  and the dialog says so, or the engine is asked to move from the new position.
\<close>

lemma finalize_end_engine:
  assumes "gameMode s4 = EngineMode" "opponentEngineId s4 \<noteq> None"
    and "engineColor s4 = Some (turn s4)" "\<not> engineThinking s4"
    and "last (positionsSent s4) = boardToFEN s4 (board s4) (turn s4)"
    and "engineRequests s4 = rq"
  shows "(\<exists>st. st \<noteq> Ongoing \<and> shownModal (finalize_end s4 pp cap status ic) = GameOverModal st) \<or>
         (engineThinking (finalize_end s4 pp cap status ic) \<and>
          engineRequests (finalize_end s4 pp cap status ic) =
            rq @ [last (positionsSent (finalize_end s4 pp cap status ic))])"
  using assms by (auto simp: finalize_end_def Let_def maybeEngineMove_def boardToFEN_def)

text \<open>The status is a checkmate exactly when the side to move is in check and has no move.\<close>

lemma checkGameOver_mate:
  "(checkGameOver g b c \<noteq> Ongoing \<and> is_checkmate (checkGameOver g b c)) \<longleftrightarrow>
   \<not> sideHasAnyLegalMove g c \<and> isKingInCheck b c"
  by (simp add: checkGameOver_def Let_def is_checkmate_def)

lemma finalize_after_fields:
  fixes s s1 :: ui_state
  shows "board (finalize_after s fr fc tr tc pp (b', s1, mp, cap)) = b'"
    and "turn (finalize_after s fr fc tr tc pp (b', s1, mp, cap)) = turn_after mp"
    and "castlingRights (finalize_after s fr fc tr tc pp (b', s1, mp, cap)) = castlingRights s1"
    and "enPassantTarget (finalize_after s fr fc tr tc pp (b', s1, mp, cap)) = enPassantTarget s1"
    and "halfmoveClock (finalize_after s fr fc tr tc pp (b', s1, mp, cap)) = halfmoveClock s1"
    and "fullmoveNumber (finalize_after s fr fc tr tc pp (b', s1, mp, cap)) = fullmoveNumber s1"
    and "positionHistory (finalize_after s fr fc tr tc pp (b', s1, mp, cap)) =
           positionHistory s1 @ [boardToFEN s1 b' (turn_after mp)]"
    and "positionsSent (finalize_after s fr fc tr tc pp (b', s1, mp, cap)) =
           positionsSent s1 @ [boardToFEN s1 b' (turn_after mp)]"
    and "gameOverVisibleClass (finalize_after s fr fc tr tc pp (b', s1, mp, cap)) =
           gameOverVisibleClass s1"
  by (simp_all add: finalize_after.simps finalize_end_def Let_def boardToFEN_def turn_after_def)

lemma applyMoveOnBoard_real:
  "applyMoveOnBoard st b fr fc tr tc True pp =
     (moved_board st b fr fc tr tc pp,
      commit_bookkeeping st (cell_at b fr fc) (snd (ep_capture st b fr fc tr tc)) fr fc tr tc,
      cell_at (moved_board st b fr fc tr tc pp) tr tc,
      snd (ep_capture st b fr fc tr tc) \<noteq> None)"
  by (simp add: applyMoveOnBoard_def moved_board_def Let_def split: prod.split)

text \<open>
  The state \<open>finalizeMove\<close> leaves, field by field: the board of the move, the
  bookkeeping of a real move, the turn of the opponent of the moved piece, and the new
  position appended to the ledger and exported.
\<close>

lemma finalizeMove_fields:
  fixes s :: ui_state
  shows "board (finalizeMove s fr fc tr tc pp) = moved_board s (board s) fr fc tr tc pp"
    and "turn (finalizeMove s fr fc tr tc pp) =
           turn_after (cell_at (moved_board s (board s) fr fc tr tc pp) tr tc)"
    and "castlingRights (finalizeMove s fr fc tr tc pp) = castlingRights (commit_bookkeeping s
           (cell_at (board s) fr fc) (snd (ep_capture s (board s) fr fc tr tc)) fr fc tr tc)"
    and "enPassantTarget (finalizeMove s fr fc tr tc pp) = enPassantTarget (commit_bookkeeping s
           (cell_at (board s) fr fc) (snd (ep_capture s (board s) fr fc tr tc)) fr fc tr tc)"
    and "halfmoveClock (finalizeMove s fr fc tr tc pp) = halfmoveClock (commit_bookkeeping s
           (cell_at (board s) fr fc) (snd (ep_capture s (board s) fr fc tr tc)) fr fc tr tc)"
    and "fullmoveNumber (finalizeMove s fr fc tr tc pp) = fullmoveNumber (commit_bookkeeping s
           (cell_at (board s) fr fc) (snd (ep_capture s (board s) fr fc tr tc)) fr fc tr tc)"
    and "gameOverVisibleClass (finalizeMove s fr fc tr tc pp) = gameOverVisibleClass s"
  unfolding finalizeMove_def applyMoveOnBoard_real
  by (simp_all add: finalize_after_fields commit_bookkeeping_def Let_def)

lemma finalizeMove_history:
  fixes s :: ui_state
  shows "positionHistory (finalizeMove s fr fc tr tc pp) =
           positionHistory s @ [boardToFEN (finalizeMove s fr fc tr tc pp)
              (board (finalizeMove s fr fc tr tc pp)) (turn (finalizeMove s fr fc tr tc pp))]"
    and "positionsSent (finalizeMove s fr fc tr tc pp) =
           positionsSent s @ [boardToFEN (finalizeMove s fr fc tr tc pp)
              (board (finalizeMove s fr fc tr tc pp)) (turn (finalizeMove s fr fc tr tc pp))]"
  unfolding finalizeMove_def applyMoveOnBoard_real
  by (simp_all add: finalize_after_fields commit_bookkeeping_def Let_def boardToFEN_def)

text \<open>
  The status \<open>finalizeMove\<close> acts on is the status of the state it leaves: steps 7 to 11
  change neither the position nor the ledger.
\<close>

lemma finalizeMove_status:
  fixes s :: ui_state and fr fc tr tc :: int and pp :: cell
  defines "s' \<equiv> finalizeMove s fr fc tr tc pp"
  assumes "checkGameOver s' (board s') (turn s') \<noteq> Ongoing"
  shows "shownModal s' = GameOverModal (checkGameOver s' (board s') (turn s')) \<and>
         gameOverText s' = Some (outcome_result (checkGameOver s' (board s') (turn s')),
                                 ''Winner: '' @ outcome_winner (checkGameOver s' (board s') (turn s'))) \<and>
         matchStops s' = Suc (matchStops s)"
proof -
  obtain b' s1 mp cap where a: "applyMoveOnBoard s (board s) fr fc tr tc True pp = (b', s1, mp, cap)"
    by (cases "applyMoveOnBoard s (board s) fr fc tr tc True pp") auto
  have ms: "matchStops s1 = matchStops s"
    using a by (auto simp: applyMoveOnBoard_real commit_bookkeeping_def Let_def)
  define s4 where "s4 = s1\<lparr>board := b', lastMove := Some (fr, fc, tr, tc, mp, cap),
      gameMoves := gameMoves s1 @ [(coordToSquare fr fc, coordToSquare tr tc, mp)],
      turn := turn_after mp,
      positionHistory := positionHistory s1 @ [boardToFEN s1 b' (turn_after mp)],
      positionsSent := positionsSent s1 @ [boardToFEN s1 b' (turn_after mp)],
      turnsAnnounced := turnsAnnounced s1 @ [turn_after mp]\<rparr>"
  have s': "s' = finalize_end s4 pp cap (checkGameOver s4 (board s4) (turn s4))
                   (isKingInCheck (board s4) (turn s4))"
    unfolding s'_def finalizeMove_def a
    by (simp add: finalize_after.simps Let_def s4_def boardToFEN_def turn_after_def)
  have "checkGameOver s' = checkGameOver s4"
    unfolding s' by (rule checkGameOver_cong) simp_all
  then have st: "checkGameOver s' (board s') (turn s') = checkGameOver s4 (board s4) (turn s4)"
    by (simp add: s')
  show ?thesis
    using finalize_end_over[of "checkGameOver s4 (board s4) (turn s4)" s4] assms(2) ms
    unfolding st by (simp add: s' s4_def)
qed

end
