(* ===== verification/Engine.thy ===== *)
theory Engine
  imports Game
begin

text \<open>
  The handler of the engine's reply (\<open>onEngineMove\<close> of \<open>src/renderer.js\<close>): the
  coordinate parser with its early returns as the values of \<open>engine_error\<close>, and the
  commit of a parsed move through \<open>finalizeMove\<close>. The lemmas show which strings are
  accepted, that the controller's own square names read back, and what a short reply does.
\<close>

section \<open>The engine's reply\<close>

text \<open>
  \<open>parseInt(ch, 10)\<close> of one character (\<open>NaN\<close> is \<open>None\<close>, and \<open>inBounds\<close> is false on
  \<open>NaN\<close>), and \<open>ch.charCodeAt(0) - "a".charCodeAt(0)\<close>.
\<close>

definition parse_digit :: "char \<Rightarrow> int option" where
  "parse_digit ch =
     (let n = (of_char ch :: nat) in if 48 \<le> n \<and> n \<le> 57 then Some (int n - 48) else None)"

definition file_index :: "char \<Rightarrow> int" where
  "file_index ch = int (of_char ch) - 97"

datatype engine_error = NoMove | TypeError | OutOfBounds

text \<open>\<open>{ q: "Q", r: "R", b: "B", n: "N" }[promoChar.toLowerCase()] || "Q"\<close>.\<close>

definition promo_kind :: "char \<Rightarrow> kind" where
  "promo_kind ch =
     (let lc = (let n = (of_char ch :: nat) in if 65 \<le> n \<and> n \<le> 90 then char_of (n + 32) else ch)
      in if lc = CHR ''q'' then Queen else if lc = CHR ''r'' then Rook
         else if lc = CHR ''b'' then Bishop else if lc = CHR ''n'' then Knight else Queen)"

text \<open>
  The coordinate string: an empty reply is ignored; fewer than three characters make
  \<open>toFile.charCodeAt\<close> throw a \<open>TypeError\<close> (the handler stops there); a rank that is
  not a digit, or any coordinate off the board, is rejected by the bounds check.
\<close>

definition parse_uci :: "string \<Rightarrow> engine_error + (int \<times> int \<times> int \<times> int \<times> kind option)" where
  "parse_uci uci =
     (if uci = [] then Inl NoMove
      else if length uci < 3 then Inl TypeError
      else
        (let fromCol = file_index (uci ! 0);
             toCol = file_index (uci ! 2);
             fromRank = parse_digit (uci ! 1);
             toRank = (if length uci > 3 then parse_digit (uci ! 3) else None);
             promo = (if length uci > 4 then Some (promo_kind (uci ! 4)) else None)
         in case (fromRank, toRank) of
              (Some fr, Some tr) \<Rightarrow>
                if inBounds (8 - fr) fromCol \<and> inBounds (8 - tr) toCol
                then Inr (8 - fr, fromCol, 8 - tr, toCol, promo)
                else Inl OutOfBounds
            | _ \<Rightarrow> Inl OutOfBounds))"

fun engine_on :: "ui_state \<Rightarrow> engine_error + (int \<times> int \<times> int \<times> int \<times> kind option) \<Rightarrow> ui_state" where
  "engine_on s (Inl _) = s"
| "engine_on s (Inr (fromRow, fromCol, toRow, toCol, promo)) =
     finalizeMove s fromRow fromCol toRow toCol (map_option (\<lambda>type. Piece (turn s) type) promo)"

definition onEngineMove :: "ui_state \<Rightarrow> string \<Rightarrow> ui_state" where
  "onEngineMove s uci = engine_on (s\<lparr>engineThinking := False\<rparr>) (parse_uci uci)"

section \<open>The coordinate parser\<close>

lemma of_char_digit: "n < 10 \<Longrightarrow> (of_char (char_of (48 + n) :: char) :: nat) = 48 + n"
  by (simp add: of_char_of)

lemma parse_digit_char: "n < 10 \<Longrightarrow> parse_digit (char_of (48 + n)) = Some (int n)"
  by (simp add: parse_digit_def of_char_digit)

lemma file_index_char: "0 \<le> c \<Longrightarrow> c < 8 \<Longrightarrow> file_index (char_of (nat (97 + c))) = c"
  by (simp add: file_index_def of_char_of)

text \<open>
  C9: whatever string the engine sends, a move the parser accepts has both squares on the
  board.
\<close>

theorem parse_uci_in_bounds:
  "parse_uci u = Inr (fr, fc, tr, tc, promo) \<Longrightarrow> inBounds fr fc \<and> inBounds tr tc"
  by (auto simp: parse_uci_def Let_def split: if_splits option.splits prod.splits)

theorem parse_uci_in_bounds_witness:
  "parse_uci ''e2e4'' = Inr (6, 4, 4, 4, None) \<and> inBounds 6 4 \<and> inBounds 4 4"
  using parse_uci_in_bounds [of "''e2e4''" 6 4 4 4 None] by code_simp

text \<open>
  C10: the parser reads back the squares the controller itself prints for its move list
  (\<open>coordToSquare\<close>): for any two squares of the board, the four-character string
  \<open>from ++ to\<close> parses to exactly that move, without promotion.
\<close>

theorem parse_uci_coordToSquare:
  assumes "inBounds fr fc" "inBounds tr tc"
  shows "parse_uci (coordToSquare fr fc @ coordToSquare tr tc) = Inr (fr, fc, tr, tc, None)"
proof -
  have d: "nat (8 - r) < 10" "int (nat (8 - r)) = 8 - r" if "inBounds r c" for r c
    using that by (auto simp: inBounds_def)
  have sq: "coordToSquare r c = [char_of (nat (97 + c)), char_of (48 + nat (8 - r))]"
    if "inBounds r c" for r c
    using that d[OF that] by (simp add: coordToSquare_def)
  have pd: "parse_digit (char_of (48 + nat (8 - r))) = Some (8 - r)" if "inBounds r c" for r c
    using parse_digit_char[OF d(1)[OF that]] d(2)[OF that] by simp
  have fi: "file_index (char_of (nat (97 + c))) = c" if "inBounds r c" for r c
    using that by (simp add: file_index_char inBounds_def)
  show ?thesis
    using assms
    by (simp add: sq parse_uci_def Let_def pd[OF assms(1)] pd[OF assms(2)]
                  fi[OF assms(1)] fi[OF assms(2)])
qed

theorem parse_uci_coordToSquare_witness:
  "inBounds 6 4 \<and> inBounds 4 4 \<and>
   parse_uci (coordToSquare 6 4 @ coordToSquare 4 4) = Inr (6, 4, 4, 4, None)"
  using parse_uci_coordToSquare [of 6 4 4 4] by (simp add: inBounds_def)

text \<open>
  C11: a reply of one or two characters makes the handler throw (\<open>toFile\<close> is
  \<open>undefined\<close>); the only effect left is the cleared \<open>engineThinking\<close> flag, and the
  engine is not asked again.
\<close>

theorem onEngineMove_short_reply:
  "u \<noteq> [] \<Longrightarrow> length u < 3 \<Longrightarrow>
   parse_uci u = Inl TypeError \<and> onEngineMove s u = s\<lparr>engineThinking := False\<rparr>"
  by (simp add: parse_uci_def onEngineMove_def)

theorem onEngineMove_short_reply_witness:
  "''e2'' \<noteq> [] \<and> length ''e2'' < 3 \<and>
   parse_uci ''e2'' = Inl TypeError \<and> onEngineMove initial_ui ''e2'' = initial_ui\<lparr>engineThinking := False\<rparr>"
  using onEngineMove_short_reply [of "''e2''" initial_ui] by simp

end
