(* ===== verification/Events.thy ===== *)
theory Events
  imports Engine
begin

text \<open>
  The events that drive the controller of \<open>src/renderer.js\<close>, one per listener of the
  script (board squares, promotion options, dialog and top-bar buttons, and the host's
  messages), the step function that dispatches them to their handlers, and runs of steps.
\<close>

section \<open>Events\<close>

text \<open>
  Everything that drives the controller: a click on a square, a choice in the promotion
  dialog, the engine's reply, the host's new-game signal, the stop button, the dialog's
  close button, the settings and start buttons, the preferences read at start-up and the
  host's theme change.
\<close>

datatype event =
    Click int int
  | PromoChoice kind
  | EngineReply string
  | NewGame "new_game_payload option"
  | StopGame
  | CloseModal
  | SettingsClick
  | StartGameClick
  | PrefsLoaded "string option"
  | ThemeChanged string

fun ui_step :: "ui_state \<Rightarrow> event \<Rightarrow> ui_state" where
  "ui_step s (Click row col) = onSquareClick s row col"
| "ui_step s (PromoChoice type) = onPromoOption s type"
| "ui_step s (EngineReply uci) = onEngineMove s uci"
| "ui_step s (NewGame payload) = onNewGameStart s payload"
| "ui_step s StopGame = endGameAndResetUI s"
| "ui_step s CloseModal = hideModals s"
| "ui_step s SettingsClick = onSettingsClick s"
| "ui_step s StartGameClick = onStartGameClick s"
| "ui_step s (PrefsLoaded t) = initTheme s t"
| "ui_step s (ThemeChanged t) = onThemeChanged s t"

definition ui_run :: "ui_state \<Rightarrow> event list \<Rightarrow> ui_state" where
  "ui_run s es = fold (\<lambda>e s. ui_step s e) es s"

section \<open>Reachable states\<close>

text \<open>
  The states the controller can be in: the values the script starts with, and every state
  one event leads to from a reachable one. They are exactly the states of the runs from
  the start (\<open>reachable_ui_iff\<close>), so invariants are proved by rule induction.
\<close>

inductive reachable_ui :: "ui_state \<Rightarrow> bool" where
  start: "reachable_ui initial_ui"
| step: "reachable_ui s \<Longrightarrow> reachable_ui (ui_step s e)"

text \<open>A move entered the way a player enters it: a click on the piece, then on the target.\<close>

definition move_clicks :: "(int \<times> int \<times> int \<times> int) list \<Rightarrow> event list" where
  "move_clicks ms = concat (map (\<lambda>(fr, fc, tr, tc). [Click fr fc, Click tr tc]) ms)"

lemma ui_run_snoc [simp]: "ui_run s (es @ [e]) = ui_step (ui_run s es) e"
  by (simp add: ui_run_def)

lemma reachable_ui_run: "reachable_ui (ui_run initial_ui es)"
  by (induction es rule: rev_induct) (auto simp: ui_run_def intro: reachable_ui.intros)

lemma reachable_ui_iff: "reachable_ui s \<longleftrightarrow> (\<exists>es. s = ui_run initial_ui es)"
proof
  assume "reachable_ui s"
  then show "\<exists>es. s = ui_run initial_ui es"
  proof (induction rule: reachable_ui.induct)
    case start
    show ?case by (rule exI[of _ "[]"]) (simp add: ui_run_def)
  next
    case (step s e)
    then obtain es where "s = ui_run initial_ui es" by blast
    then show ?case by (intro exI[of _ "es @ [e]"]) simp
  qed
next
  assume "\<exists>es. s = ui_run initial_ui es"
  then show "reachable_ui s" using reachable_ui_run by blast
qed

end
