(* ===== verification/Controller.thy ===== *)
theory Controller
  imports Events
begin

text \<open>
  The invariant of the controller state of \<open>src/renderer.js\<close> that every handler keeps,
  from the values the script starts with: the board stays an 8 by 8 grid, the
  en-passant target and the pending promotion stay on the board, the highlighted
  destinations are exactly the legal moves of the selected square (which is on the
  board), and the class \<open>visible\<close> that \<open>onSquareClick\<close> tests is never set; and,
  separately, \<open>ledger_ok\<close>: the ledger's last entry is the FEN of the current position.
\<close>

section \<open>The invariant\<close>

definition sel_ok :: "ui_state \<Rightarrow> bool" where
  "sel_ok s \<longleftrightarrow>
     (case selectedSquare s of
        None \<Rightarrow> legalMovesForSelected s = []
      | Some (r, c) \<Rightarrow> inBounds r c \<and> legalMovesForSelected s = generateLegalMovesForSquare s r c)"

definition pending_ok :: "ui_state \<Rightarrow> bool" where
  "pending_ok s \<longleftrightarrow>
     (case promotionPending s of
        None \<Rightarrow> True
      | Some (fr, fc, tr, tc) \<Rightarrow> inBounds fr fc \<and> inBounds tr tc)"

definition ui_inv :: "ui_state \<Rightarrow> bool" where
  "ui_inv s \<longleftrightarrow>
     board_ok (board s) \<and> ep_ok s \<and> sel_ok s \<and> pending_ok s \<and> \<not> gameOverVisibleClass s"

lemmas ui_inv_defs = ui_inv_def sel_ok_def pending_ok_def ep_ok_def

text \<open>The ledger's last entry is the FEN of the current position (or the ledger is empty).\<close>

definition ledger_ok :: "ui_state \<Rightarrow> bool" where
  "ledger_ok s \<longleftrightarrow>
     positionHistory s = [] \<or> last (positionHistory s) = boardToFEN s (board s) (turn s)"

section \<open>Facts the handlers share\<close>

lemma legal_in_bounds:
  "ep_ok g \<Longrightarrow> (r, c) \<in> set (generateLegalMovesForSquare g fr fc) \<Longrightarrow> inBounds r c"
  by (auto simp: legal_iff dest: pseudo_in_bounds)

text \<open>A state that agrees on everything the invariant reads satisfies it alike.\<close>

lemma ui_inv_frame:
  assumes "board s' = board s" "turn s' = turn s" "castlingRights s' = castlingRights s"
    "enPassantTarget s' = enPassantTarget s" "selectedSquare s' = selectedSquare s"
    "legalMovesForSelected s' = legalMovesForSelected s"
    "promotionPending s' = promotionPending s" "gameOverVisibleClass s' = gameOverVisibleClass s"
  shows "ui_inv s' = ui_inv s"
proof -
  have gl: "generateLegalMovesForSquare s' = generateLegalMovesForSquare s"
    using assms(1-4) by (rule legal_cong)
  show ?thesis unfolding ui_inv_defs assms gl ..
qed

lemma ui_inv_maybeEngineMove [simp]: "ui_inv (maybeEngineMove s) = ui_inv s"
  by (rule ui_inv_frame) simp_all

lemma ui_inv_hideModals [simp]: "ui_inv (hideModals s) = ui_inv s"
  by (rule ui_inv_frame) (simp_all add: hideModals_def)

lemma ui_inv_thinking [simp]: "ui_inv (s\<lparr>engineThinking := x\<rparr>) = ui_inv s"
  by (rule ui_inv_frame) simp_all

lemma ui_inv_modal [simp]: "ui_inv (s\<lparr>shownModal := x\<rparr>) = ui_inv s"
  by (rule ui_inv_frame) simp_all

lemma ui_inv_promoIcons [simp]: "ui_inv (s\<lparr>promoIcons := x\<rparr>) = ui_inv s"
  by (rule ui_inv_frame) simp_all

lemma ui_inv_stops [simp]: "ui_inv (s\<lparr>matchStops := x\<rparr>) = ui_inv s"
  by (rule ui_inv_frame) simp_all

lemma ui_inv_turns [simp]: "ui_inv (s\<lparr>turnsAnnounced := x\<rparr>) = ui_inv s"
  by (rule ui_inv_frame) simp_all

lemma ui_inv_top_bar [simp]:
  "ui_inv (onSettingsClick s) = ui_inv s" "ui_inv (onStartGameClick s) = ui_inv s"
  "ui_inv (initTheme s t) = ui_inv s" "ui_inv (onThemeChanged s th) = ui_inv s"
  by (rule ui_inv_frame; simp add: onSettingsClick_def onStartGameClick_def initTheme_def
      onThemeChanged_def split: option.split)+

lemma legal_selection_update [simp]:
  "generateLegalMovesForSquare (s\<lparr>selectedSquare := x, legalMovesForSelected := y\<rparr>) =
   generateLegalMovesForSquare s"
  by (rule legal_cong) simp_all

lemma legal_pending_update [simp]:
  "generateLegalMovesForSquare (s\<lparr>promotionPending := x, shownModal := y\<rparr>) =
   generateLegalMovesForSquare s"
  "generateLegalMovesForSquare (s\<lparr>promotionPending := x\<rparr>) = generateLegalMovesForSquare s"
  by (rule legal_cong; simp)+

section \<open>A legal move keeps the mover's king safe\<close>

text \<open>
  The probe of \<open>generateLegalMovesForSquare\<close> plays a promotion as a queen; the board of
  the move with any other non-king promotion piece of the mover differs from it only by
  a friendly blocker, so the verdict of the probe carries over.
\<close>

lemma legal_moved_board_safe:
  assumes "board_ok (board s)" "ep_ok s"
    and "(tr, tc) \<in> set (generateLegalMovesForSquare s fr fc)"
    and "promo_ok (turn s) pp"
  shows "\<not> isKingInCheck (moved_board s (board s) fr fc tr tc pp) (turn s)"
proof -
  obtain p where p: "getPiece (board s) fr fc = Some p" "pcolor p = turn s"
    and pseudo: "(tr, tc) \<in> set (getPseudoMovesForPiece s (board s) fr fc)"
    and safe: "\<not> isKingInCheck (probe_board s (board s) fr fc tr tc) (pcolor p)"
    using assms(3) by (auto simp: legal_iff)
  have "inBounds tr tc" using pseudo_in_bounds[OF assms(2) pseudo] .
  then have "friendly_swap (moved_board s (board s) fr fc tr tc pp)
               (moved_board s (board s) fr fc tr tc None) (pcolor p)"
    using moved_board_promo_swap[OF assms(1) p(1)] assms(4) p(2) by simp
  then have "isKingInCheck (moved_board s (board s) fr fc tr tc pp) (pcolor p) =
             isKingInCheck (probe_board s (board s) fr fc tr tc) (pcolor p)"
    by (simp add: isKingInCheck_friendly_swap probe_board_def fst_applyMoveOnBoard)
  then show ?thesis using safe p(2) by simp
qed

section \<open>Committing a move\<close>

lemma finalizeMove_selection:
  fixes s :: ui_state
  shows "selectedSquare (finalizeMove s fr fc tr tc pp) = None"
    and "legalMovesForSelected (finalizeMove s fr fc tr tc pp) = []"
    and "promotionPending (finalizeMove s fr fc tr tc pp) = promotionPending s"
  unfolding finalizeMove_def applyMoveOnBoard_real
  by (simp_all add: finalize_after.simps finalize_end_def Let_def commit_bookkeeping_def)

text \<open>A double step from the board lands on the board, and so does the square it skips.\<close>

lemma ep_ok_commit:
  assumes "inBounds fr fc" "inBounds tr tc"
  shows "ep_ok (commit_bookkeeping st p cap fr fc tr tc)"
  using assms by (auto simp: ep_ok_def commit_bookkeeping_def Let_def inBounds_def)

lemma ui_inv_finalizeMove:
  assumes "ui_inv s" "inBounds fr fc" "inBounds tr tc"
  shows "ui_inv (finalizeMove s fr fc tr tc pp)"
proof -
  have "ep_ok (finalizeMove s fr fc tr tc pp)"
    using ep_ok_commit[OF assms(2,3)] by (simp add: ep_ok_def finalizeMove_fields)
  then show ?thesis
    using assms(1)
    by (simp add: ui_inv_def sel_ok_def pending_ok_def finalizeMove_selection finalizeMove_fields
        board_ok_moved_board)
qed

section \<open>Each handler keeps the invariant\<close>

lemma ui_inv_select_or_clear: "ui_inv s \<Longrightarrow> ui_inv (select_or_clear s r c)"
  by (auto simp: select_or_clear_def Let_def ui_inv_defs dest: getPiece_Some_inBounds)

lemma ui_inv_deselect:
  "ui_inv s \<Longrightarrow> ui_inv (s\<lparr>selectedSquare := None, legalMovesForSelected := []\<rparr>)"
  by (simp add: ui_inv_defs)

lemma ui_inv_set_pending:
  assumes "ui_inv s" "inBounds fr fc" "inBounds tr tc"
  shows "ui_inv (s\<lparr>promotionPending := Some (fr, fc, tr, tc)\<rparr>)"
  using assms by (auto simp: ui_inv_defs split: option.split)

lemma ui_inv_click_on:
  assumes "ui_inv s" "selectedSquare s = sel"
  shows "ui_inv (click_on s r c sel)"
proof (cases sel)
  case None
  then show ?thesis using assms(1) by (simp add: ui_inv_select_or_clear)
next
  case (Some sq)
  then obtain fr fc where sq: "sel = Some (fr, fc)" by (cases sq) auto
  have fr: "inBounds fr fc" "legalMovesForSelected s = generateLegalMovesForSquare s fr fc"
    using assms sq by (simp_all add: ui_inv_def sel_ok_def)
  have "ep_ok s" using assms(1) by (simp add: ui_inv_def)
  then have rc: "inBounds r c" if "(r, c) \<in> set (legalMovesForSelected s)"
    using that fr(2) legal_in_bounds[of s r c fr fc] by simp
  show ?thesis
    unfolding sq click_on.simps Let_def
    using assms(1) fr(1) rc
    by (simp add: ui_inv_finalizeMove ui_inv_select_or_clear ui_inv_deselect ui_inv_set_pending)
qed

lemma ui_inv_onSquareClick: "ui_inv s \<Longrightarrow> ui_inv (onSquareClick s r c)"
  by (simp add: onSquareClick_def ui_inv_click_on)

lemma ui_inv_clear_pending: "ui_inv s \<Longrightarrow> ui_inv (s\<lparr>promotionPending := None\<rparr>)"
  by (auto simp: ui_inv_defs split: option.split)

lemma ui_inv_onPromoOption:
  assumes "ui_inv s"
  shows "ui_inv (onPromoOption s k)"
proof (cases "promotionPending s")
  case (Some m)
  moreover obtain fr fc tr tc where m: "m = (fr, fc, tr, tc)" by (cases m) auto
  ultimately have "inBounds fr fc" "inBounds tr tc"
    using assms by (simp_all add: ui_inv_def pending_ok_def)
  then have "ui_inv (finalizeMove s fr fc tr tc pp)" for pp
    using assms by (rule ui_inv_finalizeMove[rotated])
  then show ?thesis
    using Some m by (simp add: onPromoOption_def ui_inv_clear_pending)
qed (simp add: onPromoOption_def assms)

lemma parse_uci_bounds:
  "parse_uci u = Inr (fr, fc, tr, tc, promo) \<Longrightarrow> inBounds fr fc \<and> inBounds tr tc"
  by (auto simp: parse_uci_def Let_def split: if_splits option.splits prod.splits)

lemma ui_inv_onEngineMove: "ui_inv s \<Longrightarrow> ui_inv (onEngineMove s u)"
proof (cases "parse_uci u")
  case (Inr m)
  moreover obtain fr fc tr tc promo where "m = (fr, fc, tr, tc, promo)" by (cases m) auto
  moreover assume "ui_inv s"
  ultimately show ?thesis
    using ui_inv_finalizeMove[of "s\<lparr>engineThinking := False\<rparr>" fr fc tr tc] parse_uci_bounds
    by (simp add: onEngineMove_def)
qed (simp add: onEngineMove_def)

lemma ui_inv_resetBoardState:
  "pending_ok s \<Longrightarrow> \<not> gameOverVisibleClass s \<Longrightarrow> ui_inv (resetBoardState s)"
  by (simp add: resetBoardState_def Let_def ui_inv_def sel_ok_def ep_ok_def board_ok_initialPosition)
     (simp add: pending_ok_def)

lemma ui_inv_startNewGame: "ui_inv s \<Longrightarrow> ui_inv (startNewGameFromPayload s e h i)"
  unfolding startNewGameFromPayload_def Let_def ui_inv_maybeEngineMove ui_inv_turns
  by (intro ui_inv_resetBoardState) (simp_all add: ui_inv_def pending_ok_def)

lemma ui_inv_endGame: "ui_inv s \<Longrightarrow> ui_inv (endGameAndResetUI s)"
  unfolding endGameAndResetUI_def Let_def ui_inv_hideModals ui_inv_stops
  by (intro ui_inv_resetBoardState) (simp_all add: ui_inv_def pending_ok_def)

section \<open>Every run from the start keeps it\<close>

lemma ui_inv_step: "ui_inv s \<Longrightarrow> ui_inv (ui_step s e)"
  by (cases e) (simp_all add: ui_inv_onSquareClick ui_inv_onPromoOption ui_inv_onEngineMove
      onNewGameStart_def ui_inv_startNewGame ui_inv_endGame)


lemma ui_inv_initial: "ui_inv initial_ui"
  by (simp add: initial_ui_def ui_inv_defs board_ok_initialPosition)

lemma ui_inv_reachable: "reachable_ui s \<Longrightarrow> ui_inv s"
proof (induction rule: reachable_ui.induct)
  case start
  show ?case by (rule ui_inv_initial)
next
  case (step s e)
  from step.IH show ?case by (rule ui_inv_step)
qed

lemma reachable_ui_inv: "ui_inv (ui_run initial_ui es)"
  by (rule ui_inv_reachable[OF reachable_ui_run])

section \<open>Review mode is never entered\<close>

text \<open>
  No handler sets \<open>inReviewMode\<close>: the new-game and stop handlers clear it and all others
  keep it.
\<close>

lemma finalizeMove_review [simp]: "inReviewMode (finalizeMove s fr fc tr tc pp) = inReviewMode s"
  unfolding finalizeMove_def applyMoveOnBoard_real
  by (simp add: finalize_after.simps finalize_end_def Let_def commit_bookkeeping_def)

lemma finalizeMove_mode [simp]: "gameMode (finalizeMove s fr fc tr tc pp) = gameMode s"
  unfolding finalizeMove_def applyMoveOnBoard_real
  by (simp add: finalize_after.simps finalize_end_def Let_def commit_bookkeeping_def)

lemma click_on_review: "inReviewMode (click_on s r c sel) = inReviewMode s"
  by (cases "(s, r, c, sel)" rule: click_on.cases) (simp_all add: Let_def select_or_clear_def)

lemma review_off_step: "\<not> inReviewMode s \<Longrightarrow> \<not> inReviewMode (ui_step s e)"
proof (cases e)
  case (PromoChoice k)
  assume "\<not> inReviewMode s"
  then show ?thesis using PromoChoice
    by (cases "promotionPending s") (auto simp: onPromoOption_def hideModals_def)
next
  case (EngineReply u)
  assume "\<not> inReviewMode s"
  then show ?thesis using EngineReply
    by (cases "parse_uci u" rule: sumE) (auto simp: onEngineMove_def)
qed (simp_all add: onSquareClick_def click_on_review onNewGameStart_def startNewGameFromPayload_def
      resetBoardState_def Let_def endGameAndResetUI_def hideModals_def onSettingsClick_def
      onStartGameClick_def initTheme_def onThemeChanged_def split: option.split)

lemma review_off_reachable: "reachable_ui s \<Longrightarrow> \<not> inReviewMode s"
  by (induction rule: reachable_ui.induct) (simp_all add: initial_ui_def review_off_step)

lemma reachable_review_off: "\<not> inReviewMode (ui_run initial_ui es)"
  by (rule review_off_reachable[OF reachable_ui_run])

section \<open>The ledger follows the position\<close>

text \<open>
  Every committed move and every reset appends or seeds the FEN of the position they leave;
  no other handler changes the position or the ledger.
\<close>

lemma ledger_ok_frame:
  assumes "board s' = board s" "turn s' = turn s" "castlingRights s' = castlingRights s"
    "enPassantTarget s' = enPassantTarget s" "halfmoveClock s' = halfmoveClock s"
    "fullmoveNumber s' = fullmoveNumber s" "positionHistory s' = positionHistory s"
  shows "ledger_ok s' = ledger_ok s"
  unfolding ledger_ok_def boardToFEN_def Let_def assms ..

lemma ledger_ok_updates [simp]:
  "ledger_ok (s\<lparr>selectedSquare := x, legalMovesForSelected := y\<rparr>) = ledger_ok s"
  "ledger_ok (s\<lparr>promotionPending := p\<rparr>) = ledger_ok s"
  "ledger_ok (s\<lparr>shownModal := m\<rparr>) = ledger_ok s"
  "ledger_ok (s\<lparr>promoIcons := i\<rparr>) = ledger_ok s"
  "ledger_ok (s\<lparr>engineThinking := t\<rparr>) = ledger_ok s"
  "ledger_ok (s\<lparr>matchStops := n\<rparr>) = ledger_ok s"
  "ledger_ok (s\<lparr>turnsAnnounced := ts\<rparr>) = ledger_ok s"
  "ledger_ok (hideModals s) = ledger_ok s"
  "ledger_ok (maybeEngineMove s) = ledger_ok s"
  by (rule ledger_ok_frame; simp add: hideModals_def)+

lemma ledger_ok_top_bar [simp]:
  "ledger_ok (onSettingsClick s) = ledger_ok s" "ledger_ok (onStartGameClick s) = ledger_ok s"
  "ledger_ok (initTheme s t) = ledger_ok s" "ledger_ok (onThemeChanged s th) = ledger_ok s"
  by (rule ledger_ok_frame; simp add: onSettingsClick_def onStartGameClick_def initTheme_def
      onThemeChanged_def split: option.split)+

lemma ledger_ok_finalizeMove [simp]: "ledger_ok (finalizeMove s fr fc tr tc pp)"
  by (simp add: ledger_ok_def finalizeMove_history)

lemma ledger_ok_resetBoardState [simp]: "ledger_ok (resetBoardState s)"
  by (simp add: ledger_ok_def resetBoardState_def Let_def boardToFEN_def)

lemma ledger_ok_click_on: "ledger_ok s \<Longrightarrow> ledger_ok (click_on s r c sel)"
  by (cases "(s, r, c, sel)" rule: click_on.cases) (simp_all add: select_or_clear_def Let_def)

lemma ledger_ok_step: "ledger_ok s \<Longrightarrow> ledger_ok (ui_step s e)"
proof (cases e)
  case (PromoChoice k)
  assume "ledger_ok s"
  then show ?thesis using PromoChoice
    by (cases "(s, k, promotionPending s)" rule: promo_on.cases) (simp_all add: onPromoOption_def)
next
  case (EngineReply u)
  assume "ledger_ok s"
  then show ?thesis using EngineReply
    by (cases "(s\<lparr>engineThinking := False\<rparr>, parse_uci u)" rule: engine_on.cases)
       (simp_all add: onEngineMove_def)
qed (simp_all add: onSquareClick_def ledger_ok_click_on onNewGameStart_def startNewGameFromPayload_def
       endGameAndResetUI_def Let_def)

lemma ledger_ok_reachable: "reachable_ui s \<Longrightarrow> ledger_ok s"
  by (induction rule: reachable_ui.induct) (simp add: ledger_ok_def initial_ui_def, simp add: ledger_ok_step)

lemma reachable_ledger_ok: "ledger_ok (ui_run initial_ui es)"
  by (rule ledger_ok_reachable[OF reachable_ui_run])

end
