(* ===== verification/Render.thy ===== *)
theory Render
  imports Events
begin

text \<open>
  \<open>renderBoard\<close> of \<open>src/renderer.js\<close>: the 64 squares of \<open>#board\<close>, built row by row,
  each with its shade, the highlights of the last move and of the selection, the piece
  image, the review annotation, the dot of a legal destination, the capture flash and
  its click listener. The DOM node of a square is the record \<open>square_node\<close>, built by
  \<open>square_view\<close>; the board is the list of its rows (the DOM children are their
  concatenation). The abstract view \<open>board_view\<close> says what the board must show: the
  pieces of the position, and a dot on each legal destination of the selected piece.
\<close>

section \<open>The squares\<close>

datatype shade = Light | Dark

record square_node =
  sv_shade :: shade
  sv_lastMove :: bool
  sv_selected :: bool
  sv_piece :: cell
  sv_justMoved :: bool
  sv_icon :: "(string list \<times> string) option"
  sv_dot :: bool
  sv_captureFlash :: bool
  sv_onClick :: event

text \<open>The annotation icon of a review tag: its classes and its text.\<close>

definition annotation_icon :: "string \<Rightarrow> string list \<times> string" where
  "annotation_icon tag =
     (if tag = ''good'' then ([''annotation-icon'', ''annotation-good''], ''!'')
      else if tag = ''excellent'' then ([''annotation-icon'', ''annotation-excellent''], ''!!'')
      else if tag = ''mistake'' then ([''annotation-icon'', ''annotation-mistake''], ''?'')
      else if tag = ''blunder'' then ([''annotation-icon'', ''annotation-blunder''], ''??'')
      else ([''annotation-icon''], []))"

text \<open>
  The body of the two \<open>for\<close> loops for one square. \<open>reviewCurrentTag\<close> counts as set when
  it is a non-empty string (JavaScript truthiness).
\<close>

definition square_view :: "ui_state \<Rightarrow> int \<Rightarrow> int \<Rightarrow> square_node" where
  "square_view s row col =
     (let fromHere = (case lastMove s of None \<Rightarrow> False
                        | Some (fr, fc, tr, tc, p, capture) \<Rightarrow> fr = row \<and> fc = col);
          toHere = (case lastMove s of None \<Rightarrow> False
                      | Some (fr, fc, tr, tc, p, capture) \<Rightarrow> tr = row \<and> tc = col);
          piece = cell_at (board s) row col;
          tag = (case reviewCurrentTag s of None \<Rightarrow> None
                   | Some t \<Rightarrow> if t = [] then None else Some t)
      in \<lparr>sv_shade = (if (row + col) mod 2 = 0 then Light else Dark),
          sv_lastMove = (fromHere \<or> toHere),
          sv_selected = (selectedSquare s = Some (row, col)),
          sv_piece = piece,
          sv_justMoved = (piece \<noteq> None \<and> toHere),
          sv_icon = (case tag of None \<Rightarrow> None
                       | Some t \<Rightarrow> if piece \<noteq> None \<and> inReviewMode s \<and> toHere
                                   then Some (annotation_icon t) else None),
          sv_dot = list_ex (\<lambda>(r, c). r = row \<and> c = col) (legalMovesForSelected s),
          sv_captureFlash = (case lastMove s of None \<Rightarrow> False
                               | Some (fr, fc, tr, tc, p, capture) \<Rightarrow>
                                   capture \<and> tr = row \<and> tc = col),
          sv_onClick = Click row col\<rparr>)"

definition renderBoard :: "ui_state \<Rightarrow> square_node list list" where
  "renderBoard s = map (\<lambda>row. map (\<lambda>col. square_view s row col) [0..7]) [0..7]"

section \<open>What the board must show\<close>

definition board_view :: "ui_state \<Rightarrow> (cell \<times> bool) list list" where
  "board_view s =
     map (\<lambda>r. map (\<lambda>c. (getPiece (board s) r c,
                         case selectedSquare s of
                           None \<Rightarrow> False
                         | Some (fr, fc) \<Rightarrow> (r, c) \<in> set (generateLegalMovesForSquare s fr fc)))
               [0..7]) [0..7]"

section \<open>Lemmas\<close>

lemma in_upto_inBounds: "r \<in> set [0..7] \<Longrightarrow> c \<in> set [0..7] \<Longrightarrow> inBounds r c"
  by (simp add: inBounds_def)

lemma list_ex_square: "list_ex (\<lambda>(r, c). r = row \<and> c = col) xs \<longleftrightarrow> (row, col) \<in> set xs"
  by (auto simp: list_ex_iff)

lemma renderBoard_nth:
  assumes "inBounds row col"
  shows "renderBoard s ! nat row ! nat col = square_view s row col"
proof -
  have "nat row < length [0..7::int]" "nat col < length [0..7::int]"
    "[0..7::int] ! nat row = row" "[0..7::int] ! nat col = col"
    using assms by (auto simp: inBounds_def nth_upto)
  then show ?thesis by (simp add: renderBoard_def)
qed

lemma renderBoard_length: "length (renderBoard s) = 8" "r \<in> set (renderBoard s) \<Longrightarrow> length r = 8"
  by (auto simp: renderBoard_def)

text \<open>
  The view the rendering refines, square by square: the piece drawn is the piece of the
  position, and the dot marks a highlighted destination.
\<close>

lemma renderBoard_view:
  "map (map (\<lambda>v. (sv_piece v, sv_dot v))) (renderBoard s) =
   map (\<lambda>r. map (\<lambda>c. (getPiece (board s) r c, (r, c) \<in> set (legalMovesForSelected s)))
             [0..7]) [0..7]"
  by (simp add: renderBoard_def square_view_def Let_def list_ex_square getPiece_in_bounds
      in_upto_inBounds)

end
