(* ===== verification/Attack_Spec.thy ===== *)
theory Attack_Spec
  imports Attack
begin

text \<open>
  A declarative specification of the attack oracle and the lemmas that relate it to the
  code. \<open>attacked_spec\<close> says, from the attackers' side, what \<open>isSquareAttacked\<close> of
  \<open>src/renderer.js\<close> computes by looking outwards from the target: some piece of the
  colour stands where its move geometry reaches the square (\<open>piece_attacks\<close>), with
  empty squares in between for the sliding pieces. The code's rays are related to it in
  three steps: \<open>attack_ray_iff\<close> removes the fuel and the loop, \<open>attack_ray_seen\<close> and
  \<open>slider_code\<close> turn the eight indexed rays into a line of sight from the target, and
  \<open>slider_spec\<close> reverses the line to the attacker's side; the offset tables are
  \<open>knight_delta_iff\<close> and \<open>king_delta_iff\<close>.
\<close>

section \<open>The specification\<close>

text \<open>
  Which squares a piece attacks, from the piece's side and by the rules of chess: a pawn
  the two squares diagonally ahead, a knight the squares at offsets \<open>(1, 2)\<close> in any
  order and sign, a king the adjacent squares, and a queen, rook or bishop any square
  along its lines, \<open>n\<close> steps away, whose \<open>n - 1\<close> squares in between are empty.
\<close>

definition slide_attacks :: "board \<Rightarrow> kind \<Rightarrow> int \<Rightarrow> int \<Rightarrow> int \<Rightarrow> int \<Rightarrow> bool" where
  "slide_attacks b k fr fc r c \<longleftrightarrow>
     (let dr = r - fr; dc = c - fc; n = max \<bar>dr\<bar> \<bar>dc\<bar> in
      0 < n \<and> dr = n * sgn dr \<and> dc = n * sgn dc \<and>
      (k = Queen \<or> k = Rook \<and> (dr = 0 \<or> dc = 0) \<or> k = Bishop \<and> dr \<noteq> 0 \<and> dc \<noteq> 0) \<and>
      list_all (\<lambda>i. getPiece b (fr + i * sgn dr) (fc + i * sgn dc) = None) [1..n - 1])"

definition piece_attacks :: "board \<Rightarrow> piece \<Rightarrow> int \<Rightarrow> int \<Rightarrow> int \<Rightarrow> int \<Rightarrow> bool" where
  "piece_attacks b p fr fc r c =
     (let dr = r - fr; dc = c - fc in
      case pkind p of
        Pawn \<Rightarrow> dr = (if pcolor p = White then -1 else 1) \<and> \<bar>dc\<bar> = 1
      | Knight \<Rightarrow> \<bar>dr\<bar> = 1 \<and> \<bar>dc\<bar> = 2 \<or> \<bar>dr\<bar> = 2 \<and> \<bar>dc\<bar> = 1
      | King \<Rightarrow> \<bar>dr\<bar> \<le> 1 \<and> \<bar>dc\<bar> \<le> 1 \<and> (dr, dc) \<noteq> (0, 0)
      | _ \<Rightarrow> slide_attacks b (pkind p) fr fc r c)"

text \<open>A square is attacked by \<open>col\<close> when some piece of \<open>col\<close> on the board attacks it.\<close>

definition attacked_spec :: "board \<Rightarrow> int \<Rightarrow> int \<Rightarrow> color \<Rightarrow> bool" where
  "attacked_spec b r c col =
     list_ex (\<lambda>(fr, fc). case getPiece b fr fc of
                          None \<Rightarrow> False
                        | Some p \<Rightarrow> pcolor p = col \<and> piece_attacks b p fr fc r c)
       all_squares"

text \<open>The side's king, as \<open>findKing\<close> finds it, is attacked in the sense of the rules.\<close>

definition in_check_spec :: "board \<Rightarrow> color \<Rightarrow> bool" where
  "in_check_spec b col =
     (case findKing b col of None \<Rightarrow> False | Some (r, c) \<Rightarrow> attacked_spec b r c (enemy_of col))"

section \<open>The rays of the oracle\<close>

text \<open>The piece a ray may stop at: one of \<open>byColor\<close>'s that slides along the ray's kind of line.\<close>

definition ray_hit :: "color \<Rightarrow> bool \<Rightarrow> cell \<Rightarrow> bool" where
  "ray_hit col dg p \<longleftrightarrow>
     (case p of
        None \<Rightarrow> False
      | Some q \<Rightarrow> pcolor q = col \<and>
                  (pkind q = Queen \<or> dg \<and> pkind q = Bishop \<or> \<not> dg \<and> pkind q = Rook))"

lemma ray_hit_None [simp]: "\<not> ray_hit col dg None"
  by (simp add: ray_hit_def)

lemma attack_ray_iff:
  "attack_ray b col dg x y dr dc n \<longleftrightarrow>
   (\<exists>i<n. (\<forall>j<i. inBounds (x + int j * dr) (y + int j * dc) \<and>
                  getPiece b (x + int j * dr) (y + int j * dc) = None) \<and>
          inBounds (x + int i * dr) (y + int i * dc) \<and>
          ray_hit col dg (getPiece b (x + int i * dr) (y + int i * dc)))"
proof (induction n arbitrary: x y)
  case 0
  then show ?case by simp
next
  case (Suc n)
  have shift: "x + int (Suc j) * dr = (x + dr) + int j * dr" "y + int (Suc j) * dc = (y + dc) + int j * dc"
    for j by (simp_all add: algebra_simps)
  show ?case
    unfolding Ex_less_Suc2 All_less_Suc2 shift
    by (cases "getPiece b x y") (auto simp: Suc.IH ray_hit_def)
qed

text \<open>
  What a ray from the target sees, without fuel: the first piece \<open>Suc m\<close> steps away
  along \<open>(dr, dc)\<close>, the squares before it empty.
\<close>

definition ray_seen :: "board \<Rightarrow> int \<Rightarrow> int \<Rightarrow> color \<Rightarrow> int \<times> int \<Rightarrow> bool" where
  "ray_seen b r c col d \<longleftrightarrow>
     (case d of (dr, dc) \<Rightarrow>
        \<exists>m. (\<forall>j<m. getPiece b (r + int (Suc j) * dr) (c + int (Suc j) * dc) = None) \<and>
            ray_hit col (dr \<noteq> 0 \<and> dc \<noteq> 0) (getPiece b (r + int (Suc m) * dr) (c + int (Suc m) * dc)))"

lemma ray_hit_in_bounds: "ray_hit col dg (getPiece b r c) \<Longrightarrow> inBounds r c"
  by (cases "inBounds r c") (simp_all add: getPiece_out_of_bounds)

lemma inBounds_between:
  assumes "inBounds r c" "inBounds (r + int n * dr) (c + int n * dc)" "unit_dir dr dc" "k \<le> n"
  shows "inBounds (r + int k * dr) (c + int k * dc)"
proof -
  have "int k \<le> int n" using assms(4) by simp
  then show ?thesis
    using assms(1-3) by (auto simp: inBounds_def unit_dir_def)
qed

lemma ray_length:
  assumes "inBounds r c" "inBounds (r + int n * dr) (c + int n * dc)" "unit_dir dr dc"
  shows "n < 8"
  using assms by (auto simp: inBounds_def unit_dir_def)

lemma attack_ray_seen:
  assumes "inBounds r c" "unit_dir dr dc"
  shows "attack_ray b col (dr \<noteq> 0 \<and> dc \<noteq> 0) (r + dr) (c + dc) dr dc ray_fuel \<longleftrightarrow>
         ray_seen b r c col (dr, dc)"
proof -
  have shift: "r + dr + int j * dr = r + int (Suc j) * dr" "c + dc + int j * dc = c + int (Suc j) * dc"
    for j by (simp_all add: algebra_simps)
  show ?thesis
  proof
    assume "attack_ray b col (dr \<noteq> 0 \<and> dc \<noteq> 0) (r + dr) (c + dc) dr dc ray_fuel"
    then show "ray_seen b r c col (dr, dc)"
      unfolding attack_ray_iff shift ray_seen_def by auto
  next
    assume "ray_seen b r c col (dr, dc)"
    then obtain m where empty: "\<forall>j<m. getPiece b (r + int (Suc j) * dr) (c + int (Suc j) * dc) = None"
      and hit: "ray_hit col (dr \<noteq> 0 \<and> dc \<noteq> 0) (getPiece b (r + int (Suc m) * dr) (c + int (Suc m) * dc))"
      unfolding ray_seen_def by auto
    have end_in: "inBounds (r + int (Suc m) * dr) (c + int (Suc m) * dc)"
      using hit by (rule ray_hit_in_bounds)
    have "Suc m < 8" using ray_length[OF assms(1) end_in assms(2)] .
    moreover have "inBounds (r + int (Suc j) * dr) (c + int (Suc j) * dc)" if "j < m" for j
      using inBounds_between[OF assms(1) end_in assms(2), of "Suc j"] that by simp
    ultimately show "attack_ray b col (dr \<noteq> 0 \<and> dc \<noteq> 0) (r + dr) (c + dc) dr dc ray_fuel"
      unfolding attack_ray_iff shift ray_fuel_def using empty hit end_in
      by (intro exI[of _ m]) auto
  qed
qed

lemma diag_index:
  "i < 8 \<Longrightarrow> (4 \<le> i) = (fst (attackDirs ! i) \<noteq> 0 \<and> snd (attackDirs ! i) \<noteq> 0)"
proof -
  assume "i < 8"
  then have "i = 0 \<or> i = 1 \<or> i = 2 \<or> i = 3 \<or> i = 4 \<or> i = 5 \<or> i = 6 \<or> i = 7" by arith
  then show ?thesis by (auto simp: attackDirs_def)
qed

lemma slider_code:
  assumes "inBounds r c"
  shows "list_ex (\<lambda>i. case attackDirs ! i of (dr, dc) \<Rightarrow>
             attack_ray b col (4 \<le> i) (r + dr) (c + dc) dr dc ray_fuel) [0..<8] \<longleftrightarrow>
         (\<exists>d\<in>set attackDirs. ray_seen b r c col d)"
proof -
  have len: "length attackDirs = 8" by (simp add: attackDirs_def)
  have each: "(case attackDirs ! i of (dr, dc) \<Rightarrow>
                 attack_ray b col (4 \<le> i) (r + dr) (c + dc) dr dc ray_fuel) =
              ray_seen b r c col (attackDirs ! i)" if "i < 8" for i
  proof -
    obtain dr dc where d: "attackDirs ! i = (dr, dc)" by (cases "attackDirs ! i")
    have "unit_dir dr dc"
      using unit_dir_attackDirs[of dr dc] nth_mem[of i attackDirs] that len d by simp
    moreover have "(4 \<le> i) = (dr \<noteq> 0 \<and> dc \<noteq> 0)" using diag_index[OF that] d by simp
    ultimately show ?thesis using attack_ray_seen[OF assms] d by simp
  qed
  have "list_ex (\<lambda>i. case attackDirs ! i of (dr, dc) \<Rightarrow>
          attack_ray b col (4 \<le> i) (r + dr) (c + dc) dr dc ray_fuel) [0..<8] \<longleftrightarrow>
        (\<exists>i<8. ray_seen b r c col (attackDirs ! i))"
    using each by (auto simp: list_ex_iff)
  also have "\<dots> \<longleftrightarrow> (\<exists>d\<in>set attackDirs. ray_seen b r c col d)"
    by (metis in_set_conv_nth len)
  finally show ?thesis .
qed

section \<open>Rays seen from the attacker\<close>

lemma attackDirs_unit: "(dr, dc) \<in> set attackDirs \<longleftrightarrow> unit_dir dr dc"
  by (auto simp: attackDirs_def unit_dir_def)

text \<open>The squares between, counted from the target or from the attacker.\<close>

lemma between_reindex:
  "(\<forall>j<m. Q (r + int (Suc j) * ur) (c + int (Suc j) * uc)) \<longleftrightarrow>
   list_all (\<lambda>i. Q (r + int (Suc m) * ur - i * ur) (c + int (Suc m) * uc - i * uc)) [1..int m]"
proof
  assume h: "\<forall>j<m. Q (r + int (Suc j) * ur) (c + int (Suc j) * uc)"
  show "list_all (\<lambda>i. Q (r + int (Suc m) * ur - i * ur) (c + int (Suc m) * uc - i * uc)) [1..int m]"
  proof (unfold list_all_iff, intro ballI)
    fix i assume "i \<in> set [1..int m]"
    then have i: "1 \<le> i" "i \<le> int m" by simp_all
    then have "nat (int m - i) < m" "int (Suc (nat (int m - i))) = int (Suc m) - i" by simp_all
    then show "Q (r + int (Suc m) * ur - i * ur) (c + int (Suc m) * uc - i * uc)"
      using h by (metis (no_types) left_diff_distrib add_diff_eq)
  qed
next
  assume h: "list_all (\<lambda>i. Q (r + int (Suc m) * ur - i * ur) (c + int (Suc m) * uc - i * uc)) [1..int m]"
  show "\<forall>j<m. Q (r + int (Suc j) * ur) (c + int (Suc j) * uc)"
  proof (intro allI impI)
    fix j assume "j < m"
    then have "int m - int j \<in> set [1..int m]" by simp
    then have "Q (r + int (Suc m) * ur - (int m - int j) * ur) (c + int (Suc m) * uc - (int m - int j) * uc)"
      using h by (simp add: list_all_iff)
    moreover have "int (Suc m) - (int m - int j) = int (Suc j)" by simp
    ultimately show "Q (r + int (Suc j) * ur) (c + int (Suc j) * uc)"
      by (metis (no_types) left_diff_distrib add_diff_eq)
  qed
qed

lemma slider_spec:
  "(\<exists>d\<in>set attackDirs. ray_seen b r c col d) \<longleftrightarrow>
   (\<exists>fr fc q. getPiece b fr fc = Some q \<and> pcolor q = col \<and> pkind q \<in> {Queen, Rook, Bishop} \<and>
              slide_attacks b (pkind q) fr fc r c)"
proof
  assume "\<exists>d\<in>set attackDirs. ray_seen b r c col d"
  then obtain ur uc m where u: "unit_dir ur uc"
    and empty: "\<forall>j<m. getPiece b (r + int (Suc j) * ur) (c + int (Suc j) * uc) = None"
    and hit: "ray_hit col (ur \<noteq> 0 \<and> uc \<noteq> 0)
                (getPiece b (r + int (Suc m) * ur) (c + int (Suc m) * uc))"
    by (auto simp: ray_seen_def attackDirs_unit)
  define fr where "fr = r + int (Suc m) * ur"
  define fc where "fc = c + int (Suc m) * uc"
  obtain q where q: "getPiece b fr fc = Some q" "pcolor q = col"
    and kind: "pkind q = Queen \<or> (ur \<noteq> 0 \<and> uc \<noteq> 0) \<and> pkind q = Bishop \<or>
               \<not> (ur \<noteq> 0 \<and> uc \<noteq> 0) \<and> pkind q = Rook"
    using hit by (auto simp: ray_hit_def fr_def fc_def split: option.splits)
  have geo: "max \<bar>r - fr\<bar> \<bar>c - fc\<bar> = int (Suc m)" "sgn (r - fr) = - ur" "sgn (c - fc) = - uc"
    using u by (auto simp: fr_def fc_def unit_dir_def sgn_if)
  have between: "list_all (\<lambda>i. getPiece b (fr + i * - ur) (fc + i * - uc) = None) [1..int m]"
    using empty between_reindex[of m "\<lambda>x y. getPiece b x y = None" r ur c uc]
    by (simp add: fr_def fc_def algebra_simps)
  have "slide_attacks b (pkind q) fr fc r c"
    unfolding slide_attacks_def Let_def geo
    using kind between u by (auto simp: fr_def fc_def unit_dir_def)
  then show "\<exists>fr fc q. getPiece b fr fc = Some q \<and> pcolor q = col \<and>
               pkind q \<in> {Queen, Rook, Bishop} \<and> slide_attacks b (pkind q) fr fc r c"
    using q kind by blast
next
  assume "\<exists>fr fc q. getPiece b fr fc = Some q \<and> pcolor q = col \<and>
            pkind q \<in> {Queen, Rook, Bishop} \<and> slide_attacks b (pkind q) fr fc r c"
  then obtain fr fc q where q: "getPiece b fr fc = Some q" "pcolor q = col"
    "pkind q \<in> {Queen, Rook, Bishop}" and sa: "slide_attacks b (pkind q) fr fc r c"
    by blast
  define n where "n = max \<bar>r - fr\<bar> \<bar>c - fc\<bar>"
  define ur where "ur = - sgn (r - fr)"
  define uc where "uc = - sgn (c - fc)"
  define m where "m = nat (n - 1)"
  have n: "0 < n" "r - fr = n * sgn (r - fr)" "c - fc = n * sgn (c - fc)"
    and kind: "pkind q = Queen \<or> pkind q = Rook \<and> (r - fr = 0 \<or> c - fc = 0) \<or>
               pkind q = Bishop \<and> r - fr \<noteq> 0 \<and> c - fc \<noteq> 0"
    and between: "list_all (\<lambda>i. getPiece b (fr + i * sgn (r - fr)) (fc + i * sgn (c - fc)) = None)
                    [1..n - 1]"
    using sa by (simp_all add: slide_attacks_def Let_def n_def)
  have N: "int (Suc m) = n" using n(1) by (simp add: m_def)
  have u: "unit_dir ur uc"
    using n(1) by (auto simp: ur_def uc_def unit_dir_def sgn_if n_def split: if_splits)
  have "int (Suc m) * ur = - (r - fr)" "int (Suc m) * uc = - (c - fc)"
    unfolding N ur_def uc_def by (simp_all add: n(2,3)[symmetric])
  then have at: "fr = r + int (Suc m) * ur" "fc = c + int (Suc m) * uc" by simp_all
  have "int m = n - 1" using n(1) by (simp add: m_def)
  then have "list_all (\<lambda>i. getPiece b (r + int (Suc m) * ur - i * ur) (c + int (Suc m) * uc - i * uc)
               = None) [1..int m]"
    using between by (simp add: at[symmetric] ur_def uc_def n(2,3)[symmetric])
  then have empty: "\<forall>j<m. getPiece b (r + int (Suc j) * ur) (c + int (Suc j) * uc) = None"
    using between_reindex[of m "\<lambda>x y. getPiece b x y = None"] by blast
  have "ray_hit col (ur \<noteq> 0 \<and> uc \<noteq> 0) (Some q)"
    using q(2) kind by (auto simp: ray_hit_def ur_def uc_def sgn_0_0)
  then have "ray_hit col (ur \<noteq> 0 \<and> uc \<noteq> 0) (getPiece b (r + int (Suc m) * ur) (c + int (Suc m) * uc))"
    using q(1) at by simp
  then have "ray_seen b r c col (ur, uc)"
    using empty by (auto simp: ray_seen_def)
  then show "\<exists>d\<in>set attackDirs. ray_seen b r c col d"
    using u attackDirs_unit by blast
qed

section \<open>Pawns, knights and kings\<close>

lemma knight_delta_iff:
  "(a, b) \<in> set knightDeltas \<longleftrightarrow> \<bar>a\<bar> = 1 \<and> \<bar>b\<bar> = 2 \<or> \<bar>a\<bar> = 2 \<and> \<bar>b\<bar> = 1"
  by (auto simp: knightDeltas_def abs_if split: if_splits)

lemma king_delta_iff:
  "(a, b) \<in> set kingDeltas \<longleftrightarrow> \<bar>a\<bar> \<le> 1 \<and> \<bar>b\<bar> \<le> 1 \<and> (a, b) \<noteq> (0, 0)"
  by (auto simp: kingDeltas_def abs_if split: if_splits)

text \<open>An offset table looked up from the target finds exactly the pieces at those offsets.\<close>

lemma offsets_from_target:
  "list_ex (\<lambda>(dr, dc). inBounds (r + dr) (c + dc) \<and> getPiece b (r + dr) (c + dc) = Some p) ds \<longleftrightarrow>
   (\<exists>fr fc. getPiece b fr fc = Some p \<and> (fr - r, fc - c) \<in> set ds)"
proof
  assume "list_ex (\<lambda>(dr, dc). inBounds (r + dr) (c + dc) \<and> getPiece b (r + dr) (c + dc) = Some p) ds"
  then obtain dr dc where "(dr, dc) \<in> set ds" "getPiece b (r + dr) (c + dc) = Some p"
    by (auto simp: list_ex_iff)
  then show "\<exists>fr fc. getPiece b fr fc = Some p \<and> (fr - r, fc - c) \<in> set ds"
    by (intro exI[of _ "r + dr"] exI[of _ "c + dc"]) simp
next
  assume "\<exists>fr fc. getPiece b fr fc = Some p \<and> (fr - r, fc - c) \<in> set ds"
  then obtain fr fc where "getPiece b fr fc = Some p" "(fr - r, fc - c) \<in> set ds" by blast
  then show "list_ex (\<lambda>(dr, dc). inBounds (r + dr) (c + dc) \<and> getPiece b (r + dr) (c + dc) = Some p) ds"
    unfolding list_ex_iff by (intro bexI[of _ "(fr - r, fc - c)"]) (auto dest: getPiece_Some_inBounds)
qed

lemma pawn_from_target:
  "((inBounds (r - pd) (c - 1) \<and> getPiece b (r - pd) (c - 1) = Some p) \<or>
    (inBounds (r - pd) (c + 1) \<and> getPiece b (r - pd) (c + 1) = Some p)) \<longleftrightarrow>
   (\<exists>fr fc. getPiece b fr fc = Some p \<and> r - fr = pd \<and> \<bar>c - fc\<bar> = 1)"
proof
  assume "\<exists>fr fc. getPiece b fr fc = Some p \<and> r - fr = pd \<and> \<bar>c - fc\<bar> = 1"
  then obtain fr fc where "getPiece b fr fc = Some p" "fr = r - pd" "fc = c - 1 \<or> fc = c + 1"
    by (auto simp: abs_if split: if_splits)
  then show "(inBounds (r - pd) (c - 1) \<and> getPiece b (r - pd) (c - 1) = Some p) \<or>
             (inBounds (r - pd) (c + 1) \<and> getPiece b (r - pd) (c + 1) = Some p)"
    by (auto dest: getPiece_Some_inBounds)
next
  assume "(inBounds (r - pd) (c - 1) \<and> getPiece b (r - pd) (c - 1) = Some p) \<or>
          (inBounds (r - pd) (c + 1) \<and> getPiece b (r - pd) (c + 1) = Some p)"
  then show "\<exists>fr fc. getPiece b fr fc = Some p \<and> r - fr = pd \<and> \<bar>c - fc\<bar> = 1"
  proof (elim disjE conjE)
    assume "getPiece b (r - pd) (c - 1) = Some p"
    then show ?thesis by (intro exI[of _ "r - pd"] exI[of _ "c - 1"]) simp
  next
    assume "getPiece b (r - pd) (c + 1) = Some p"
    then show ?thesis by (intro exI[of _ "r - pd"] exI[of _ "c + 1"]) simp
  qed
qed

section \<open>The spec, kind by kind\<close>

lemma attacked_spec_iff:
  "attacked_spec b r c col \<longleftrightarrow>
   (\<exists>fr fc p. getPiece b fr fc = Some p \<and> pcolor p = col \<and> piece_attacks b p fr fc r c)"
  unfolding attacked_spec_def list_ex_iff
  by (force simp: in_all_squares dest: getPiece_Some_inBounds split: option.splits)

lemma ex_piece_of:
  "(\<exists>q. g = Some q \<and> pcolor q = col \<and> P q) \<longleftrightarrow> (\<exists>k. g = Some (Piece col k) \<and> P (Piece col k))"
  by (metis piece.exhaust piece.sel(1))

lemma attacked_by_kind:
  "(\<exists>fr fc p. getPiece b fr fc = Some p \<and> pcolor p = col \<and> piece_attacks b p fr fc r c) \<longleftrightarrow>
   (\<exists>fr fc. getPiece b fr fc = Some (Piece col Pawn) \<and>
            r - fr = (if col = White then -1 else 1) \<and> \<bar>c - fc\<bar> = 1) \<or>
   (\<exists>fr fc. getPiece b fr fc = Some (Piece col Knight) \<and> (fr - r, fc - c) \<in> set knightDeltas) \<or>
   (\<exists>fr fc. getPiece b fr fc = Some (Piece col King) \<and> (fr - r, fc - c) \<in> set kingDeltas) \<or>
   (\<exists>fr fc q. getPiece b fr fc = Some q \<and> pcolor q = col \<and> pkind q \<in> {Queen, Rook, Bishop} \<and>
              slide_attacks b (pkind q) fr fc r c)"
proof -
  have k: "\<bar>fr - r\<bar> = \<bar>r - fr\<bar>" "\<bar>fc - c\<bar> = \<bar>c - fc\<bar>" for fr fc by simp_all
  have "piece_attacks b (Piece col k) fr fc r c \<longleftrightarrow>
        (k = Pawn \<and> r - fr = (if col = White then -1 else 1) \<and> \<bar>c - fc\<bar> = 1) \<or>
        (k = Knight \<and> (fr - r, fc - c) \<in> set knightDeltas) \<or>
        (k = King \<and> (fr - r, fc - c) \<in> set kingDeltas) \<or>
        (k \<in> {Queen, Rook, Bishop} \<and> slide_attacks b k fr fc r c)" for k fr fc
    by (cases k) (auto simp: piece_attacks_def Let_def knight_delta_iff king_delta_iff k)
  then show ?thesis by (simp only: ex_piece_of conj_assoc piece.sel) blast
qed

section \<open>The oracle and the check test\<close>

lemma isSquareAttacked_attacked_spec:
  assumes "inBounds r c"
  shows "isSquareAttacked b r c col = attacked_spec b r c col"
  unfolding attacked_spec_iff attacked_by_kind isSquareAttacked_def Let_def offsets_from_target
    slider_code[OF assms] slider_spec
  using pawn_from_target[of r "if col = White then -1 else 1" c b "Piece col Pawn"] by blast

lemma isKingInCheck_spec: "isKingInCheck b col = in_check_spec b col"
  by (auto simp: isKingInCheck_def in_check_spec_def isSquareAttacked_attacked_spec
      dest: findKing_Some split: option.split)

end
