(* ===== verification/Moves_Spec.thy ===== *)
theory Moves_Spec
  imports Moves Attack_Spec
begin

text \<open>
  Move generation for knights, kings and sliding pieces against the rules: a piece moves
  to exactly the squares it attacks (\<open>piece_attacks\<close> of \<open>Attack_Spec\<close>) that do not hold
  a piece of its own colour, and a king may in addition castle. \<open>slide_ray_iff\<close> removes
  the fuel and the loop of \<open>slide_ray\<close>, \<open>slide_moves_iff\<close> turns the rays of
  \<open>slide_moves\<close> into the line geometry of \<open>slide_attacks\<close>, and \<open>step_moves_iff\<close> reads
  the offset tables.
\<close>

section \<open>Rays and offset tables\<close>

lemma slide_ray_iff:
  "(r, c) \<in> set (slide_ray b col x y dr dc n) \<longleftrightarrow>
   (\<exists>i<n. r = x + int i * dr \<and> c = y + int i * dc \<and> inBounds r c \<and>
          (\<forall>j<i. inBounds (x + int j * dr) (y + int j * dc) \<and>
                 getPiece b (x + int j * dr) (y + int j * dc) = None) \<and>
          getColor (getPiece b r c) \<noteq> Some col)"
proof (induction n arbitrary: x y)
  case 0
  then show ?case by simp
next
  case (Suc n)
  have shift: "x + int (Suc j) * dr = (x + dr) + int j * dr" "y + int (Suc j) * dc = (y + dc) + int j * dc"
    for j by (simp_all add: algebra_simps)
  show ?case
    unfolding Ex_less_Suc2 All_less_Suc2 shift
    by (cases "getPiece b x y") (auto simp: Suc.IH)
qed

lemma step_moves_iff:
  "(r, c) \<in> set (step_moves b col fr fc ds) \<longleftrightarrow>
   (r - fr, c - fc) \<in> set ds \<and> inBounds r c \<and> getColor (getPiece b r c) \<noteq> Some col"
proof
  assume "(r, c) \<in> set (step_moves b col fr fc ds)"
  then show "(r - fr, c - fc) \<in> set ds \<and> inBounds r c \<and> getColor (getPiece b r c) \<noteq> Some col"
    by (force simp: step_moves_def Let_def split: if_splits)
next
  assume h: "(r - fr, c - fc) \<in> set ds \<and> inBounds r c \<and> getColor (getPiece b r c) \<noteq> Some col"
  then show "(r, c) \<in> set (step_moves b col fr fc ds)"
    unfolding step_moves_def by (force simp: Let_def intro!: bexI[of _ "(r - fr, c - fc)"])
qed

section \<open>Lines from the piece\<close>

lemma forward_reindex:
  "(\<forall>j<m. Q (fr + int (Suc j) * ur) (fc + int (Suc j) * uc)) \<longleftrightarrow>
   list_all (\<lambda>i. Q (fr + i * ur) (fc + i * uc)) [1..int m]"
proof
  assume h: "\<forall>j<m. Q (fr + int (Suc j) * ur) (fc + int (Suc j) * uc)"
  show "list_all (\<lambda>i. Q (fr + i * ur) (fc + i * uc)) [1..int m]"
  proof (unfold list_all_iff, intro ballI)
    fix i assume "i \<in> set [1..int m]"
    then have "nat (i - 1) < m" "int (Suc (nat (i - 1))) = i" by auto
    then show "Q (fr + i * ur) (fc + i * uc)" using h by metis
  qed
next
  assume h: "list_all (\<lambda>i. Q (fr + i * ur) (fc + i * uc)) [1..int m]"
  show "\<forall>j<m. Q (fr + int (Suc j) * ur) (fc + int (Suc j) * uc)"
  proof (intro allI impI)
    fix j assume "j < m"
    then have "int (Suc j) \<in> set [1..int m]" by simp
    then show "Q (fr + int (Suc j) * ur) (fc + int (Suc j) * uc)" using h by (simp add: list_all_iff)
  qed
qed

text \<open>A sliding attack, read forwards: a unit direction of the kind, a distance, a clear line.\<close>

lemma slide_attacks_iff:
  "slide_attacks b k fr fc r c \<longleftrightarrow>
   (\<exists>ur uc m. unit_dir ur uc \<and>
      (k = Queen \<or> k = Rook \<and> (ur = 0 \<or> uc = 0) \<or> k = Bishop \<and> ur \<noteq> 0 \<and> uc \<noteq> 0) \<and>
      r = fr + int (Suc m) * ur \<and> c = fc + int (Suc m) * uc \<and>
      (\<forall>j<m. getPiece b (fr + int (Suc j) * ur) (fc + int (Suc j) * uc) = None))"
proof
  assume sa: "slide_attacks b k fr fc r c"
  define n where "n = max \<bar>r - fr\<bar> \<bar>c - fc\<bar>"
  define m where "m = nat (n - 1)"
  have n: "0 < n" "r - fr = n * sgn (r - fr)" "c - fc = n * sgn (c - fc)"
    and kind: "k = Queen \<or> k = Rook \<and> (r - fr = 0 \<or> c - fc = 0) \<or>
               k = Bishop \<and> r - fr \<noteq> 0 \<and> c - fc \<noteq> 0"
    and between: "list_all (\<lambda>i. getPiece b (fr + i * sgn (r - fr)) (fc + i * sgn (c - fc)) = None)
                    [1..n - 1]"
    using sa by (simp_all add: slide_attacks_def Let_def n_def)
  have N: "int (Suc m) = n" "int m = n - 1" using n(1) by (simp_all add: m_def)
  have "unit_dir (sgn (r - fr)) (sgn (c - fc))"
    using n(1) by (auto simp: unit_dir_def sgn_if n_def split: if_splits)
  moreover have "r = fr + int (Suc m) * sgn (r - fr)" "c = fc + int (Suc m) * sgn (c - fc)"
    unfolding N(1) using n(2,3) by simp_all
  moreover have "\<forall>j<m. getPiece b (fr + int (Suc j) * sgn (r - fr)) (fc + int (Suc j) * sgn (c - fc)) = None"
    unfolding forward_reindex[of m "\<lambda>x y. getPiece b x y = None"] N(2) using between .
  moreover have "k = Queen \<or> k = Rook \<and> (sgn (r - fr) = 0 \<or> sgn (c - fc) = 0) \<or>
                 k = Bishop \<and> sgn (r - fr) \<noteq> 0 \<and> sgn (c - fc) \<noteq> 0"
    using kind by (simp add: sgn_0_0)
  ultimately show "\<exists>ur uc m. unit_dir ur uc \<and>
      (k = Queen \<or> k = Rook \<and> (ur = 0 \<or> uc = 0) \<or> k = Bishop \<and> ur \<noteq> 0 \<and> uc \<noteq> 0) \<and>
      r = fr + int (Suc m) * ur \<and> c = fc + int (Suc m) * uc \<and>
      (\<forall>j<m. getPiece b (fr + int (Suc j) * ur) (fc + int (Suc j) * uc) = None)"
    by blast
next
  assume "\<exists>ur uc m. unit_dir ur uc \<and>
      (k = Queen \<or> k = Rook \<and> (ur = 0 \<or> uc = 0) \<or> k = Bishop \<and> ur \<noteq> 0 \<and> uc \<noteq> 0) \<and>
      r = fr + int (Suc m) * ur \<and> c = fc + int (Suc m) * uc \<and>
      (\<forall>j<m. getPiece b (fr + int (Suc j) * ur) (fc + int (Suc j) * uc) = None)"
  then obtain ur uc m where u: "unit_dir ur uc"
    and kind: "k = Queen \<or> k = Rook \<and> (ur = 0 \<or> uc = 0) \<or> k = Bishop \<and> ur \<noteq> 0 \<and> uc \<noteq> 0"
    and at: "r = fr + int (Suc m) * ur" "c = fc + int (Suc m) * uc"
    and empty: "\<forall>j<m. getPiece b (fr + int (Suc j) * ur) (fc + int (Suc j) * uc) = None"
    by blast
  have geo: "max \<bar>r - fr\<bar> \<bar>c - fc\<bar> = int (Suc m)" "sgn (r - fr) = ur" "sgn (c - fc) = uc"
    using u by (auto simp: at unit_dir_def sgn_if)
  have "list_all (\<lambda>i. getPiece b (fr + i * ur) (fc + i * uc) = None) [1..int m]"
    using empty forward_reindex[of m "\<lambda>x y. getPiece b x y = None"] by blast
  then show "slide_attacks b k fr fc r c"
    unfolding slide_attacks_def Let_def geo using kind u by (auto simp: at unit_dir_def)
qed

lemma slide_ray_from_piece:
  assumes "inBounds fr fc" "unit_dir ur uc"
  shows "(r, c) \<in> set (slide_ray b col (fr + ur) (fc + uc) ur uc ray_fuel) \<longleftrightarrow>
         (\<exists>m. r = fr + int (Suc m) * ur \<and> c = fc + int (Suc m) * uc \<and> inBounds r c \<and>
              (\<forall>j<m. getPiece b (fr + int (Suc j) * ur) (fc + int (Suc j) * uc) = None) \<and>
              getColor (getPiece b r c) \<noteq> Some col)"
proof -
  have shift: "fr + ur + int j * ur = fr + int (Suc j) * ur" "fc + uc + int j * uc = fc + int (Suc j) * uc"
    for j by (simp_all add: algebra_simps)
  show ?thesis
  proof
    assume "(r, c) \<in> set (slide_ray b col (fr + ur) (fc + uc) ur uc ray_fuel)"
    then show "\<exists>m. r = fr + int (Suc m) * ur \<and> c = fc + int (Suc m) * uc \<and> inBounds r c \<and>
              (\<forall>j<m. getPiece b (fr + int (Suc j) * ur) (fc + int (Suc j) * uc) = None) \<and>
              getColor (getPiece b r c) \<noteq> Some col"
      unfolding slide_ray_iff shift by blast
  next
    assume "\<exists>m. r = fr + int (Suc m) * ur \<and> c = fc + int (Suc m) * uc \<and> inBounds r c \<and>
              (\<forall>j<m. getPiece b (fr + int (Suc j) * ur) (fc + int (Suc j) * uc) = None) \<and>
              getColor (getPiece b r c) \<noteq> Some col"
    then obtain m where at: "r = fr + int (Suc m) * ur" "c = fc + int (Suc m) * uc"
      and inb: "inBounds r c"
      and empty: "\<forall>j<m. getPiece b (fr + int (Suc j) * ur) (fc + int (Suc j) * uc) = None"
      and col: "getColor (getPiece b r c) \<noteq> Some col" by blast
    have end_in: "inBounds (fr + int (Suc m) * ur) (fc + int (Suc m) * uc)" using inb at by simp
    have "Suc m < 8" using ray_length[OF assms(1) end_in assms(2)] .
    moreover have "inBounds (fr + int (Suc j) * ur) (fc + int (Suc j) * uc)" if "j < m" for j
      using inBounds_between[OF assms(1) end_in assms(2), of "Suc j"] that by simp
    ultimately show "(r, c) \<in> set (slide_ray b col (fr + ur) (fc + uc) ur uc ray_fuel)"
      unfolding slide_ray_iff shift ray_fuel_def using at inb empty col
      by (intro exI[of _ m]) auto
  qed
qed

lemma slide_dirs_iff:
  "k \<in> {Queen, Rook, Bishop} \<Longrightarrow>
   (ur, uc) \<in> set ((if k = Bishop \<or> k = Queen then bishopDirs else []) @
                    (if k = Rook \<or> k = Queen then rookDirs else [])) \<longleftrightarrow>
   unit_dir ur uc \<and> (k = Queen \<or> k = Rook \<and> (ur = 0 \<or> uc = 0) \<or> k = Bishop \<and> ur \<noteq> 0 \<and> uc \<noteq> 0)"
  by (auto simp: bishopDirs_def rookDirs_def unit_dir_def)

lemma in_concat_map_pair:
  "x \<in> set (concat (map (\<lambda>(dr, dc). f dr dc) ds)) \<longleftrightarrow> (\<exists>dr dc. (dr, dc) \<in> set ds \<and> x \<in> set (f dr dc))"
  by auto

lemma slide_moves_iff:
  assumes "inBounds fr fc" "k \<in> {Queen, Rook, Bishop}"
  shows "(r, c) \<in> set (slide_moves b col k fr fc) \<longleftrightarrow>
         inBounds r c \<and> slide_attacks b k fr fc r c \<and> getColor (getPiece b r c) \<noteq> Some col"
    (is "?L \<longleftrightarrow> ?R")
proof
  assume ?L
  then obtain ur uc where u: "unit_dir ur uc"
    and kind: "k = Queen \<or> k = Rook \<and> (ur = 0 \<or> uc = 0) \<or> k = Bishop \<and> ur \<noteq> 0 \<and> uc \<noteq> 0"
    and ray: "(r, c) \<in> set (slide_ray b col (fr + ur) (fc + uc) ur uc ray_fuel)"
    unfolding slide_moves_def Let_def in_concat_map_pair slide_dirs_iff[OF assms(2)] by blast
  obtain m where at: "r = fr + int (Suc m) * ur" "c = fc + int (Suc m) * uc" and inb: "inBounds r c"
    and empty: "\<forall>j<m. getPiece b (fr + int (Suc j) * ur) (fc + int (Suc j) * uc) = None"
    and col: "getColor (getPiece b r c) \<noteq> Some col"
    using ray unfolding slide_ray_from_piece[OF assms(1) u] by blast
  have "slide_attacks b k fr fc r c"
    unfolding slide_attacks_iff using u kind at empty by blast
  then show ?R using inb col by blast
next
  assume ?R
  then have inb: "inBounds r c" and col: "getColor (getPiece b r c) \<noteq> Some col"
    and "slide_attacks b k fr fc r c" by simp_all
  then obtain ur uc m where u: "unit_dir ur uc"
    and kind: "k = Queen \<or> k = Rook \<and> (ur = 0 \<or> uc = 0) \<or> k = Bishop \<and> ur \<noteq> 0 \<and> uc \<noteq> 0"
    and at: "r = fr + int (Suc m) * ur" "c = fc + int (Suc m) * uc"
    and empty: "\<forall>j<m. getPiece b (fr + int (Suc j) * ur) (fc + int (Suc j) * uc) = None"
    unfolding slide_attacks_iff by blast
  have "(r, c) \<in> set (slide_ray b col (fr + ur) (fc + uc) ur uc ray_fuel)"
    unfolding slide_ray_from_piece[OF assms(1) u] using at inb empty col by blast
  then show ?L
    unfolding slide_moves_def Let_def in_concat_map_pair slide_dirs_iff[OF assms(2)]
    using u kind by blast
qed

section \<open>Pseudo-legal moves of the pieces other than pawns\<close>

lemma pseudo_moves_iff:
  assumes "getPiece b fr fc = Some p" "pkind p \<noteq> Pawn"
  shows "(r, c) \<in> set (getPseudoMovesForPiece st b fr fc) \<longleftrightarrow>
         (inBounds r c \<and> piece_attacks b p fr fc r c \<and> getColor (getPiece b r c) \<noteq> Some (pcolor p)) \<or>
         (pkind p = King \<and> (r, c) \<in> set (castle_moves st b (pcolor p)))"
proof -
  have fr: "inBounds fr fc" using assms(1) by (rule getPiece_Some_inBounds)
  show ?thesis
    using assms(2)
    apply (cases "pkind p")
        apply (simp_all add: assms(1) getPseudoMovesForPiece_def piece_attacks_def Let_def
          step_moves_iff knight_delta_iff king_delta_iff slide_moves_iff[OF fr])
    by auto
qed

end
