(* ===== verification/Spec2Isabelle.thy ===== *)
theory Spec2Isabelle
  imports Controller Render Moves_Spec
begin

text \<open>
  A verification model of the chess rules engine in \<open>src/renderer.js\<close> (ModernChessGUI),
  the renderer script of an Electron application. The script keeps the game in
  module-level variables and mutates them from event handlers; the model turns every
  handler into a function from an explicit state record to the next one.

  \<^bold>\<open>Parts of the program and where they are modelled.\<close>
  \<^item> \<open>Chess_Prelude\<close>: the piece tags of the source (\<open>"wP"\<close>, \<open>"bK"\<close>, \<open>""\<close>) as the
    datatypes \<open>color\<close>, \<open>kind\<close>, \<open>piece\<close> and \<open>cell\<close>; the board as a list of eight
    rows; squares as \<open>int\<close> pairs (the code computes \<open>row + dir\<close> and tests it with
    \<open>inBounds\<close>); decimal printing and the string \<open>join\<close>/\<open>split\<close> the encoder uses.
  \<^item> \<open>Board\<close>: the state records (\<open>castling_rights\<close>, \<open>pos_state\<close> for the globals
    \<open>castlingRights\<close>, \<open>enPassantTarget\<close>, \<open>halfmoveClock\<close>, \<open>fullmoveNumber\<close>;
    \<open>game_state\<close> adds \<open>board\<close>, \<open>turn\<close>, \<open>positionHistory\<close>), the helpers
    \<open>inBounds\<close>, \<open>getPiece\<close>, \<open>getColor\<close>, \<open>getType\<close>, \<open>coordToSquare\<close>, \<open>findKing\<close>,
    \<open>cloneBoard\<close> (a copy that is equal to its original, boards being values)
    and \<open>initialPosition\<close>.
  \<^item> \<open>Attack\<close>: \<open>isSquareAttacked\<close> and \<open>isKingInCheck\<close>; each ray of the oracle is the
    fuelled function \<open>attack_ray\<close>.
  \<^item> \<open>Apply\<close>: \<open>applyMoveOnBoard\<close>, one definition per block (en passant, relocation,
    promotion, castling rook, bookkeeping of a real move).
  \<^item> \<open>Moves\<close>: \<open>getPseudoMovesForPiece\<close> (pawn, step, sliding and castling moves),
    \<open>generateLegalMovesForSquare\<close> and \<open>sideHasAnyLegalMove\<close>.
  \<^item> \<open>FEN\<close>: \<open>boardToFEN\<close> and \<open>coordToFENPiece\<close>.
  \<^item> \<open>Status\<close>: \<open>checkInsufficientMaterial\<close>, \<open>checkRepetition\<close>, \<open>checkGameOver\<close>.
  \<^item> \<open>Game\<close>: the controller state \<open>ui_state\<close> and its handlers:
    \<open>resetBoardState\<close>, \<open>startNewGameFromPayload\<close>, \<open>endGameAndResetUI\<close>,
    \<open>finalizeMove\<close> (with \<open>playSound\<close> and the board's status class),
    \<open>maybeEngineMove\<close>, \<open>onSquareClick\<close>, \<open>showModal\<close> (the dialog shown, the
    piece images of the promotion options, the game-over title and reason), the promotion
    dialog's handler, the top-bar buttons and the theme; the review state
    (\<open>inReviewMode\<close>, \<open>reviewGame\<close>, \<open>reviewIndex\<close>, \<open>reviewCurrentTag\<close>) is a group of
    fields the stop and new-game handlers reset.
  \<^item> \<open>Engine\<close>: \<open>onEngineMove\<close> with its coordinate parser \<open>parse_uci\<close>, whose early
    returns are the values of \<open>engine_error\<close>.
  \<^item> \<open>Events\<close>: a datatype \<open>event\<close> with one constructor per listener of the script,
    the step function \<open>ui_step\<close> that dispatches it, runs \<open>ui_run\<close>, and the
    inductive predicate \<open>reachable_ui\<close> of the states reachable from the start, which
    \<open>reachable_ui_iff\<close> identifies with the states of the runs; the controller's
    invariants are proved over it by rule induction. The host's new-game payload is read
    by \<open>payload_engine\<close>, \<open>payload_humanColor\<close> and \<open>payload_engineId\<close> (in \<open>Game\<close>).
  \<^item> \<open>Controller\<close>: no code of its own; the invariant \<open>ui_inv\<close> of the controller state
    (8x8 board, en-passant target and pending promotion on the board, highlighted
    destinations equal to the legal moves of the selection, game-over class unset),
    one preservation lemma per handler, and \<open>reachable_ui_inv\<close>: every state
    \<open>ui_run initial_ui es\<close> satisfies it; \<open>reachable_review_off\<close>: no handler
    enters review mode; \<open>reachable_ledger_ok\<close>: the ledger ends with the current FEN.
  \<^item> \<open>Attack_Spec\<close>: no code of its own; the declarative attack relation
    \<open>attacked_spec\<close> (each piece's geometry, from the attacker's side), the check test
    \<open>in_check_spec\<close> built on it, and the lemmas that relate the oracle's fuelled rays and
    offset tables to it (\<open>isSquareAttacked_attacked_spec\<close>, \<open>isKingInCheck_spec\<close>).
  \<^item> \<open>Moves_Spec\<close>: no code of its own; the rays of \<open>slide_moves\<close> and the offset
    tables of \<open>step_moves\<close> related to the declarative attack relation.
  \<^item> \<open>Render\<close>: \<open>renderBoard\<close> as a pure function from the state to the rows of
    square nodes (\<open>square_node\<close>: shade, highlights, piece, annotation, move dot,
    capture flash, click listener), and the abstract view \<open>board_view\<close> it refines.

  \<^bold>\<open>How the parts interact.\<close> A click selects a piece and computes its legal moves
  (\<open>generateLegalMovesForSquare\<close>: pseudo-legal moves filtered by probing each one with
  \<open>applyMoveOnBoard\<close> in non-committing mode and asking \<open>isKingInCheck\<close>); a second click
  on a highlighted square commits it with \<open>finalizeMove\<close>, which applies the move for
  real, flips the turn, appends the FEN to the ledger and calls \<open>checkGameOver\<close>. An
  engine reply is parsed and handed to \<open>finalizeMove\<close> directly.

  \<^bold>\<open>What is proved.\<close> The claims C1 to C31 below.
  \<^item> Move legality: a committed legal move never leaves the mover's king in check, for any
    state with a well-formed board (C1) and for every reachable state through the
    highlighted squares (C15); castling is offered exactly under the source's conditions
    (C8); the non-committing probe computes the committing move's board (C7); the attack
    oracle equals the declarative attack relation (C24), pseudo-moves of the pieces
    other than pawns are the rules' moves (C25), and legal moves refine the rules with the
    declarative check test (C28).
  \<^item> Bookkeeping and the FEN ledger: a new game seeds the standard FEN (C3); the
    en-passant target, the halfmove clock and the castling rights after a committed move
    (C4 to C6); each FEN rank describes eight squares (C21); the repetition key drops
    exactly the clocks (C26); the ledger ends with the FEN of the current position in
    every reachable state (C30).
  \<^item> End of game: without a legal move no click changes the position (C2); the
    fifty-move rule only fires after a quiet move from a clock of at least 99 (C13); the
    board's check and mate classes (C18); the game-over dialog reports the final status,
    naming the mover after a mate (C31); a finished game still accepts clicks (C29).
  \<^item> Termination: the two ray loops, without fuel, terminate and compute the fuelled rays
    (C12).
  \<^item> The controller: in every reachable state the highlights are the legal moves of the
    selection (C16) and the board, en-passant target and pending promotion are well formed
    (C17); the rendered board refines the abstract view (C20); a promotion choice hides
    every dialog, also the game-over dialog of a mating promotion (C14); a new game keeps a
    pending promotion and its dialog (C19); each promotion option shows the piece it
    places (C27).
  \<^item> The engine: accepted replies name board squares (C9), the parser reads back
    \<open>coordToSquare\<close> (C10), a short reply is a TypeError (C11) that stalls the game for
    good (C23), and a move that hands the turn to the engine asks it or ends the game (C22).

  Besides the claims, \<open>engine_game_without_id_stalls\<close> shows an engine game whose
  payload has an empty engine id getting stuck after White's first move.

  \<^bold>\<open>Fuel.\<close> The two \<open>while (inBounds(r, c))\<close> ray loops (\<open>attack_ray\<close>,
  \<open>slide_ray\<close>) take at most eight steps on an 8x8 board; they run with a fuel of 8
  (\<open>ray_fuel\<close>), and \<open>attack_ray_enough_fuel\<close>/\<open>slide_ray_enough_fuel\<close> show that any
  larger fuel gives the same result, so the fuel never cuts a ray.

  \<^bold>\<open>Evaluation.\<close> Every definition is executable; the scenario theorems below run the
  controller on concrete clicks and are proved by \<open>code_simp\<close>. The continuations of
  \<open>finalizeMove\<close>, \<open>onSquareClick\<close>, the promotion dialog and the engine handler are
  functions that pattern-match on the value they continue from, so that evaluation
  computes that value first.

  \<^bold>\<open>Not modelled.\<close> The DOM calls themselves (\<open>createElement\<close>, \<open>innerHTML\<close>,
  the button styles): the model keeps the state they would show (\<open>renderBoard\<close>'s
  nodes, the dialog shown with its images and texts, the board's status class) instead. Audio
  playback (\<open>new Audio(...).play()\<close>): the model logs the file \<open>playSound\<close> picks.
  The CSS the \<open>data-theme\<close> attribute selects (\<open>initTheme\<close> and \<open>onThemeChanged\<close>
  are modelled as setting the attribute). Review mode has no entry point in the file: \<open>reviewGame\<close> and
  \<open>reviewIndex\<close> are only reset, and no handler sets \<open>inReviewMode\<close>. The
  Electron host (main process, preload script, engine adapter) is not in \<open>src/\<close>: the
  messages the controller sends are appended to logs (\<open>positionsSent\<close>,
  \<open>engineRequests\<close>, \<open>matchStops\<close>, the request counters), and whatever the host sends
  back (any payload, engine reply or theme) is an event of \<open>ui_step\<close>. The listener
  registrations and the element lookups (\<open>getElementById\<close>) are the wiring of
  \<open>ui_step\<close>, not separate definitions. Writes \<open>b[r][c] = v\<close> are modelled on the
  board's squares only; the source never writes off the board.
\<close>

section \<open>Scenario states\<close>

definition new_game :: ui_state where
  "new_game = startNewGameFromPayload initial_ui False White None"

text \<open>Constructed positions: pieces placed on an empty board, no castling rights.\<close>

definition empty_board :: board where
  "empty_board = replicate 8 (replicate 8 None)"

definition place :: "(square \<times> piece) list \<Rightarrow> board" where
  "place ps = fold (\<lambda>((r, c), p) b. set_cell b r c (Some p)) ps empty_board"

definition position :: "board \<Rightarrow> color \<Rightarrow> ui_state" where
  "position b side = initial_ui\<lparr>board := b, turn := side, gameMode := HumanMode,
     castlingRights := \<lparr>wK = False, wQ = False, bK = False, bQ = False\<rparr>\<rparr>"

text \<open>White: Ke1, Ra1, Nb1, Rh1, all castling rights; Black: Ke8.\<close>

definition castle_ready :: ui_state where
  "castle_ready = (position (place [((7, 4), Piece White King), ((7, 0), Piece White Rook),
                                    ((7, 1), Piece White Knight), ((7, 7), Piece White Rook),
                                    ((0, 4), Piece Black King)]) White)\<lparr>castlingRights := all_rights\<rparr>"

text \<open>A game against an engine playing Black, after 1.e4: the engine is asked to move.\<close>

definition engine_game :: ui_state where
  "engine_game = ui_run (startNewGameFromPayload initial_ui True White (Some ''engine''))
                   (move_clicks [(6, 4, 4, 4)])"

text \<open>A game against an engine playing Black, with White's e-pawn selected.\<close>

definition engine_selected :: ui_state where
  "engine_selected = ui_run (startNewGameFromPayload initial_ui True White (Some ''engine''))
                       [Click 6 4]"

text \<open>White: Kg6, pawn a7; Black: Kh8. White to move; a8=Q is mate.\<close>

definition promotion_mate :: ui_state where
  "promotion_mate = position (place [((0, 7), Piece Black King), ((1, 0), Piece White Pawn),
                                     ((2, 6), Piece White King)]) White"

text \<open>The host's payload for a game between two humans, White at the bottom.\<close>

definition human_white :: new_game_payload where
  "human_white = \<lparr>pl_mode = Some ''human'', pl_engineId = None, pl_humanColor = Some ''w''\<rparr>"

text \<open>A new game between humans from the loaded page, then 1.f3 e5 2.g4 Qh4 by clicks.\<close>

definition fools_mate_events :: "event list" where
  "fools_mate_events = NewGame (Some human_white) #
     move_clicks [(6, 5, 5, 5), (1, 4, 3, 4), (6, 6, 4, 6), (0, 3, 4, 7)]"

text \<open>A payload for an engine game whose engine id is the empty string.\<close>

definition engine_no_id :: new_game_payload where
  "engine_no_id = \<lparr>pl_mode = Some ''engine'', pl_engineId = Some [], pl_humanColor = Some ''w''\<rparr>"

section \<open>Legal moves keep the mover's king safe\<close>

text \<open>
  C1: a destination offered by \<open>generateLegalMovesForSquare\<close>, once committed by
  \<open>finalizeMove\<close> with any promotion piece the callers pass (none, or a non-king piece of
  the mover's colour), never leaves the mover's king in check. The probe tries promotions
  as a queen; the committed piece may differ, and only blocks as the queen did.
\<close>

theorem legal_move_keeps_king_safe:
  assumes "board_ok (board s)" "ep_ok s"
    and "(tr, tc) \<in> set (generateLegalMovesForSquare s fr fc)"
    and "promo_ok (turn s) pp"
  shows "\<not> isKingInCheck (board (finalizeMove s fr fc tr tc pp)) (turn s)"
  using legal_moved_board_safe[OF assms] by (simp add: finalizeMove_fields)

theorem legal_move_keeps_king_safe_witness:
  "board_ok (board new_game) \<and> ep_ok new_game \<and>
   (4, 4) \<in> set (generateLegalMovesForSquare new_game 6 4) \<and>
   promo_ok (turn new_game) None \<and>
   \<not> isKingInCheck (board (finalizeMove new_game 6 4 4 4 None)) (turn new_game)"
proof -
  have h: "board_ok (board new_game)" "ep_ok new_game"
    "(4, 4) \<in> set (generateLegalMovesForSquare new_game 6 4)" "promo_ok (turn new_game) None"
    by (code_simp, code_simp, code_simp, simp add: promo_ok_def)
  show ?thesis using h legal_move_keeps_king_safe[OF h] by simp
qed

section \<open>A side without a legal move\<close>

text \<open>
  C2: in every reachable state in which the side to move has no legal move (checkmate or
  stalemate), no click can change the position: no destination is highlighted, so a
  click only selects, deselects or clears, and the board, the side to move and the
  ledger stay as they are.
\<close>

theorem no_legal_move_freezes_board:
  assumes "\<not> sideHasAnyLegalMove (ui_run initial_ui es) (turn (ui_run initial_ui es))"
  shows "board (onSquareClick (ui_run initial_ui es) r c) = board (ui_run initial_ui es) \<and>
         turn (onSquareClick (ui_run initial_ui es) r c) = turn (ui_run initial_ui es) \<and>
         positionHistory (onSquareClick (ui_run initial_ui es) r c) =
           positionHistory (ui_run initial_ui es)"
proof -
  define s where "s = ui_run initial_ui es"
  have "ui_inv s" unfolding s_def by (rule reachable_ui_inv)
  then have none: "legalMovesForSelected s = []"
    using no_legal_move[OF assms[folded s_def]]
    by (auto simp: ui_inv_def sel_ok_def split: option.splits)
  have "board (click_on s r c (selectedSquare s)) = board s \<and>
        turn (click_on s r c (selectedSquare s)) = turn s \<and>
        positionHistory (click_on s r c (selectedSquare s)) = positionHistory s"
    using none
    by (cases "(s, r, c, selectedSquare s)" rule: click_on.cases)
       (auto simp: select_or_clear_def Let_def)
  then show ?thesis unfolding s_def[symmetric] by (simp add: onSquareClick_def)
qed

theorem no_legal_move_freezes_board_witness:
  "board (onSquareClick (ui_run initial_ui fools_mate_events) 6 4) =
     board (ui_run initial_ui fools_mate_events) \<and>
   turn (onSquareClick (ui_run initial_ui fools_mate_events) 6 4) =
     turn (ui_run initial_ui fools_mate_events)"
proof -
  have h: "\<not> sideHasAnyLegalMove (ui_run initial_ui fools_mate_events)
                 (turn (ui_run initial_ui fools_mate_events))"
    by code_simp
  show ?thesis using no_legal_move_freezes_board[OF h, of 6 4] by simp
qed

section \<open>A new game\<close>

text \<open>
  C3: whatever state it starts from, a new game seeds the ledger with exactly the FEN of
  the standard starting position, White to move, all castling rights, no en-passant
  square and the clocks at 0 and 1.
\<close>

theorem new_game_ledger:
  "positionHistory (startNewGameFromPayload s engine hColor engineId) =
     [''rnbqkbnr/pppppppp/8/8/8/8/PPPPPPPP/RNBQKBNR w KQkq - 0 1'']"
proof -
  have "boardToFEN initial_ui initialPosition White =
        ''rnbqkbnr/pppppppp/8/8/8/8/PPPPPPPP/RNBQKBNR w KQkq - 0 1''"
    by code_simp
  then show ?thesis
    by (simp add: startNewGameFromPayload_def Let_def resetBoardState_history)
qed

section \<open>Bookkeeping of a committed move\<close>

text \<open>
  C4: after every committed move the en-passant target is the square a pawn skipped by a
  two-square advance, and otherwise it is cleared, whatever it was before: a target lives
  for exactly one reply.
\<close>

theorem finalizeMove_en_passant_target:
  "enPassantTarget (finalizeMove s fr fc tr tc pp) =
     (if getType (cell_at (board s) fr fc) = Some Pawn \<and> \<bar>tr - fr\<bar> = 2
      then Some ((fr + tr) div 2, fc) else None)"
  by (simp add: finalizeMove_fields commit_bookkeeping_def Let_def)

text \<open>
  C5: after every committed move the halfmove clock is 0 if a pawn moved or a piece was
  captured (en passant included), and one more than before otherwise.
\<close>

theorem finalizeMove_halfmove_clock:
  "halfmoveClock (finalizeMove s fr fc tr tc pp) =
     (if getType (cell_at (board s) fr fc) = Some Pawn \<or>
         snd (ep_capture s (board s) fr fc tr tc) \<noteq> None
      then 0 else Suc (halfmoveClock s))"
  by (simp add: finalizeMove_fields commit_bookkeeping_def Let_def)

text \<open>C6: a committed move never restores a castling right that was already revoked.\<close>

theorem finalizeMove_rights_monotone:
  "rights_sub (castlingRights (finalizeMove s fr fc tr tc pp)) (castlingRights s)"
  by (simp add: finalizeMove_fields rights_sub_commit)

theorem finalizeMove_rights_monotone_witness:
  "rights_sub (castlingRights (finalizeMove new_game 7 4 6 4 None)) (castlingRights new_game) \<and>
   \<not> wK (castlingRights (finalizeMove new_game 7 4 6 4 None))"
  using finalizeMove_rights_monotone [of new_game 7 4 6 4 None] by code_simp

section \<open>The ray loops terminate\<close>

text \<open>
  C12: the two \<open>while (inBounds(r, c))\<close> loops, written as the source has them, without
  fuel, as the partial functions \<open>attack_loop\<close> (oracle) and \<open>slide_loop\<close> (sliding
  moves), in which a loop that never ends is \<open>None\<close>, terminate on every direction of the
  source's tables from every square, and return what the fuelled rays \<open>attack_ray\<close> and
  \<open>slide_ray\<close> with the model's fuel of eight compute.
\<close>

theorem ray_loops_terminate:
  assumes "(dr, dc) \<in> set attackDirs"
  shows "attack_loop b byColor dg r c dr dc = Some (attack_ray b byColor dg r c dr dc ray_fuel) \<and>
         slide_loop b color r c dr dc = Some (slide_ray b color r c dr dc ray_fuel)"
proof -
  have u: "unit_dir dr dc" using assms by (rule unit_dir_attackDirs)
  have "inBounds r c \<Longrightarrow> ray_room r c dr dc \<le> ray_fuel"
    by (simp add: ray_fuel_def ray_room_le)
  then show ?thesis using attack_loop_fuel[OF u] slide_loop_fuel[OF u] by simp
qed

theorem ray_loops_terminate_witness:
  "attack_loop initialPosition Black True 5 5 (-1) (-1) =
     Some (attack_ray initialPosition Black True 5 5 (-1) (-1) ray_fuel) \<and>
   slide_loop initialPosition White 5 5 (-1) (-1) =
     Some (slide_ray initialPosition White 5 5 (-1) (-1) ray_fuel)"
proof -
  have h: "(-1::int, -1::int) \<in> set attackDirs" by (simp add: attackDirs_def)
  show ?thesis using ray_loops_terminate[OF h] by simp
qed

section \<open>The fifty-move rule\<close>

text \<open>
  C13: the fifty-move rule can only end the game after a quiet move: when the state
  \<open>finalizeMove\<close> leaves is reported drawn by the fifty-move rule, the moved piece was not
  a pawn, the move captured nothing (en passant included), and the halfmove clock was at
  least 99 before the move.
\<close>

theorem fifty_move_rule_after_quiet_move:
  fixes s :: ui_state
  assumes "checkGameOver (finalizeMove s fr fc tr tc pp) (board (finalizeMove s fr fc tr tc pp))
             (turn (finalizeMove s fr fc tr tc pp)) = FiftyMoveRule"
  shows "getType (cell_at (board s) fr fc) \<noteq> Some Pawn \<and>
         snd (ep_capture s (board s) fr fc tr tc) = None \<and> 99 \<le> halfmoveClock s"
proof -
  have "100 \<le> halfmoveClock (finalizeMove s fr fc tr tc pp)"
    using assms by (rule checkGameOver_FiftyMoveRule)
  then show ?thesis
    by (auto simp: finalizeMove_fields commit_bookkeeping_def Let_def split: if_splits)
qed

theorem fifty_move_rule_after_quiet_move_witness:
  "getType (cell_at (board (new_game\<lparr>halfmoveClock := 99\<rparr>)) 7 6) \<noteq> Some Pawn \<and>
   99 \<le> halfmoveClock (new_game\<lparr>halfmoveClock := 99\<rparr>)"
proof -
  have h: "checkGameOver (finalizeMove (new_game\<lparr>halfmoveClock := 99\<rparr>) 7 6 5 5 None)
             (board (finalizeMove (new_game\<lparr>halfmoveClock := 99\<rparr>) 7 6 5 5 None))
             (turn (finalizeMove (new_game\<lparr>halfmoveClock := 99\<rparr>) 7 6 5 5 None)) = FiftyMoveRule"
    by code_simp
  show ?thesis using fifty_move_rule_after_quiet_move[OF h] by simp
qed

section \<open>Castling\<close>

theorem castling_offered_iff_witness:
  "getPiece (board castle_ready) 7 4 = Some (Piece White King) \<and> (7::int) = (if White = White then 7 else 0) \<and>
   (7, 6) \<in> set (getPseudoMovesForPiece castle_ready (board castle_ready) 7 4) \<and>
   (7, 2) \<notin> set (getPseudoMovesForPiece castle_ready (board castle_ready) 7 4)"
proof -
  have h: "getPiece (board castle_ready) 7 4 = Some (Piece White King)"
          "(7::int) = (if White = White then 7 else 0)"
    by code_simp+
  show ?thesis
    using h Moves.castling_offered_iff[OF h, where st = castle_ready] by code_simp
qed

section \<open>The promotion dialog closes even when the game ends\<close>

text \<open>
  C14: for every state with a pending promotion, choosing a piece commits the pending move
  with that piece, clears the pending move and hides every dialog. When the move ends the
  game, \<open>finalizeMove\<close> has stopped the match and shown the game-over dialog, and the
  choice handler's \<open>hideModals()\<close> hides it again: the match is over and no dialog says so.
\<close>

theorem promotion_choice_hides_dialog:
  fixes s :: ui_state
  assumes "promotionPending s = Some (fr, fc, tr, tc)"
  shows "shownModal (onPromoOption s k) = NoModal \<and> promotionPending (onPromoOption s k) = None \<and>
         board (onPromoOption s k) = board (finalizeMove s fr fc tr tc (Some (Piece (turn s) k))) \<and>
         (checkGameOver (onPromoOption s k) (board (onPromoOption s k)) (turn (onPromoOption s k))
            \<noteq> Ongoing \<longrightarrow> matchStops (onPromoOption s k) = Suc (matchStops s))"
proof -
  define s' where "s' = finalizeMove s fr fc tr tc (Some (Piece (turn s) k))"
  have eq: "onPromoOption s k = hideModals (s'\<lparr>promotionPending := None\<rparr>)"
    using assms by (simp add: onPromoOption_def s'_def)
  have "checkGameOver (onPromoOption s k) = checkGameOver s'"
    unfolding eq by (rule checkGameOver_cong) (simp_all add: hideModals_def)
  then show ?thesis
    using finalizeMove_status[of s fr fc tr tc "Some (Piece (turn s) k)", folded s'_def]
    by (simp add: eq hideModals_def s'_def)
qed

theorem promotion_choice_hides_dialog_witness:
  "shownModal (onPromoOption (ui_run promotion_mate [Click 1 0, Click 0 0]) Queen) = NoModal \<and>
   matchStops (onPromoOption (ui_run promotion_mate [Click 1 0, Click 0 0]) Queen) =
     Suc (matchStops (ui_run promotion_mate [Click 1 0, Click 0 0]))"
proof -
  have h: "promotionPending (ui_run promotion_mate [Click 1 0, Click 0 0]) = Some (1, 0, 0, 0)"
    by code_simp
  have o: "checkGameOver (onPromoOption (ui_run promotion_mate [Click 1 0, Click 0 0]) Queen)
             (board (onPromoOption (ui_run promotion_mate [Click 1 0, Click 0 0]) Queen))
             (turn (onPromoOption (ui_run promotion_mate [Click 1 0, Click 0 0]) Queen)) \<noteq> Ongoing"
    by code_simp
  show ?thesis using promotion_choice_hides_dialog[OF h, of Queen] o by simp
qed

section \<open>Every reachable state of the controller\<close>

text \<open>
  C15: in every state the controller reaches from the script's start by any sequence of
  clicks, promotion choices, engine replies, new games, stops and closed dialogs, a move
  committed from the highlighted destinations of the selected square (directly, or
  through the promotion dialog with a non-king piece) never leaves the mover's king in
  check.
\<close>

theorem clicked_move_keeps_king_safe:
  assumes "selectedSquare (ui_run initial_ui es) = Some (fr, fc)"
    and "(tr, tc) \<in> set (legalMovesForSelected (ui_run initial_ui es))"
    and "promo_ok (turn (ui_run initial_ui es)) pp"
  shows "\<not> isKingInCheck (board (finalizeMove (ui_run initial_ui es) fr fc tr tc pp))
           (turn (ui_run initial_ui es))"
proof -
  have inv: "ui_inv (ui_run initial_ui es)" by (rule reachable_ui_inv)
  then have "(tr, tc) \<in> set (generateLegalMovesForSquare (ui_run initial_ui es) fr fc)"
    using assms(1,2) by (simp add: ui_inv_def sel_ok_def)
  moreover have "board_ok (board (ui_run initial_ui es))" "ep_ok (ui_run initial_ui es)"
    using inv by (simp_all add: ui_inv_def)
  ultimately show ?thesis
    using legal_moved_board_safe assms(3) by (simp add: finalizeMove_fields)
qed

theorem clicked_move_keeps_king_safe_witness:
  "selectedSquare (ui_run initial_ui [Click 6 4]) = Some (6, 4) \<and>
   (4, 4) \<in> set (legalMovesForSelected (ui_run initial_ui [Click 6 4])) \<and>
   promo_ok (turn (ui_run initial_ui [Click 6 4])) None \<and>
   \<not> isKingInCheck (board (finalizeMove (ui_run initial_ui [Click 6 4]) 6 4 4 4 None))
     (turn (ui_run initial_ui [Click 6 4]))"
proof -
  have h: "selectedSquare (ui_run initial_ui [Click 6 4]) = Some (6, 4)"
    "(4, 4) \<in> set (legalMovesForSelected (ui_run initial_ui [Click 6 4]))"
    "promo_ok (turn (ui_run initial_ui [Click 6 4])) None"
    by (code_simp, code_simp, simp add: promo_ok_def)
  show ?thesis using h clicked_move_keeps_king_safe[OF h] by simp
qed

text \<open>
  C16: in every reachable state the highlighted destinations (\<open>legalMovesForSelected\<close>)
  are exactly the legal moves of the selected square in the current position, and none
  without a selection: no handler leaves a stale highlight behind.
\<close>

theorem highlighted_moves_are_legal:
  "legalMovesForSelected (ui_run initial_ui es) =
     (case selectedSquare (ui_run initial_ui es) of
        None \<Rightarrow> []
      | Some (r, c) \<Rightarrow> generateLegalMovesForSquare (ui_run initial_ui es) r c)"
  using reachable_ui_inv[of es] by (auto simp: ui_inv_def sel_ok_def split: option.splits)

text \<open>
  C17: in every reachable state the board is an 8 by 8 grid, the en-passant target and
  both squares of a pending promotion lie on the board, whatever the engine replies.
\<close>

theorem reachable_board_well_formed:
  "board_ok (board (ui_run initial_ui es)) \<and> ep_ok (ui_run initial_ui es) \<and>
   (case promotionPending (ui_run initial_ui es) of
      None \<Rightarrow> True
    | Some (fr, fc, tr, tc) \<Rightarrow> inBounds fr fc \<and> inBounds tr tc)"
  using reachable_ui_inv[of es] by (simp add: ui_inv_def pending_ok_def)

section \<open>The board's status class\<close>

text \<open>
  C18: after every committed move the board carries the class \<open>board-mate\<close> exactly when
  the side to move is in check and has no legal move, \<open>board-check\<close> when it is in check
  and has one, and neither class otherwise.
\<close>

theorem finalizeMove_board_status:
  "let s' = finalizeMove s fr fc tr tc pp in
   boardStatus s' =
     (if isKingInCheck (board s') (turn s')
      then (if sideHasAnyLegalMove s' (turn s') then BoardCheck else BoardMate)
      else NoStatus)"
proof -
  have side: "sideHasAnyLegalMove (finalize_end s4 pp cap st ic) = sideHasAnyLegalMove s4"
    for s4 :: ui_state and cap st ic
    by (rule sideHasAnyLegalMove_cong) simp_all
  show ?thesis
    unfolding finalizeMove_def applyMoveOnBoard_real finalize_after.simps Let_def
    by (simp add: finalize_end_boardStatus checkGameOver_mate side)
qed

section \<open>A promotion dialog left open by a new game\<close>

text \<open>
  C19: a new game, whatever the host's payload and the state, resets the board and the
  side to move but keeps the pending promotion and the dialog that offers it, so the next
  choice commits a move taken from the old position on the fresh board.
\<close>

theorem new_game_keeps_pending_promotion:
  "promotionPending (onNewGameStart s p) = promotionPending s \<and>
   shownModal (onNewGameStart s p) = shownModal s \<and>
   board (onNewGameStart s p) = initialPosition \<and> turn (onNewGameStart s p) = White"
  by (simp add: onNewGameStart_def startNewGameFromPayload_def resetBoardState_def Let_def)

section \<open>What the board shows\<close>

text \<open>
  C20: in every reachable state the rendered board refines the abstract view
  \<open>board_view\<close>: square by square, \<open>renderBoard\<close> draws the piece of the position and a
  move dot exactly on the legal destinations of the selected piece (none without a
  selection).
\<close>

theorem rendered_board_refines_view:
  "map (map (\<lambda>v. (sv_piece v, sv_dot v))) (renderBoard (ui_run initial_ui es)) =
   board_view (ui_run initial_ui es)"
proof -
  have "sel_ok (ui_run initial_ui es)" using reachable_ui_inv[of es] by (simp add: ui_inv_def)
  then show ?thesis
    unfolding renderBoard_view board_view_def
    by (cases "selectedSquare (ui_run initial_ui es)") (auto simp: sel_ok_def)
qed

section \<open>Well-formed FEN ranks\<close>

text \<open>
  C21: every rank field \<open>boardToFEN\<close> writes describes exactly eight squares (each digit
  counts that many empty squares, each letter one piece), whatever the board: the
  run-length counter \<open>empty\<close> is flushed before every piece and at the end of the rank.
\<close>

theorem fen_rank_width: "fen_width (fen_rank b r) = 8"
  using fen_width_fen_row[of 0 "map (\<lambda>c. cell_at b r c) [0..7]" "[]"] by (simp add: fen_rank_def)

section \<open>The engine is asked, or stalls\<close>

text \<open>
  C22: whenever a committed move in a game against an engine hands the turn to the
  engine's colour while the engine is idle, either the game is over and the dialog shows
  its result, or the engine is asked to move from the position just exported.
\<close>

theorem engine_asked_after_move:
  assumes "gameMode s = EngineMode" "opponentEngineId s \<noteq> None" "\<not> engineThinking s"
    and "engineColor s = Some (turn (finalizeMove s fr fc tr tc pp))"
  shows "let s' = finalizeMove s fr fc tr tc pp in
         (\<exists>st. st \<noteq> Ongoing \<and> shownModal s' = GameOverModal st) \<or>
         (engineThinking s' \<and>
          engineRequests s' = engineRequests s @ [last (positionsSent s')])"
  using assms unfolding finalizeMove_def applyMoveOnBoard_real finalize_after.simps Let_def
  by (intro finalize_end_engine) (simp_all add: commit_bookkeeping_def boardToFEN_def Let_def)

theorem engine_asked_after_move_witness:
  "gameMode engine_selected = EngineMode \<and> opponentEngineId engine_selected \<noteq> None \<and>
   \<not> engineThinking engine_selected \<and>
   engineColor engine_selected = Some (turn (finalizeMove engine_selected 6 4 4 4 None)) \<and>
   (let s' = finalizeMove engine_selected 6 4 4 4 None in
    (\<exists>st. st \<noteq> Ongoing \<and> shownModal s' = GameOverModal st) \<or>
    (engineThinking s' \<and> engineRequests s' = engineRequests engine_selected @ [last (positionsSent s')]))"
proof -
  have h: "gameMode engine_selected = EngineMode" "opponentEngineId engine_selected \<noteq> None"
    "\<not> engineThinking engine_selected"
    "engineColor engine_selected = Some (turn (finalizeMove engine_selected 6 4 4 4 None))"
    by code_simp+
  show ?thesis using h engine_asked_after_move[OF h] by simp
qed

text \<open>
  C23: an engine reply of two characters (C11) stalls the game for good: the engine is to
  move but is not thinking and is never asked again, and every click and promotion choice
  leaves the state unchanged (the click handler waits for the engine's turn to pass).
\<close>

theorem short_reply_stalls_game:
  "let s = ui_step engine_game (EngineReply ''e2'') in
   turn s = Black \<and> engineColor s = Some Black \<and> \<not> engineThinking s \<and>
   engineRequests s = engineRequests engine_game \<and>
   (\<forall>r c. ui_step s (Click r c) = s) \<and> (\<forall>k. ui_step s (PromoChoice k) = s)"
proof -
  have e: "onEngineMove engine_game ''e2'' = engine_game\<lparr>engineThinking := False\<rparr>"
    by (simp add: onEngineMove_def parse_uci_def)
  have f: "gameMode engine_game = EngineMode" "turn engine_game = Black"
    "humanColor engine_game = White" "engineColor engine_game = Some Black"
    "promotionPending engine_game = None"
    by code_simp+
  show ?thesis by (simp add: Let_def e f onSquareClick_def onPromoOption_def)
qed

section \<open>The attack oracle meets its specification\<close>

text \<open>
  C24: for every square of the board, \<open>isSquareAttacked\<close>, which looks outwards from the
  target (pawn squares, the offset tables, eight fuelled rays), answers exactly the
  declarative question \<open>attacked_spec\<close>: does some piece of the colour attack the square
  by its own move geometry, with the line clear for a queen, rook or bishop.
\<close>

theorem isSquareAttacked_spec:
  assumes "inBounds r c"
  shows "isSquareAttacked b r c col = attacked_spec b r c col"
  using assms by (rule isSquareAttacked_attacked_spec)

theorem isSquareAttacked_spec_witness:
  "inBounds 5 4 \<and> isSquareAttacked initialPosition 5 4 White = attacked_spec initialPosition 5 4 White"
  using isSquareAttacked_spec[of 5 4 initialPosition White] by (simp add: inBounds_def)

section \<open>Move generation meets the rules\<close>

text \<open>
  C25: for a knight, bishop, rook, queen or king on the board, the destinations
  \<open>getPseudoMovesForPiece\<close> produces are exactly the squares the piece attacks by the
  declarative relation of \<open>Attack_Spec\<close> that do not hold a piece of its own colour,
  plus, for a king, the castling destinations of \<open>castle_moves\<close>.
\<close>

theorem pseudo_moves_spec:
  assumes "getPiece b fr fc = Some p" "pkind p \<noteq> Pawn"
  shows "(r, c) \<in> set (getPseudoMovesForPiece st b fr fc) \<longleftrightarrow>
         (inBounds r c \<and> piece_attacks b p fr fc r c \<and> getColor (getPiece b r c) \<noteq> Some (pcolor p)) \<or>
         (pkind p = King \<and> (r, c) \<in> set (castle_moves st b (pcolor p)))"
  using assms by (rule pseudo_moves_iff)

theorem pseudo_moves_spec_witness:
  "getPiece initialPosition 7 6 = Some (Piece White Knight) \<and> pkind (Piece White Knight) \<noteq> Pawn \<and>
   ((5, 5) \<in> set (getPseudoMovesForPiece initial_ui initialPosition 7 6) \<longleftrightarrow>
    (inBounds 5 5 \<and> piece_attacks initialPosition (Piece White Knight) 7 6 5 5 \<and>
     getColor (getPiece initialPosition 5 5) \<noteq> Some (pcolor (Piece White Knight))) \<or>
    (pkind (Piece White Knight) = King \<and>
     (5, 5) \<in> set (castle_moves initial_ui initialPosition (pcolor (Piece White Knight)))))"
proof -
  have h: "getPiece initialPosition 7 6 = Some (Piece White Knight)" "pkind (Piece White Knight) \<noteq> Pawn"
    by (code_simp, simp)
  show ?thesis using h pseudo_moves_spec[OF h, of 5 5 initial_ui] by simp
qed

section \<open>The repetition key drops exactly the clocks\<close>

text \<open>C26. \<open>checkRepetition\<close> compares positions by \<open>fen_key\<close>, the first four
  space-separated fields of a FEN. For every state whose en-passant target lies on the board,
  the key of \<open>boardToFEN\<close> followed by the halfmove clock and the fullmove number gives the
  FEN back: splitting on spaces recovers the fields \<open>boardToFEN\<close> joined, and the key
  keeps placement, side to move, castling and en-passant square and drops only the clocks.\<close>

theorem fen_key_drops_clocks:
  assumes "\<And>r c. enPassantTarget st = Some (r, c) \<Longrightarrow> inBounds r c"
  shows "fen_key (boardToFEN st b ac) @ '' '' @ nat_str (halfmoveClock st) @ '' '' @
           nat_str (fullmoveNumber st) = boardToFEN st b ac"
proof -
  have "fen_key (boardToFEN st b ac) =
    join_str '' '' (take 4 [join_str ''/'' (map (fen_rank b) [0..7]),
      if ac = Black then ''b'' else ''w'', castling_field (castlingRights st),
      case enPassantTarget st of None \<Rightarrow> ''-'' | Some (row, col) \<Rightarrow> coordToSquare row col,
      nat_str (halfmoveClock st), nat_str (fullmoveNumber st)])"
    by (simp only: fen_key_def boardToFEN_fields[OF assms])
  then show ?thesis by (simp add: boardToFEN_def Let_def)
qed

theorem fen_key_drops_clocks_witness:
  "fen_key (boardToFEN (initial_ui\<lparr>enPassantTarget := Some (5, 4)\<rparr>) initialPosition Black) @ '' '' @
     nat_str (halfmoveClock initial_ui) @ '' '' @ nat_str (fullmoveNumber initial_ui) =
   boardToFEN (initial_ui\<lparr>enPassantTarget := Some (5, 4)\<rparr>) initialPosition Black"
  using fen_key_drops_clocks[of "initial_ui\<lparr>enPassantTarget := Some (5, 4)\<rparr>" initialPosition Black]
  by (simp add: inBounds_def)

section \<open>The promotion dialog shows what it places\<close>

text \<open>C27. When a click on a highlighted last-rank square of a selected pawn of the side to move
  opens the promotion dialog, the move waits in \<open>promotionPending\<close>, the four options show the
  images of the queen, rook, bishop and knight of the side to move, and choosing an option
  puts exactly the piece its image shows on the target square.\<close>

theorem promotion_dialog_places_shown_piece:
  assumes "board_ok (board s)" "selectedSquare s = Some (fr, fc)"
    "(r, c) \<in> set (legalMovesForSelected s)" "getPiece (board s) fr fc = Some (Piece (turn s) Pawn)"
    "turn s = White \<and> r = 0 \<or> turn s = Black \<and> r = 7" "inBounds r c"
  shows "shownModal (click_on s r c (selectedSquare s)) = PromotionModal \<and>
    promotionPending (click_on s r c (selectedSquare s)) = Some (fr, fc, r, c) \<and>
    map fst (promoIcons (click_on s r c (selectedSquare s))) = [Queen, Rook, Bishop, Knight] \<and>
    (\<forall>(t, img) \<in> set (promoIcons (click_on s r c (selectedSquare s))).
       img = piece_image (Piece (turn s) t) \<and>
       getPiece (board (onPromoOption (click_on s r c (selectedSquare s)) t)) r c = Some (Piece (turn s) t))"
proof -
  define s1 where "s1 = click_on s r c (selectedSquare s)"
  have s1: "s1 = showModal (s\<lparr>promotionPending := Some (fr, fc, r, c)\<rparr>) PromotionModal"
    using assms(2-5) by (auto simp: s1_def Let_def simp del: showModal_eq)
  have "getPiece (board (onPromoOption s1 t)) r c = Some (Piece (turn s) t)" for t
  proof -
    have "board (onPromoOption s1 t) = moved_board s1 (board s) fr fc r c (Some (Piece (turn s) t))"
      by (simp add: s1 onPromoOption_def hideModals_def finalizeMove_fields)
    then show ?thesis using moved_board_promotion[OF assms(1,4,6,5)] by simp
  qed
  then show ?thesis unfolding s1_def[symmetric] by (simp add: s1 promo_icons_def)
qed

theorem promotion_dialog_places_shown_piece_witness:
  "shownModal (click_on (ui_run promotion_mate [Click 1 0]) 0 0
     (selectedSquare (ui_run promotion_mate [Click 1 0]))) = PromotionModal \<and>
   getPiece (board (onPromoOption (click_on (ui_run promotion_mate [Click 1 0]) 0 0
     (selectedSquare (ui_run promotion_mate [Click 1 0]))) Queen)) 0 0 = Some (Piece White Queen) \<and>
   getPiece (board (onPromoOption (click_on (ui_run promotion_mate [Click 1 0]) 0 0
     (selectedSquare (ui_run promotion_mate [Click 1 0]))) Knight)) 0 0 = Some (Piece White Knight)"
proof -
  define s where "s = ui_run promotion_mate [Click 1 0]"
  have h: "board_ok (board s)" "selectedSquare s = Some (1, 0)"
    "(0, 0) \<in> set (legalMovesForSelected s)" "getPiece (board s) 1 0 = Some (Piece (turn s) Pawn)"
    "turn s = White \<and> (0::int) = 0 \<or> turn s = Black \<and> (0::int) = 7" "inBounds 0 0"
    and w: "turn s = White"
    and icons: "map fst (promoIcons (click_on s 0 0 (selectedSquare s))) = [Queen, Rook, Bishop, Knight]"
    unfolding s_def by code_simp+
  have "Queen \<in> fst ` set (promoIcons (click_on s 0 0 (selectedSquare s)))"
    "Knight \<in> fst ` set (promoIcons (click_on s 0 0 (selectedSquare s)))"
    using arg_cong[OF icons, of set] by (simp_all only: set_map) simp_all
  then show ?thesis
    using promotion_dialog_places_shown_piece[OF h] w unfolding s_def by fastforce
qed

section \<open>Legal moves refine the rules\<close>

text \<open>C28. For a knight, bishop, rook, queen or king, \<open>generateLegalMovesForSquare\<close> offers
  exactly the moves of the rules: the piece belongs to the side to move, the target is a
  square it attacks that holds no piece of its own colour (or a castling square of a king),
  and after the move its king is not attacked in the sense of the declarative relation
  \<open>attacked_spec\<close>. The offset tables, the fuelled rays and the backward attack lookup of
  the source disappear from the statement.\<close>

theorem legal_moves_refine_rules:
  assumes "getPiece (board g) fr fc = Some p" "pkind p \<noteq> Pawn"
  shows "(r, c) \<in> set (generateLegalMovesForSquare g fr fc) \<longleftrightarrow>
    pcolor p = turn g \<and>
    ((inBounds r c \<and> piece_attacks (board g) p fr fc r c \<and>
      getColor (getPiece (board g) r c) \<noteq> Some (pcolor p)) \<or>
     (pkind p = King \<and> (r, c) \<in> set (castle_moves g (board g) (pcolor p)))) \<and>
    \<not> in_check_spec (probe_board g (board g) fr fc r c) (pcolor p)"
  using assms by (auto simp: legal_iff pseudo_moves_iff[OF assms] isKingInCheck_spec)

theorem legal_moves_refine_rules_witness:
  "(5, 5) \<in> set (generateLegalMovesForSquare initial_ui 7 6) \<and>
   \<not> in_check_spec (probe_board initial_ui initialPosition 7 6 5 5) White"
proof -
  have h: "getPiece (board initial_ui) 7 6 = Some (Piece White Knight)" "pkind (Piece White Knight) \<noteq> Pawn"
    by (code_simp, simp)
  have m: "(5, 5) \<in> set (generateLegalMovesForSquare initial_ui 7 6)" by code_simp
  show ?thesis using m legal_moves_refine_rules[OF h, of 5 5] by (simp add: initial_ui_def)
qed

section \<open>A finished game still accepts clicks\<close>

text \<open>
  C29: in every reachable game between humans, the state any committed move leaves, also
  one that ends the game, is still in human mode and hands every click to the selection
  logic \<open>click_on\<close>: \<open>finalizeMove\<close> neither leaves the mode nor sets the class
  \<open>visible\<close> that the game-over guard of \<open>onSquareClick\<close> tests, so once the dialog is
  closed play goes on, while the specification makes an ended game final.
\<close>

theorem finished_game_accepts_clicks:
  assumes "gameMode (ui_run initial_ui es) = HumanMode"
  shows "gameMode (finalizeMove (ui_run initial_ui es) fr fc tr tc pp) = HumanMode \<and>
         onSquareClick (finalizeMove (ui_run initial_ui es) fr fc tr tc pp) r c =
           click_on (finalizeMove (ui_run initial_ui es) fr fc tr tc pp) r c
             (selectedSquare (finalizeMove (ui_run initial_ui es) fr fc tr tc pp))"
proof -
  have "ui_inv (ui_run initial_ui es)" by (rule reachable_ui_inv)
  then have "\<not> gameOverVisibleClass (ui_run initial_ui es)" by (simp add: ui_inv_def)
  then show ?thesis
    using assms reachable_review_off[of es] by (simp add: onSquareClick_def finalizeMove_fields)
qed

theorem finished_game_accepts_clicks_witness:
  "gameMode (finalizeMove (ui_run initial_ui [NewGame (Some human_white)]) 6 4 4 4 None) = HumanMode \<and>
   onSquareClick (finalizeMove (ui_run initial_ui [NewGame (Some human_white)]) 6 4 4 4 None) 1 4 =
     click_on (finalizeMove (ui_run initial_ui [NewGame (Some human_white)]) 6 4 4 4 None) 1 4
       (selectedSquare (finalizeMove (ui_run initial_ui [NewGame (Some human_white)]) 6 4 4 4 None))"
proof -
  have h: "gameMode (ui_run initial_ui [NewGame (Some human_white)]) = HumanMode" by code_simp
  show ?thesis using finished_game_accepts_clicks[OF h] by simp
qed

section \<open>The ledger follows the position\<close>

text \<open>C30. In every state the controller reaches from the loaded script, the last entry of the
  ledger \<open>positionHistory\<close> that \<open>checkRepetition\<close> counts is the FEN of the current
  position (board, side to move, castling rights, en-passant target and clocks), unless the
  ledger is still empty: the repetition check always sees the position it is asked about.\<close>

theorem ledger_tracks_position:
  "positionHistory (ui_run initial_ui es) = [] \<or>
   last (positionHistory (ui_run initial_ui es)) =
     boardToFEN (ui_run initial_ui es) (board (ui_run initial_ui es)) (turn (ui_run initial_ui es))"
  using reachable_ledger_ok[of es] by (simp add: ledger_ok_def)

section \<open>The game-over dialog reports the status\<close>

text \<open>C31. Whenever a committed move ends the game, \<open>finalizeMove\<close> shows the game-over dialog
  for exactly the status of the position it leaves, with that status's result as title and
  its winner in the reason line, and stops the match once; a checkmate names as winner the
  side that just moved.\<close>

theorem game_over_dialog_reports_status:
  fixes s :: ui_state
  assumes "checkGameOver (finalizeMove s fr fc tr tc pp) (board (finalizeMove s fr fc tr tc pp))
             (turn (finalizeMove s fr fc tr tc pp)) = st" "st \<noteq> Ongoing"
  shows "shownModal (finalizeMove s fr fc tr tc pp) = GameOverModal st \<and>
         gameOverText (finalizeMove s fr fc tr tc pp) =
           Some (outcome_result st, ''Winner: '' @ outcome_winner st) \<and>
         matchStops (finalizeMove s fr fc tr tc pp) = Suc (matchStops s) \<and>
         (\<forall>w. st = Checkmate w \<longrightarrow> w = enemy_of (turn (finalizeMove s fr fc tr tc pp)))"
  using finalizeMove_status[of s fr fc tr tc pp] assms checkGameOver_Checkmate by auto

theorem game_over_dialog_reports_status_witness:
  "shownModal (finalizeMove (ui_run new_game (move_clicks [(6, 5, 5, 5), (1, 4, 3, 4), (6, 6, 4, 6)]))
      0 3 4 7 None) = GameOverModal (Checkmate Black) \<and>
   gameOverText (finalizeMove (ui_run new_game (move_clicks [(6, 5, 5, 5), (1, 4, 3, 4), (6, 6, 4, 6)]))
      0 3 4 7 None) = Some (''Checkmate'', ''Winner: Black'')"
proof -
  define s where "s = ui_run new_game (move_clicks [(6, 5, 5, 5), (1, 4, 3, 4), (6, 6, 4, 6)])"
  have h: "checkGameOver (finalizeMove s 0 3 4 7 None) (board (finalizeMove s 0 3 4 7 None))
             (turn (finalizeMove s 0 3 4 7 None)) = Checkmate Black"
    unfolding s_def by code_simp
  show ?thesis
    using game_over_dialog_reports_status[OF h] unfolding s_def[symmetric]
    by (simp add: outcome_result_def outcome_winner_def)
qed

section \<open>An engine game without an engine\<close>

text \<open>
  A payload asking for an engine game with an empty (or missing) engine id is accepted:
  \<open>engineId || null\<close> gives \<open>null\<close>, but the mode is still \<open>engine\<close> and the engine plays
  Black. After White's first move \<open>maybeEngineMove\<close> returns at \<open>!opponentEngineId\<close>, so
  nobody asks for Black's move, and \<open>onSquareClick\<close> ignores every click because it is not
  the human's turn: the game is stuck.
\<close>

theorem engine_game_without_id_stalls:
  "let s = ui_run initial_ui [NewGame (Some engine_no_id), Click 6 4, Click 4 4] in
   gameMode s = EngineMode \<and> opponentEngineId s = None \<and> engineColor s = Some Black \<and>
   turn s = Black \<and> engineRequests s = [] \<and> \<not> engineThinking s \<and>
   (\<forall>r c. onSquareClick s r c = s)"
proof -
  define s where "s = ui_run initial_ui [NewGame (Some engine_no_id), Click 6 4, Click 4 4]"
  have f: "gameMode s = EngineMode" "opponentEngineId s = None" "engineColor s = Some Black"
    "turn s = Black" "engineRequests s = []" "\<not> engineThinking s" "humanColor s = White"
    unfolding s_def by code_simp+
  then have "onSquareClick s r c = s" for r c by (simp add: onSquareClick_def)
  with f show ?thesis unfolding s_def[symmetric] Let_def by blast
qed

end
